theory Spec2Isabelle
  imports Main "HOL-Library.AList"
begin

section \<open>Python values, truthiness and exceptions\<close>

text \<open>
  The handlers work on dynamically typed dictionaries: Lambda events, boto3 responses and
  DynamoDB items.  They are embedded as one datatype of JSON-like values; \<open>JNull\<close> is
  Python's \<open>None\<close>.  Floating-point numbers are not represented.
\<close>

datatype json =
    JNull
  | JBool bool
  | JNum int
  | JStr string
  | JArr "json list"
  | JObj "(string \<times> json) list"

text \<open>Every exception a handler can end with is a value of this type.\<close>

datatype error =
    MalformedEvent string
  | MissingEnvironmentVariable string
  | ValueError
  | KeyError string
  | TypeError
  | AttributeError
  | IndexError
  | ClientError string
  | PyException string
  | OtherError string

text \<open>Truth value of an object in a condition (\<open>if not x\<close>).\<close>

fun truthy :: "json \<Rightarrow> bool" where
  "truthy JNull = False"
| "truthy (JBool b) = b"
| "truthy (JNum n) = (n \<noteq> 0)"
| "truthy (JStr s) = (s \<noteq> [])"
| "truthy (JArr xs) = (xs \<noteq> [])"
| "truthy (JObj kvs) = (kvs \<noteq> [])"

text \<open>\<open>d.get(k)\<close>: only a dict has the method; a missing key gives \<open>None\<close>.\<close>

fun py_get :: "json \<Rightarrow> string \<Rightarrow> error + json" where
  "py_get (JObj kvs) k = Inr (case map_of kvs k of Some v \<Rightarrow> v | None \<Rightarrow> JNull)"
| "py_get _ k = Inl AttributeError"

text \<open>\<open>d.get(k, default)\<close>.\<close>

fun py_get_default :: "json \<Rightarrow> string \<Rightarrow> json \<Rightarrow> error + json" where
  "py_get_default (JObj kvs) k d = Inr (case map_of kvs k of Some v \<Rightarrow> v | None \<Rightarrow> d)"
| "py_get_default _ k d = Inl AttributeError"

text \<open>\<open>d[k]\<close> with a string key: \<open>KeyError\<close> on a dict without the key, \<open>TypeError\<close>
  on every other kind of object.\<close>

fun py_subscript :: "json \<Rightarrow> string \<Rightarrow> error + json" where
  "py_subscript (JObj kvs) k = (case map_of kvs k of Some v \<Rightarrow> Inr v | None \<Rightarrow> Inl (KeyError k))"
| "py_subscript _ k = Inl TypeError"

text \<open>\<open>xs[0]\<close>.\<close>

fun py_first :: "json \<Rightarrow> error + json" where
  "py_first (JArr []) = Inl IndexError"
| "py_first (JArr (x # xs)) = Inr x"
| "py_first (JStr []) = Inl IndexError"
| "py_first (JStr (c # cs)) = Inr (JStr [c])"
| "py_first (JObj kvs) = Inl (KeyError ''0'')"
| "py_first _ = Inl TypeError"

text \<open>The elements a \<open>for\<close> loop visits.\<close>

fun py_iter :: "json \<Rightarrow> error + json list" where
  "py_iter (JArr xs) = Inr xs"
| "py_iter (JStr s) = Inr (map (\<lambda>c. JStr [c]) s)"
| "py_iter (JObj kvs) = Inr (map (\<lambda>kv. JStr (fst kv)) kvs)"
| "py_iter _ = Inl TypeError"

text \<open>\<open>str.lower()\<close> on the ASCII letters; any other object has no such method.\<close>

definition lower_char :: "char \<Rightarrow> char" where
  "lower_char c =
     (let n = (of_char c :: nat) in if 65 \<le> n \<and> n \<le> 90 then char_of (n + 32) else c)"

fun py_lower :: "json \<Rightarrow> error + string" where
  "py_lower (JStr s) = Inr (map lower_char s)"
| "py_lower _ = Inl AttributeError"

text \<open>The value of \<open>os.environ.get(name)\<close> counts as present when it is a non-empty string.\<close>

definition env_present :: "string option \<Rightarrow> bool" where
  "env_present v = (case v of None \<Rightarrow> False | Some s \<Rightarrow> s \<noteq> [])"

text \<open>An optional string inside an f-string: \<open>None\<close> is rendered as the text None.\<close>

definition fmt_opt :: "string option \<Rightarrow> string" where
  "fmt_opt v = (case v of None \<Rightarrow> ''None'' | Some s \<Rightarrow> s)"


section \<open>The world outside a handler\<close>

text \<open>
  A boto3 call \<open>client.operation(**kwargs)\<close> is recorded as the client's service name, the
  operation and the keyword arguments.
\<close>

datatype call = Call string string "(string \<times> json) list"

text \<open>
  A DynamoDB item is its attribute dictionary (the typed wire format and the
  \<open>TypeSerializer\<close>/\<open>TypeDeserializer\<close> pair are identified with the Python values they
  encode).  A table maps the value of the key attribute \<open>id\<close> to the item.
\<close>

type_synonym item = "(string \<times> json) list"
type_synonym table = "(string \<times> item) list"

text \<open>
  The environment of an invocation: the process environment variables, the answers of the
  AWS services (an exception or a response dictionary, possibly depending on the calls made
  so far), \<open>json.loads\<close> (\<open>None\<close> for a \<open>JSONDecodeError\<close>) and \<open>json.dumps\<close>, the
  values produced by
  successive \<open>uuid.uuid4()\<close> calls and by the clock, and \<open>str()\<close> of a value that is not
  a string.
\<close>

record env =
  environ :: "string \<Rightarrow> string option"
  aws :: "call list \<Rightarrow> call \<Rightarrow> error + json"
  loads :: "string \<Rightarrow> json option"
  dumps :: "json \<Rightarrow> string"
  uuid4 :: "nat \<Rightarrow> string"
  now :: "nat \<Rightarrow> string"
  render :: "json \<Rightarrow> string"

text \<open>
  The state handlers act on: the DynamoDB tables by name, the calls made so far, and how many
  identifiers have been drawn.
\<close>

record world =
  ddb :: "string \<Rightarrow> table"
  trace :: "call list"
  drawn :: nat

type_synonym 'a prog = "world \<Rightarrow> (error + 'a) \<times> world"

definition ok :: "'a \<Rightarrow> 'a prog" where
  "ok v w = (Inr v, w)"

definition raise :: "error \<Rightarrow> 'a prog" where
  "raise e w = (Inl e, w)"

definition lift :: "error + 'a \<Rightarrow> 'a prog" where
  "lift r w = (r, w)"

text \<open>Sequencing: an exception ends the invocation with the state reached so far.\<close>

definition pbind :: "'a prog \<Rightarrow> ('a \<Rightarrow> 'b prog) \<Rightarrow> 'b prog" where
  "pbind m f w = (case m w of (Inl e, w') \<Rightarrow> (Inl e, w') | (Inr v, w') \<Rightarrow> f v w')"

definition ebind :: "error + 'a \<Rightarrow> ('a \<Rightarrow> error + 'b) \<Rightarrow> error + 'b" where
  "ebind r f = (case r of Inl e \<Rightarrow> Inl e | Inr v \<Rightarrow> f v)"

text \<open>A call to a stateless service: recorded, answered by the environment.\<close>

definition api :: "env \<Rightarrow> call \<Rightarrow> json prog" where
  "api en c w = (aws en (trace w) c, w\<lparr>trace := trace w @ [c]\<rparr>)"

definition draw_uuid :: "env \<Rightarrow> string prog" where
  "draw_uuid en w = (Inr (uuid4 en (drawn w)), w\<lparr>drawn := Suc (drawn w)\<rparr>)"


text \<open>
  The idiom \<open>v = os.environ.get(NAME)\<close>, \<open>if not v: raise MissingEnvironmentVariable(msg)\<close>.
\<close>

definition require_env :: "env \<Rightarrow> string \<Rightarrow> string \<Rightarrow> string prog" where
  "require_env en name msg =
     (case environ en name of
        None \<Rightarrow> raise (MissingEnvironmentVariable msg)
      | Some v \<Rightarrow> if v = [] then raise (MissingEnvironmentVariable msg) else ok v)"

text \<open>A \<open>for\<close> loop whose body may raise: the first exception ends the loop.\<close>

fun for_each :: "('a \<Rightarrow> unit prog) \<Rightarrow> 'a list \<Rightarrow> unit prog" where
  "for_each body [] w = (Inr (), w)"
| "for_each body (x # xs) w =
     (case body x w of (Inl e, w') \<Rightarrow> (Inl e, w') | (Inr u, w') \<Rightarrow> for_each body xs w')"


section \<open>The tracker store\<close>

text \<open>The WHERE clause of a PartiQL SELECT: a conjunction of attribute equalities.\<close>

datatype cond = Eq string json | And cond cond

fun holds :: "cond \<Rightarrow> item \<Rightarrow> bool" where
  "holds (Eq a v) it = (map_of it a = Some v)"
| "holds (And c d) it = (holds c it \<and> holds d it)"

definition with_items :: "json \<Rightarrow> item list \<Rightarrow> json" where
  "with_items resp its =
     (case resp of JObj kvs \<Rightarrow> JObj (AList.update ''Items'' (JArr (map JObj its)) kvs) | _ \<Rightarrow> resp)"

text \<open>
  \<open>execute_statement\<close> with a SELECT: when the service answers, the response carries under
  \<open>Items\<close> the items of the table that satisfy the WHERE clause.
\<close>

definition execute_statement :: "env \<Rightarrow> string \<Rightarrow> string \<Rightarrow> cond \<Rightarrow> json prog" where
  "execute_statement en statement tname c w =
     (let cl = Call ''dynamodb'' ''execute_statement'' [(''Statement'', JStr statement)];
          w' = w\<lparr>trace := trace w @ [cl]\<rparr>
      in case aws en (trace w) cl of
           Inl e \<Rightarrow> (Inl e, w')
         | Inr resp \<Rightarrow> (Inr (with_items resp (filter (holds c) (map snd (ddb w tname)))), w'))"

text \<open>
  \<open>put_item\<close>, with or without \<open>ConditionExpression="attribute_not_exists(id)"\<close>.  A fault
  of the service leaves the table as it is; with the condition, an item stored under the same
  \<open>id\<close> makes the call raise \<open>ConditionalCheckFailedException\<close>; otherwise the item is
  stored under its \<open>id\<close>, replacing what was there.
\<close>

definition put_item_call :: "string \<Rightarrow> item \<Rightarrow> bool \<Rightarrow> call" where
  "put_item_call tname it if_absent =
     Call ''dynamodb'' ''put_item''
       ([(''TableName'', JStr tname), (''Item'', JObj it)] @
        (if if_absent then [(''ConditionExpression'', JStr ''attribute_not_exists(id)'')]
         else []))"

definition put_item :: "env \<Rightarrow> string \<Rightarrow> item \<Rightarrow> bool \<Rightarrow> json prog" where
  "put_item en tname it if_absent w =
     (let cl = put_item_call tname it if_absent;
          w' = w\<lparr>trace := trace w @ [cl]\<rparr>
      in case aws en (trace w) cl of
           Inl e \<Rightarrow> (Inl e, w')
         | Inr resp \<Rightarrow>
             (case map_of it ''id'' of
                Some (JStr k) \<Rightarrow>
                  if if_absent \<and> map_of (ddb w tname) k \<noteq> None
                  then (Inl (ClientError ''ConditionalCheckFailedException''), w')
                  else (Inr resp, w'\<lparr>ddb := (ddb w)(tname := AList.update k it (ddb w tname))\<rparr>)
              | _ \<Rightarrow> (Inl (ClientError ''ValidationException''), w')))"

text \<open>
  \<open>update_item\<close> with a SET expression: the named attributes of the item under the key are
  assigned, every other attribute is kept; a key without item gets a new item holding the key
  and the assigned attributes.
\<close>

definition assign :: "(string \<times> json) list \<Rightarrow> item \<Rightarrow> item" where
  "assign sets it = fold (\<lambda>av. AList.update (fst av) (snd av)) sets it"

definition update_item ::
  "env \<Rightarrow> string \<Rightarrow> string \<Rightarrow> (string \<times> json) list \<Rightarrow> (string \<times> json) list \<Rightarrow> json prog" where
  "update_item en tname k kwargs sets w =
     (let cl = Call ''dynamodb'' ''update_item''
                 ([(''TableName'', JStr tname), (''Key'', JObj [(''id'', JObj [(''S'', JStr k)])])]
                  @ kwargs);
          w' = w\<lparr>trace := trace w @ [cl]\<rparr>
      in case aws en (trace w) cl of
           Inl e \<Rightarrow> (Inl e, w')
         | Inr resp \<Rightarrow>
             (let old = (case map_of (ddb w tname) k of
                           Some it \<Rightarrow> it | None \<Rightarrow> [(''id'', JStr k)])
              in (Inr resp,
                  w'\<lparr>ddb := (ddb w)(tname := AList.update k (assign sets old) (ddb w tname))\<rparr>)))"


section \<open>Checks shared by the handlers\<close>

text \<open>
  \<open>_check_missing_field\<close> and \<open>_validate_field\<close> are the same in every handler file.
  In the comparison with the expected value, equality of Python objects is equality of
  values here (the expected values are strings and the number 200, which no boolean equals).
\<close>

definition check_missing_field :: "json \<Rightarrow> string \<Rightarrow> error + unit" where
  "check_missing_field validation_dict extraction_key =
     ebind (py_get validation_dict extraction_key) (\<lambda>extracted_value.
       if \<not> truthy extracted_value then Inl (MalformedEvent []) else Inr ())"

definition validate_field :: "json \<Rightarrow> string \<Rightarrow> json \<Rightarrow> error + unit" where
  "validate_field validation_dict extraction_key expected_value =
     ebind (py_get validation_dict extraction_key) (\<lambda>extracted_value.
     ebind (check_missing_field validation_dict extraction_key) (\<lambda>_.
       if extracted_value \<noteq> expected_value then Inl ValueError else Inr ()))"

text \<open>The check every handler makes on a response: metadata present, HTTP status 200.\<close>

definition check_response :: "json \<Rightarrow> error + unit" where
  "check_response resp =
     ebind (check_missing_field resp ''ResponseMetadata'') (\<lambda>_.
     ebind (py_subscript resp ''ResponseMetadata'') (\<lambda>md.
       validate_field md ''HTTPStatusCode'' (JNum 200)))"


section \<open>Handoff consumers: acknowledging and reading the message\<close>

text \<open>
  \<open>_get_sqs_message_attributes\<close> and \<open>_get_message_body\<close> are the same in
  \<open>glue-tracking-initial\<close> and \<open>rds-glue-initial\<close>.  The pair returned is
  (\<open>message_id\<close>, \<open>receipt_handle\<close>); \<open>None\<close> is the early \<open>return\<close>.
\<close>

definition get_sqs_message_attributes :: "json \<Rightarrow> error + (json \<times> json) option" where
  "get_sqs_message_attributes event =
     ebind (py_get event ''Records'') (\<lambda>records.
       if \<not> truthy records then Inr None
       else
         ebind (case py_first records of
                  Inl IndexError \<Rightarrow> Inl (MalformedEvent ''Records seem to be empty'')
                | r \<Rightarrow> r) (\<lambda>first_record.
         ebind (py_get first_record ''receiptHandle'') (\<lambda>receipt_handle.
         ebind (py_get first_record ''messageId'') (\<lambda>message_id.
           if \<not> truthy receipt_handle then Inl (MalformedEvent ''No receiptHandle present'')
           else if \<not> truthy message_id then Inl (MalformedEvent ''No messageId present'')
           else Inr (Some (message_id, receipt_handle))))))"

definition json_loads :: "env \<Rightarrow> json \<Rightarrow> error + json" where
  "json_loads en body =
     (case body of
        JStr s \<Rightarrow> (case loads en s of
                     None \<Rightarrow> Inl (MalformedEvent ''body is not valid JSON'')
                   | Some v \<Rightarrow> Inr v)
      | _ \<Rightarrow> Inl TypeError)"

definition get_message_body :: "env \<Rightarrow> json \<Rightarrow> error + json" where
  "get_message_body en event =
     ebind (py_get_default event ''test_event'' (JStr [])) (\<lambda>test_event.
     ebind (py_lower test_event) (\<lambda>lowered.
       if lowered = ''true'' then Inr event
       else
         ebind (py_get event ''Records'') (\<lambda>records.
           if \<not> truthy records then Inl (MalformedEvent ''Missing Records field in the event'')
           else
             ebind (py_first records) (\<lambda>first_record.
             ebind (case py_get first_record ''body'' of
                      Inl AttributeError \<Rightarrow> Inl (MalformedEvent ''First record is not a proper dict'')
                    | r \<Rightarrow> r) (\<lambda>body.
               if \<not> truthy body then Inl (MalformedEvent ''Missing body in the record'')
               else json_loads en body)))))"

text \<open>
  Deleting the message (\<open>_delete_sqs_message\<close>; inlined in \<open>rds-glue-initial\<close>): the queue
  URL is read from \<open>SQS_QUEUE_URL\<close>, the response must carry metadata with status 200.
\<close>

definition delete_sqs_message :: "env \<Rightarrow> json \<times> json \<Rightarrow> unit prog" where
  "delete_sqs_message en msg_attr =
     pbind (require_env en ''SQS_QUEUE_URL'' ''SQS_QUEUE_URL environment variable is required'')
       (\<lambda>queue_url.
     pbind (api en (Call ''sqs'' ''delete_message''
              [(''QueueUrl'', JStr queue_url), (''ReceiptHandle'', snd msg_attr)]))
       (\<lambda>deletion_resp. lift (
          ebind (py_get deletion_resp ''ResponseMetadata'') (\<lambda>resp_metadata.
            if \<not> truthy resp_metadata
            then Inl (PyException ''No response metadata from deletion call'')
            else ebind (py_get resp_metadata ''HTTPStatusCode'') (\<lambda>status_code.
              if status_code = JNum 200 then Inr ()
              else Inl (PyException ''Unable to delete message''))))))"


text \<open>
  The opening of both consumers: \<open>msg_attr = _get_sqs_message_attributes(event)\<close>, then
  \<open>if msg_attr:\<close> delete the message.
\<close>

definition acknowledge_message :: "env \<Rightarrow> json \<Rightarrow> unit prog" where
  "acknowledge_message en event =
     pbind (lift (get_sqs_message_attributes event)) (\<lambda>msg_attr.
       case msg_attr of None \<Rightarrow> ok () | Some ma \<Rightarrow> delete_sqs_message en ma)"


section \<open>Ingestion: the conditional insert\<close>

text \<open>
  The \<open>try\<close> block that ends both inserting handlers: \<open>put_item\<close> under the condition
  \<open>attribute_not_exists(id)\<close>; a \<open>ClientError\<close> with code
  \<open>ConditionalCheckFailedException\<close> is logged, any other \<open>ClientError\<close> becomes a bare
  \<open>Exception\<close>, and an exception of another class passes through.
\<close>

definition try_put_item :: "env \<Rightarrow> string \<times> item \<Rightarrow> unit prog" where
  "try_put_item en target w =
     (case put_item en (fst target) (snd target) True w of
        (Inr resp, w') \<Rightarrow> (Inr (), w')
      | (Inl (ClientError code), w') \<Rightarrow>
          if code = ''ConditionalCheckFailedException'' then (Inr (), w')
          else (Inl (PyException []), w')
      | (Inl e, w') \<Rightarrow> (Inl e, w'))"

text \<open>
  \<open>glue-tracking-initial\<close> after the acknowledgement, up to the item it is about to
  insert: read the body, read the table name, draw the identifier, build \<open>python_obj\<close>.
\<close>

definition body_to_python_obj :: "env \<Rightarrow> json \<Rightarrow> (string \<times> item) prog" where
  "body_to_python_obj en event =
     pbind (lift (get_message_body en event)) (\<lambda>body.
     pbind (require_env en ''GLUE_TRACKER_TABLE_NAME''
              ''GLUE_TRACKER_TABLE_NAME environment variable is required'') (\<lambda>ddb_table_name.
     pbind (draw_uuid en) (\<lambda>unique_id. lift (
       ebind (py_subscript body ''data_source_type'') (\<lambda>data_source_type.
       ebind (py_subscript body ''data_source_attrs'') (\<lambda>data_source_attrs.
         Inr (ddb_table_name,
              [(''id'', JStr unique_id),
               (''data_source_type'', data_source_type),
               (''glue_job_created'', JBool False),
               (''data_catalog_entry'', JBool False),
               (''data_source_attrs'', data_source_attrs)])))))))"

definition python_obj_glue_tracking_initial :: "env \<Rightarrow> json \<Rightarrow> (string \<times> item) prog" where
  "python_obj_glue_tracking_initial en event =
     pbind (acknowledge_message en event) (\<lambda>_. body_to_python_obj en event)"

definition lambda_handler_glue_tracking_initial :: "env \<Rightarrow> json \<Rightarrow> unit prog" where
  "lambda_handler_glue_tracking_initial en event =
     pbind (python_obj_glue_tracking_initial en event) (try_put_item en)"

text \<open>\<open>rds-glue-tracking-initial\<close>: the event is a catalog-side CreateTable notification.\<close>

definition extract_valid_event_rds_glue_tracking_initial :: "json \<Rightarrow> error + json" where
  "extract_valid_event_rds_glue_tracking_initial event =
     ebind (validate_field event ''source'' (JStr ''aws.glue'')) (\<lambda>_.
     ebind (check_missing_field event ''detail'') (\<lambda>_.
     ebind (py_subscript event ''detail'') (\<lambda>event_detail.
     ebind (validate_field event_detail ''eventName'' (JStr ''CreateTable'')) (\<lambda>_.
     ebind (check_missing_field event_detail ''requestParameters'') (\<lambda>_.
       py_subscript event_detail ''requestParameters'')))))"

text \<open>The result \<open>None\<close> is the early \<open>return\<close> for a table of another catalog database.\<close>

definition python_obj_rds_glue_tracking_initial ::
  "env \<Rightarrow> json \<Rightarrow> (string \<times> item) option prog" where
  "python_obj_rds_glue_tracking_initial en event =
     pbind (require_env en ''CATALOG_DB_NAME''
              ''CATALOG_DB_NAME environment variable is required'') (\<lambda>catalog_db_name.
     pbind (lift (extract_valid_event_rds_glue_tracking_initial event)) (\<lambda>valid_event.
     pbind (lift (check_missing_field valid_event ''databaseName'')) (\<lambda>_.
     pbind (lift (py_subscript valid_event ''databaseName'')) (\<lambda>database_name.
       if JStr catalog_db_name \<noteq> database_name then ok None
       else
         pbind (require_env en ''DDB_TABLE_NAME''
                  ''DDB_TABLE_NAME environment variable is required'') (\<lambda>ddb_table_name.
         pbind (lift (check_missing_field valid_event ''tableInput'')) (\<lambda>_.
         pbind (lift (py_subscript valid_event ''tableInput'')) (\<lambda>table_input.
         pbind (draw_uuid en) (\<lambda>unique_id. lift (
           ebind (py_get table_input ''parameters'') (\<lambda>parameters.
           ebind (if truthy parameters then py_subscript table_input ''parameters''
                  else Inr (JObj [])) (\<lambda>data_source_attrs.
           ebind (py_subscript table_input ''name'') (\<lambda>name.
             Inr (Some (ddb_table_name,
               [(''id'', JStr unique_id),
                (''data_source_type'', JStr ''rds''),
                (''data_catalog_table_name'', name),
                (''data_catalog_db_name'', database_name),
                (''glue_job_created'', JBool False),
                (''data_catalog_entry'', JBool True),
                (''data_source_attrs'', data_source_attrs)]))))))))))))))"

definition lambda_handler_rds_glue_tracking_initial :: "env \<Rightarrow> json \<Rightarrow> unit prog" where
  "lambda_handler_rds_glue_tracking_initial en event =
     pbind (python_obj_rds_glue_tracking_initial en event) (\<lambda>target.
       case target of None \<Rightarrow> ok () | Some t \<Rightarrow> try_put_item en t)"


section \<open>Stage advancement: scanning the tracker\<close>

text \<open>\<open>_fetch_ddb_results\<close> and \<open>unmarshall_ddb_items\<close>, the same in every scanning handler.\<close>

definition fetch_ddb_results :: "env \<Rightarrow> string \<Rightarrow> string \<Rightarrow> cond \<Rightarrow> json prog" where
  "fetch_ddb_results en query tname c =
     pbind (execute_statement en query tname c) (\<lambda>resp.
     pbind (lift (check_response resp)) (\<lambda>_. ok resp))"

fun is_dict :: "json \<Rightarrow> bool" where
  "is_dict (JObj kvs) = True"
| "is_dict _ = False"

definition unmarshall_ddb_items :: "json \<Rightarrow> error + json list" where
  "unmarshall_ddb_items ddb_items =
     ebind (py_iter ddb_items) (\<lambda>xs. if list_all is_dict xs then Inr xs else Inl AttributeError)"

text \<open>\<open>str(x)\<close> as an f-string computes it.\<close>

definition py_str :: "env \<Rightarrow> json \<Rightarrow> string" where
  "py_str en v =
     (case v of
        JStr s \<Rightarrow> s
      | JNull \<Rightarrow> ''None''
      | JBool b \<Rightarrow> (if b then ''True'' else ''False'')
      | _ \<Rightarrow> render en v)"

text \<open>\<open>s.replace(a, b)\<close> for single characters; only a string has the method.\<close>

fun py_replace :: "char \<Rightarrow> char \<Rightarrow> json \<Rightarrow> error + string" where
  "py_replace a b (JStr s) = Inr (map (\<lambda>c. if c = a then b else c) s)"
| "py_replace a b _ = Inl AttributeError"

text \<open>The value of a \<open>{"S": v}\<close> parameter must be a string.\<close>

fun param_string :: "json \<Rightarrow> error + string" where
  "param_string (JStr s) = Inr s"
| "param_string _ = Inl (OtherError ''ParamValidationError'')"


subsection \<open>Catalog stage (\<open>catalog-creator-s3\<close>)\<close>

definition DDB_PARTIQL_catalog_creator_s3 :: "string \<Rightarrow> string" where
  "DDB_PARTIQL_catalog_creator_s3 tname =
     ''SELECT * FROM '' @ tname @
     '' WHERE glue_job_created = False AND data_catalog_entry = False AND data_source_type = ''
     @ [CHR 0x27] @ ''s3'' @ [CHR 0x27]"

definition where_catalog_creator_s3 :: cond where
  "where_catalog_creator_s3 =
     And (Eq ''glue_job_created'' (JBool False))
       (And (Eq ''data_catalog_entry'' (JBool False)) (Eq ''data_source_type'' (JStr ''s3'')))"

definition update_ddb_catalog_creator_s3 ::
  "env \<Rightarrow> string \<Rightarrow> json \<Rightarrow> string \<Rightarrow> string \<Rightarrow> unit prog" where
  "update_ddb_catalog_creator_s3 en table_name obj dc_table_name dc_db_name =
     pbind (lift (ebind (py_subscript obj ''id'') param_string)) (\<lambda>k.
     pbind (update_item en table_name k
              [(''UpdateExpression'', JStr
                  (''SET #data_catalog_entry = :true, #data_catalog_table_name =:t, '' @
                   ''#data_catalog_db_name =:d'')),
               (''ExpressionAttributeNames'', JObj
                  [(''#data_catalog_entry'', JStr ''data_catalog_entry''),
                   (''#data_catalog_table_name'', JStr ''data_catalog_table_name''),
                   (''#data_catalog_db_name'', JStr ''data_catalog_db_name'')]),
               (''ExpressionAttributeValues'', JObj
                  [('':true'', JObj [(''BOOL'', JBool True)]),
                   ('':t'', JObj [(''S'', JStr dc_table_name)]),
                   ('':d'', JObj [(''S'', JStr dc_db_name)])])]
              [(''data_catalog_entry'', JBool True),
               (''data_catalog_table_name'', JStr dc_table_name),
               (''data_catalog_db_name'', JStr dc_db_name)]) (\<lambda>resp.
       lift (check_response resp)))"

definition create_data_catalog_table ::
  "env \<Rightarrow> string \<Rightarrow> string \<Rightarrow> json \<Rightarrow> string \<Rightarrow> unit prog" where
  "create_data_catalog_table en bucket_name data_catalog_db_name account_id table_name =
     pbind (api en (Call ''glue'' ''create_table''
              [(''CatalogId'', account_id),
               (''DatabaseName'', JStr data_catalog_db_name),
               (''TableInput'', JObj
                  [(''Name'', JStr table_name),
                   (''StorageDescriptor'', JObj
                      [(''Location'', JStr (''s3://'' @ bucket_name @ ''/''))])])])) (\<lambda>resp.
       lift (check_response resp))"

definition create_crawler :: "env \<Rightarrow> string \<Rightarrow> string \<Rightarrow> string \<Rightarrow> unit prog" where
  "create_crawler en data_catalog_db_name table_name role_arn =
     pbind (api en (Call ''glue'' ''create_crawler''
              [(''Name'', JStr (table_name @ ''_crawler'')),
               (''Role'', JStr role_arn),
               (''DatabaseName'', JStr data_catalog_db_name),
               (''Targets'', JObj
                  [(''CatalogTargets'', JArr
                      [JObj [(''DatabaseName'', JStr data_catalog_db_name),
                             (''Tables'', JArr [JStr table_name])]])]),
               (''SchemaChangePolicy'', JObj
                  [(''UpdateBehavior'', JStr ''UPDATE_IN_DATABASE''),
                   (''DeleteBehavior'', JStr ''LOG'')]),
               (''Schedule'', JStr ''cron(0 2 * * ? *)'')])) (\<lambda>resp.
       lift (check_response resp))"

text \<open>The body of the loop over the scanned records.\<close>

definition catalog_s3_obj ::
  "env \<Rightarrow> string \<Rightarrow> string \<Rightarrow> string \<Rightarrow> json \<Rightarrow> json \<Rightarrow> unit prog" where
  "catalog_s3_obj en ddb_table_name role_arn data_catalog_db_name account_id s3_obj =
     pbind (lift (ebind (py_subscript s3_obj ''data_source_attrs'') (\<lambda>attrs.
                    py_subscript attrs ''bucketName''))) (\<lambda>bucket_name.
     pbind (lift (ebind (py_replace (CHR ''-'') (CHR ''_'') bucket_name) (\<lambda>r.
                    py_replace (CHR ''.'') (CHR ''_'') (JStr r)))) (\<lambda>catalog_bucket_name.
       let dc_table_name = data_catalog_db_name @ ''_'' @ catalog_bucket_name in
       pbind (create_data_catalog_table en (py_str en bucket_name) data_catalog_db_name
                account_id dc_table_name) (\<lambda>_.
       pbind (create_crawler en data_catalog_db_name dc_table_name role_arn) (\<lambda>_.
         update_ddb_catalog_creator_s3 en ddb_table_name s3_obj dc_table_name
           data_catalog_db_name))))"

text \<open>
  The handler up to the loop: table name, scan, early \<open>return\<close> (\<open>None\<close>) when nothing
  matches, the remaining settings and the account id.
\<close>

definition scan_catalog_creator_s3 ::
  "env \<Rightarrow> ((string \<times> string \<times> string \<times> json) \<times> json list) option prog" where
  "scan_catalog_creator_s3 en =
     pbind (require_env en ''DDB_GLUE_TRACKER_TABLE_NAME''
              ''DDB_GLUE_TRACKER_TABLE_NAME is missing'') (\<lambda>ddb_table_name.
     pbind (fetch_ddb_results en (DDB_PARTIQL_catalog_creator_s3 ddb_table_name)
              ddb_table_name where_catalog_creator_s3) (\<lambda>ddb_resp.
     pbind (lift (py_get ddb_resp ''Items'')) (\<lambda>ddb_results.
       if \<not> truthy ddb_results then ok None
       else
         pbind (lift (unmarshall_ddb_items ddb_results)) (\<lambda>pythonic_results.
         pbind (require_env en ''GLUE_ROLE_ARN'' ''GLUE_ROLE_ARN is missing'') (\<lambda>role_arn.
         pbind (require_env en ''DATA_CATALOG_DB_NAME'' ''DATA_CATALOG_DB_NAME is missing'')
           (\<lambda>data_catalog_db_name.
         pbind (api en (Call ''sts'' ''get_caller_identity'' [])) (\<lambda>identity.
         pbind (lift (py_subscript identity ''Account'')) (\<lambda>account_id.
           ok (Some ((ddb_table_name, role_arn, data_catalog_db_name, account_id),
                     pythonic_results))))))))))"

definition lambda_handler_catalog_creator_s3 :: "env \<Rightarrow> json \<Rightarrow> unit prog" where
  "lambda_handler_catalog_creator_s3 en event =
     pbind (scan_catalog_creator_s3 en) (\<lambda>scanned.
       case scanned of
         None \<Rightarrow> ok ()
       | Some ((ddb_table_name, role_arn, data_catalog_db_name, account_id), pythonic_results) \<Rightarrow>
           for_each (catalog_s3_obj en ddb_table_name role_arn data_catalog_db_name account_id)
             pythonic_results)"


subsection \<open>Job stage (\<open>s3-glue-job-creator\<close>)\<close>

definition DDB_PARTIQL_s3_glue_job_creator :: "string \<Rightarrow> string" where
  "DDB_PARTIQL_s3_glue_job_creator tname =
     ''SELECT * FROM '' @ tname @
     '' WHERE glue_job_created = False AND data_catalog_entry = True AND data_source_type = ''
     @ [CHR 0x27] @ ''s3'' @ [CHR 0x27]"

definition where_s3_glue_job_creator :: cond where
  "where_s3_glue_job_creator =
     And (Eq ''glue_job_created'' (JBool False))
       (And (Eq ''data_catalog_entry'' (JBool True)) (Eq ''data_source_type'' (JStr ''s3'')))"

definition GLUE_DEFAULT_ARGS :: "(string \<times> json) list" where
  "GLUE_DEFAULT_ARGS =
     [(''--enable-metrics'', JStr ''true''),
      (''--enable-spark-ui'', JStr ''true''),
      (''--enable-job-insights'', JStr ''false''),
      (''--enable-glue-datacatalog'', JStr ''true''),
      (''--enable-continuous-cloudwatch-log'', JStr ''true''),
      (''--job-bookmark-option'', JStr ''job-bookmark-disable''),
      (''--job-language'', JStr ''python'')]"

definition GLUE_SCRIPT_FILE_NAME :: string where
  "GLUE_SCRIPT_FILE_NAME = ''s3-source-script.py''"

definition update_ddb_s3_glue_job_creator :: "env \<Rightarrow> string \<Rightarrow> json \<Rightarrow> unit prog" where
  "update_ddb_s3_glue_job_creator en table_name obj =
     pbind (lift (ebind (py_subscript obj ''id'') param_string)) (\<lambda>k.
     pbind (update_item en table_name k
              [(''UpdateExpression'', JStr ''SET #glue_job_created = :true''),
               (''ExpressionAttributeNames'', JObj
                  [(''#glue_job_created'', JStr ''glue_job_created'')]),
               (''ExpressionAttributeValues'', JObj
                  [('':true'', JObj [(''BOOL'', JBool True)])])]
              [(''glue_job_created'', JBool True)]) (\<lambda>resp.
       lift (check_response resp)))"

definition create_glue_job ::
  "env \<Rightarrow> string \<Rightarrow> string \<Rightarrow> string \<Rightarrow> string \<Rightarrow> json \<Rightarrow> json \<Rightarrow> string \<Rightarrow> json \<Rightarrow>
   json \<Rightarrow> json \<Rightarrow> string \<Rightarrow> unit prog" where
  "create_glue_job en script_location role_arn spark_logs_path temp_dir bucket_name
     dc_table_name output_table dc_db_name s3_host region glue_job_name =
     (let glue_args =
            AList.update ''--region'' region
           (AList.update ''--s3Host'' s3_host
           (AList.update ''--outputTable'' (JStr output_table)
           (AList.update ''--dataCatalogDatabase'' dc_db_name
           (AList.update ''--dataCatalogTable'' dc_table_name
           (AList.update ''--s3Bucket'' bucket_name
           (AList.update ''--TempDir'' (JStr temp_dir)
           (AList.update ''--spark-event-logs-path'' (JStr spark_logs_path)
              GLUE_DEFAULT_ARGS)))))))
      in pbind (api en (Call ''glue'' ''create_job''
                  [(''Name'', JStr glue_job_name),
                   (''Command'', JObj
                      [(''Name'', JStr ''glueetl''),
                       (''PythonVersion'', JStr ''3''),
                       (''ScriptLocation'', JStr script_location)]),
                   (''Role'', JStr role_arn),
                   (''DefaultArguments'', JObj glue_args),
                   (''MaxRetries'', JNum 0),
                   (''Timeout'', JNum 2880),
                   (''WorkerType'', JStr ''G.1X''),
                   (''NumberOfWorkers'', JNum 10),
                   (''GlueVersion'', JStr ''4.0''),
                   (''ExecutionClass'', JStr ''STANDARD''),
                   (''ExecutionProperty'', JObj [(''MaxConcurrentRuns'', JNum 1)])])) (\<lambda>resp.
           lift (check_response resp)))"

text \<open>
  The region of a record: the nested lookup, with \<open>KeyError\<close> caught and replaced by
  \<open>os.environ.get("AWS_REGION", "noregion")\<close>.
\<close>

definition region_of :: "env \<Rightarrow> json \<Rightarrow> error + json" where
  "region_of en s3_obj =
     (case ebind (py_subscript s3_obj ''data_source_attrs'') (\<lambda>attrs.
           ebind (py_subscript attrs ''CreateBucketConfiguration'') (\<lambda>cbc.
             py_subscript cbc ''LocationConstraint'')) of
        Inl (KeyError k) \<Rightarrow>
          Inr (JStr (case environ en ''AWS_REGION'' of None \<Rightarrow> ''noregion'' | Some r \<Rightarrow> r))
      | r \<Rightarrow> r)"

text \<open>The body of the loop over the scanned records.\<close>

definition job_s3_obj ::
  "env \<Rightarrow> string \<Rightarrow> string \<Rightarrow> string \<Rightarrow> string option \<Rightarrow> string \<Rightarrow> json \<Rightarrow> unit prog" where
  "job_s3_obj en ddb_table_name output_table assets_bucket script_bucket role_arn s3_obj =
     pbind (lift (ebind (py_subscript s3_obj ''data_source_attrs'') (\<lambda>attrs.
                    py_subscript attrs ''bucketName''))) (\<lambda>bucket_name.
     pbind (lift (py_subscript s3_obj ''data_catalog_table_name'')) (\<lambda>data_catalog_table_name.
     pbind (lift (py_subscript s3_obj ''data_catalog_db_name'')) (\<lambda>data_catalog_db_name.
     pbind (lift (region_of en s3_obj)) (\<lambda>region.
       let glue_job_name =
             ''s3-pii-detect-'' @ py_str en region @ ''-'' @ py_str en data_catalog_table_name;
           wf_name = ''s3-wf-'' @ py_str en region @ ''-'' @ py_str en data_catalog_table_name
       in
       pbind (lift (ebind (py_subscript s3_obj ''data_source_attrs'') (\<lambda>attrs.
                      py_subscript attrs ''Host''))) (\<lambda>s3_host.
       pbind (create_glue_job en
                (''s3://'' @ fmt_opt script_bucket @ ''/'' @ GLUE_SCRIPT_FILE_NAME)
                role_arn
                (''s3://'' @ assets_bucket @ ''/sparkHistoryLogs/'')
                (''s3://'' @ assets_bucket @ ''/temporary/'')
                bucket_name data_catalog_table_name output_table data_catalog_db_name
                s3_host region glue_job_name) (\<lambda>_.
       pbind (api en (Call ''glue'' ''create_workflow'' [(''Name'', JStr wf_name)])) (\<lambda>wf_resp.
       pbind (lift (check_response wf_resp)) (\<lambda>_.
       pbind (api en (Call ''glue'' ''create_trigger''
                [(''Name'', JStr (''s3-glue-trigger-'' @ py_str en region @ ''-'' @
                                  py_str en data_catalog_table_name)),
                 (''WorkflowName'', JStr wf_name),
                 (''StartOnCreation'', JBool True),
                 (''Type'', JStr ''SCHEDULED''),
                 (''Schedule'', JStr ''cron(0 6 ? * MON-FRI *)''),
                 (''Actions'', JArr [JObj [(''JobName'', JStr glue_job_name)]])]))
         (\<lambda>trigger_resp.
       pbind (lift (check_response trigger_resp)) (\<lambda>_.
         update_ddb_s3_glue_job_creator en ddb_table_name s3_obj))))))))))"

text \<open>
  The handler up to the loop.  The test that guards \<open>GLUE_SCRIPT_BUCKET\<close> looks at
  \<open>assets_bucket\<close>, as the source does.
\<close>

definition scan_s3_glue_job_creator ::
  "env \<Rightarrow> ((string \<times> string \<times> string \<times> string option \<times> string) \<times> json list) option prog"
  where
  "scan_s3_glue_job_creator en =
     pbind (require_env en ''DDB_GLUE_TRACKER_TABLE_NAME''
              ''DDB_GLUE_TRACKER_TABLE_NAME is missing'') (\<lambda>ddb_table_name.
     pbind (fetch_ddb_results en (DDB_PARTIQL_s3_glue_job_creator ddb_table_name)
              ddb_table_name where_s3_glue_job_creator) (\<lambda>ddb_resp.
     pbind (lift (py_get ddb_resp ''Items'')) (\<lambda>ddb_results.
       if \<not> truthy ddb_results then ok None
       else
         pbind (lift (unmarshall_ddb_items ddb_results)) (\<lambda>pythonic_results.
         pbind (require_env en ''PII_OUTPUT_TABLE_NAME'' ''PII_OUTPUT_TABLE_NAME is missing'')
           (\<lambda>output_table.
         pbind (require_env en ''GLUE_ASSETS_BUCKET'' ''GLUE_ASSETS_BUCKET is missing'')
           (\<lambda>assets_bucket.
           let script_bucket = environ en ''GLUE_SCRIPT_BUCKET'' in
           if assets_bucket = [] then
             raise (MissingEnvironmentVariable ''GLUE_SCRIPT_BUCKET is missing'')
           else
             pbind (require_env en ''GLUE_ROLE_ARN'' ''GLUE_ROLE_ARN is missing'') (\<lambda>role_arn.
               ok (Some ((ddb_table_name, output_table, assets_bucket, script_bucket, role_arn),
                         pythonic_results)))))))))"

definition lambda_handler_s3_glue_job_creator :: "env \<Rightarrow> json \<Rightarrow> unit prog" where
  "lambda_handler_s3_glue_job_creator en event =
     pbind (scan_s3_glue_job_creator en) (\<lambda>scanned.
       case scanned of
         None \<Rightarrow> ok ()
       | Some ((ddb_table_name, output_table, assets_bucket, script_bucket, role_arn),
               pythonic_results) \<Rightarrow>
           for_each (job_s3_obj en ddb_table_name output_table assets_bucket script_bucket
                       role_arn) pythonic_results)"


section \<open>Ingestion producers\<close>

text \<open>\<open>_send_message_to_sqs\<close>, the same in \<open>s3-trigger\<close> and \<open>dynamodb-trigger\<close>.\<close>

definition send_message_to_sqs :: "env \<Rightarrow> string \<Rightarrow> json \<Rightarrow> unit prog" where
  "send_message_to_sqs en queue_url message_dict =
     pbind (api en (Call ''sqs'' ''send_message''
              [(''QueueUrl'', JStr queue_url),
               (''MessageBody'', JStr (dumps en message_dict))])) (\<lambda>resp. lift (
       ebind (check_missing_field resp ''ResponseMetadata'') (\<lambda>_.
       ebind (py_subscript resp ''ResponseMetadata'') (\<lambda>resp_metadata.
       ebind (check_missing_field resp_metadata ''HTTPStatusCode'') (\<lambda>_.
       ebind (py_subscript resp_metadata ''HTTPStatusCode'') (\<lambda>status_code.
         if status_code = JNum 200 then Inr ()
         else Inl (PyException ''Unable to push message'')))))))"

text \<open>
  \<open>_get_bucket_tags\<close> (\<open>s3-trigger\<close> and \<open>s3-tag-report\<close>): \<open>JNull\<close> is the result
  \<open>None\<close>, returned for a bucket without tag set and for an empty tag set.
\<close>

definition get_bucket_tags :: "env \<Rightarrow> json \<Rightarrow> json prog" where
  "get_bucket_tags en bucket_name w =
     (case api en (Call ''s3'' ''get_bucket_tagging'' [(''Bucket'', bucket_name)]) w of
        (Inl (ClientError code), w') \<Rightarrow>
          if code = ''NoSuchTagSet'' then (Inr JNull, w') else (Inl (PyException []), w')
      | (Inl e, w') \<Rightarrow> (Inl e, w')
      | (Inr resp, w') \<Rightarrow>
          (ebind (check_missing_field resp ''ResponseMetadata'') (\<lambda>_.
           ebind (py_subscript resp ''ResponseMetadata'') (\<lambda>resp_metadata.
           ebind (check_missing_field resp_metadata ''HTTPStatusCode'') (\<lambda>_.
           ebind (py_subscript resp_metadata ''HTTPStatusCode'') (\<lambda>status_code.
             if status_code \<noteq> JNum 200 then Inl (PyException ''Request to fetch tags failed'')
             else ebind (py_get resp ''TagSet'') (\<lambda>tag_set.
               if truthy tag_set then Inr tag_set else Inr JNull))))), w'))"


subsection \<open>Object-store buckets (\<open>s3-trigger\<close>)\<close>

definition extract_valid_event_s3_trigger :: "json \<Rightarrow> error + json" where
  "extract_valid_event_s3_trigger event =
     ebind (validate_field event ''source'' (JStr ''aws.s3'')) (\<lambda>_.
     ebind (check_missing_field event ''detail'') (\<lambda>_.
     ebind (py_subscript event ''detail'') (\<lambda>event_detail.
     ebind (validate_field event_detail ''eventName'' (JStr ''CreateBucket'')) (\<lambda>_.
     ebind (check_missing_field event_detail ''requestParameters'') (\<lambda>_.
     ebind (py_subscript event_detail ''requestParameters'') (\<lambda>request_params.
     ebind (check_missing_field request_params ''bucketName'') (\<lambda>_.
       Inr request_params)))))))"

text \<open>
  \<open>tag["Key"] == key and tag["Value"] == value\<close>: the value is looked up only when the key
  matches.
\<close>

definition tag_is :: "json \<Rightarrow> string \<Rightarrow> string \<Rightarrow> error + bool" where
  "tag_is tag key val =
     ebind (py_subscript tag ''Key'') (\<lambda>k.
       if k = JStr key then ebind (py_subscript tag ''Value'') (\<lambda>v. Inr (v = JStr val))
       else Inr False)"

text \<open>
  The loop over the bucket's tags: it computes \<open>tag_match_flag\<close> and sends the message to
  the custom-entity queue at each tag \<open>glue-custom-entity = true\<close>.
\<close>

fun tag_loop :: "env \<Rightarrow> string \<Rightarrow> json \<Rightarrow> json list \<Rightarrow> bool \<Rightarrow> bool prog" where
  "tag_loop en glue_custom_entity_queue_url message_dict [] tag_match_flag w =
     (Inr tag_match_flag, w)"
| "tag_loop en glue_custom_entity_queue_url message_dict (tag # tags) tag_match_flag w =
     (case tag_is tag ''gdpr-scan'' ''true'' of
        Inl e \<Rightarrow> (Inl e, w)
      | Inr scan \<Rightarrow>
          (case tag_is tag ''glue-custom-entity'' ''true'' of
             Inl e \<Rightarrow> (Inl e, w)
           | Inr custom \<Rightarrow>
               if custom then
                 (case send_message_to_sqs en glue_custom_entity_queue_url message_dict w of
                    (Inl e, w') \<Rightarrow> (Inl e, w')
                  | (Inr u, w') \<Rightarrow>
                      tag_loop en glue_custom_entity_queue_url message_dict tags
                        (tag_match_flag \<or> scan) w')
               else tag_loop en glue_custom_entity_queue_url message_dict tags
                      (tag_match_flag \<or> scan) w))"

text \<open>
  The handler up to the tags of the bucket; \<open>None\<close> is the early \<open>return\<close> for a bucket
  without tags.
\<close>

definition bucket_tags_s3_trigger ::
  "env \<Rightarrow> json \<Rightarrow> (string \<times> string \<times> json \<times> json) option prog" where
  "bucket_tags_s3_trigger en event =
     pbind (lift (extract_valid_event_s3_trigger event)) (\<lambda>valid_event.
     pbind (require_env en ''GLUE_TRACKING_QUEUE_URL''
              ''GLUE_TRACKING_QUEUE_URL environment variable is required'') (\<lambda>glue_queue_url.
     pbind (require_env en ''GLUE_CUSTOM_ENTITY_QUEUE_URL''
              ''GLUE_CUSTOM_ENTITY_QUEUE_URL environment variable is required'')
       (\<lambda>glue_custom_entity_queue_url.
     pbind (lift (py_subscript valid_event ''bucketName'')) (\<lambda>bucket_name.
     pbind (get_bucket_tags en bucket_name) (\<lambda>bucket_tags.
       if \<not> truthy bucket_tags then ok None
       else ok (Some (glue_queue_url, glue_custom_entity_queue_url, valid_event,
                      bucket_tags)))))))"

definition message_dict_s3_trigger :: "json \<Rightarrow> json" where
  "message_dict_s3_trigger valid_event =
     JObj [(''data_source_type'', JStr ''s3''), (''data_source_attrs'', valid_event)]"

definition lambda_handler_s3_trigger :: "env \<Rightarrow> json \<Rightarrow> unit prog" where
  "lambda_handler_s3_trigger en event =
     pbind (bucket_tags_s3_trigger en event) (\<lambda>tagged.
       case tagged of
         None \<Rightarrow> ok ()
       | Some (glue_queue_url, glue_custom_entity_queue_url, valid_event, bucket_tags) \<Rightarrow>
           pbind (lift (py_iter bucket_tags)) (\<lambda>tags.
           pbind (tag_loop en glue_custom_entity_queue_url
                    (message_dict_s3_trigger valid_event) tags False) (\<lambda>tag_match_flag.
             if \<not> tag_match_flag then ok ()
             else send_message_to_sqs en glue_queue_url
                    (message_dict_s3_trigger valid_event))))"


subsection \<open>Key-value tables (\<open>dynamodb-trigger\<close>)\<close>

definition extract_valid_event_dynamodb_trigger :: "json \<Rightarrow> error + json" where
  "extract_valid_event_dynamodb_trigger event =
     ebind (validate_field event ''source'' (JStr ''aws.dynamodb'')) (\<lambda>_.
     ebind (check_missing_field event ''detail'') (\<lambda>_.
     ebind (py_subscript event ''detail'') (\<lambda>event_detail.
     ebind (validate_field event_detail ''eventName'' (JStr ''CreateTable'')) (\<lambda>_.
     ebind (check_missing_field event_detail ''responseElements'') (\<lambda>_.
       py_subscript event_detail ''responseElements'')))))"

text \<open>\<open>s.split(sep)\<close> for a single-character separator.\<close>

fun split_char :: "char \<Rightarrow> string \<Rightarrow> string list" where
  "split_char sep [] = [[]]"
| "split_char sep (c # cs) =
     (if c = sep then [] # split_char sep cs
      else (case split_char sep cs of [] \<Rightarrow> [[c]] | x # xs \<Rightarrow> (c # x) # xs))"

definition message_dict_dynamodb_trigger :: "json \<Rightarrow> json" where
  "message_dict_dynamodb_trigger valid_event =
     JObj [(''data_source_type'', JStr ''dynamodb''), (''data_source_attrs'', valid_event)]"

definition lambda_handler_dynamodb_trigger :: "env \<Rightarrow> json \<Rightarrow> unit prog" where
  "lambda_handler_dynamodb_trigger en event =
     pbind (lift (extract_valid_event_dynamodb_trigger event)) (\<lambda>valid_event.
     pbind (require_env en ''GLUE_TRACKING_QUEUE_URL''
              ''GLUE_TRACKING_QUEUE_URL environment variable is required'') (\<lambda>glue_queue_url.
       let list_exception_tables =
             (case environ en ''EXCEPTION_TABLE_NAMES'' of
                None \<Rightarrow> []
              | Some exception_tables \<Rightarrow>
                  if exception_tables = [] then [] else split_char (CHR '','') exception_tables)
       in
       pbind (lift (check_missing_field valid_event ''tableDescription'')) (\<lambda>_.
       pbind (lift (ebind (py_subscript valid_event ''tableDescription'') (\<lambda>td.
                      check_missing_field td ''tableName''))) (\<lambda>_.
       pbind (lift (ebind (py_subscript valid_event ''tableDescription'') (\<lambda>td.
                      py_subscript td ''tableName''))) (\<lambda>ddb_table_name.
         if ddb_table_name \<in> set (map JStr list_exception_tables) then ok ()
         else send_message_to_sqs en glue_queue_url
                (message_dict_dynamodb_trigger valid_event))))))"


section \<open>The relational handoff consumer (\<open>rds-glue-initial\<close>)\<close>

text \<open>
  The handler acknowledges the message and reads its body exactly as
  \<open>glue-tracking-initial\<close> does.  What it does with the body afterwards (the connection and
  the crawlers it provisions) is the parameter \<open>provision\<close>.
\<close>

definition lambda_handler_rds_glue_initial ::
  "env \<Rightarrow> (json \<Rightarrow> unit prog) \<Rightarrow> json \<Rightarrow> unit prog" where
  "lambda_handler_rds_glue_initial en provision event =
     pbind (acknowledge_message en event) (\<lambda>_.
     pbind (lift (get_message_body en event)) (\<lambda>body.
       provision body))"


section \<open>Tag-compliance reports\<close>

definition REQUIRED_TAG_KEYS :: "string list" where
  "REQUIRED_TAG_KEYS =
     [''APP_ID'', ''Purpose of Processing'', ''Data Subjects'', ''APP_NAME'',
      ''Business Function'', ''Processing Activity'']"

text \<open>
  The part the three report handlers share: collect the required tags into \<open>tag_obj\<close>,
  and, when there is one, add a fresh \<open>id\<close>, the catalog table name and the time, and
  \<open>put_item\<close> the row (without condition) into the report table.
\<close>

fun collect_tags :: "json list \<Rightarrow> item \<Rightarrow> error + item" where
  "collect_tags [] tag_obj = Inr tag_obj"
| "collect_tags (tag # tags) tag_obj =
     ebind (py_subscript tag ''Key'') (\<lambda>k.
       case k of
         JStr key \<Rightarrow>
           if key \<in> set REQUIRED_TAG_KEYS
           then ebind (py_subscript tag ''Value'') (\<lambda>v.
                  collect_tags tags (AList.update key v tag_obj))
           else collect_tags tags tag_obj
       | _ \<Rightarrow> collect_tags tags tag_obj)"

definition report_tags :: "env \<Rightarrow> string \<Rightarrow> json \<Rightarrow> json \<Rightarrow> unit prog" where
  "report_tags en tag_table_name obj resource_tags =
     pbind (lift (py_subscript obj ''data_catalog_table_name'')) (\<lambda>data_catalog_table_name.
     pbind (lift (ebind (py_iter resource_tags) (\<lambda>tags. collect_tags tags []))) (\<lambda>tag_obj.
       if tag_obj = [] then ok ()
       else
         pbind (draw_uuid en) (\<lambda>unique_id.
         (\<lambda>w. pbind (put_item en tag_table_name
                  (AList.update ''time_stamp'' (JStr (now en (length (trace w))))
                  (AList.update ''data_catalog_table_name'' data_catalog_table_name
                  (AList.update ''id'' (JStr unique_id) tag_obj))) False) (\<lambda>resp.
                lift (check_response resp)) w))))"

text \<open>The scan that opens each report handler; \<open>None\<close> is the early \<open>return\<close>.\<close>

definition scan_tag_report :: "env \<Rightarrow> string \<Rightarrow> (string \<times> json list) option prog" where
  "scan_tag_report en source_type =
     pbind (require_env en ''DDB_GLUE_TRACKER_TABLE_NAME''
              ''DDB_GLUE_TRACKER_TABLE_NAME is missing'') (\<lambda>ddb_table_name.
     pbind (require_env en ''TAG_REPORT_TABLE_NAME'' ''TAG_REPORT_TABLE_NAME is missing'')
       (\<lambda>tag_table_name.
     pbind (fetch_ddb_results en
              (''SELECT * FROM '' @ ddb_table_name @
               '' WHERE data_catalog_entry = True AND data_source_type = '' @
               [CHR 0x27] @ source_type @ [CHR 0x27])
              ddb_table_name
              (And (Eq ''data_catalog_entry'' (JBool True))
                   (Eq ''data_source_type'' (JStr source_type)))) (\<lambda>ddb_resp.
     pbind (lift (py_get ddb_resp ''Items'')) (\<lambda>ddb_results.
       if \<not> truthy ddb_results then ok None
       else
         pbind (lift (unmarshall_ddb_items ddb_results)) (\<lambda>pythonic_results.
           ok (Some (tag_table_name, pythonic_results)))))))"


subsection \<open>\<open>s3-tag-report\<close>\<close>

definition s3_tag_report_obj :: "env \<Rightarrow> string \<Rightarrow> json \<Rightarrow> unit prog" where
  "s3_tag_report_obj en tag_table_name obj =
     pbind (lift (ebind (py_subscript obj ''data_source_attrs'') (\<lambda>attrs.
                    py_subscript attrs ''bucketName''))) (\<lambda>bucket_name.
     pbind (get_bucket_tags en bucket_name) (\<lambda>bucket_tags.
       if \<not> truthy bucket_tags then ok ()
       else report_tags en tag_table_name obj bucket_tags))"

definition lambda_handler_s3_tag_report :: "env \<Rightarrow> json \<Rightarrow> unit prog" where
  "lambda_handler_s3_tag_report en event =
     pbind (scan_tag_report en ''s3'') (\<lambda>scanned.
       case scanned of
         None \<Rightarrow> ok ()
       | Some (tag_table_name, pythonic_results) \<Rightarrow>
           for_each (s3_tag_report_obj en tag_table_name) pythonic_results)"


subsection \<open>\<open>ddb-tag-report\<close>\<close>

text \<open>The row goes to the table with the fixed name \<open>tagCaptureTable\<close>.\<close>

definition get_table_tags :: "env \<Rightarrow> json \<Rightarrow> json prog" where
  "get_table_tags en table_arn =
     pbind (api en (Call ''dynamodb'' ''list_tags_of_resource'' [(''ResourceArn'', table_arn)]))
       (\<lambda>resp.
     pbind (lift (check_response resp)) (\<lambda>_.
     pbind (lift (py_get resp ''Tags'')) (\<lambda>tags.
       if \<not> truthy tags then ok JNull else ok tags)))"

definition ddb_tag_report_obj :: "env \<Rightarrow> json \<Rightarrow> unit prog" where
  "ddb_tag_report_obj en obj =
     pbind (lift (ebind (py_subscript obj ''data_source_attrs'') (\<lambda>attrs.
                  ebind (py_subscript attrs ''tableDescription'') (\<lambda>td.
                    py_subscript td ''tableName'')))) (\<lambda>obj_table_name.
     pbind (lift (ebind (py_subscript obj ''data_source_attrs'') (\<lambda>attrs.
                  ebind (py_subscript attrs ''tableDescription'') (\<lambda>td.
                    py_subscript td ''tableArn'')))) (\<lambda>obj_table_arn.
     pbind (get_table_tags en obj_table_arn) (\<lambda>table_tags.
       if \<not> truthy table_tags then ok ()
       else report_tags en ''tagCaptureTable'' obj table_tags)))"

definition lambda_handler_ddb_tag_report :: "env \<Rightarrow> json \<Rightarrow> unit prog" where
  "lambda_handler_ddb_tag_report en event =
     pbind (scan_tag_report en ''dynamodb'') (\<lambda>scanned.
       case scanned of
         None \<Rightarrow> ok ()
       | Some (tag_table_name, pythonic_results) \<Rightarrow>
           for_each (ddb_tag_report_obj en) pythonic_results)"


subsection \<open>\<open>rds-tag-report\<close>\<close>

text \<open>
  \<open>s.split(sep)\<close> for a non-empty separator: \<open>skip\<close> counts the characters of a
  separator just matched that are still to be passed over.
\<close>

fun split_sep :: "string \<Rightarrow> nat \<Rightarrow> string \<Rightarrow> string list" where
  "split_sep sep skip [] = [[]]"
| "split_sep sep skip (c # cs) =
     (if 0 < skip then split_sep sep (skip - 1) cs
      else if sep \<noteq> [] \<and> take (length sep) (c # cs) = sep
           then [] # split_sep sep (length sep - 1) cs
      else (case split_sep sep 0 cs of [] \<Rightarrow> [[c]] | x # xs \<Rightarrow> (c # x) # xs))"

text \<open>\<open>conn_url.split("://")[1].split(".")[0]\<close>.\<close>

definition cluster_identifier_of :: "json \<Rightarrow> error + string" where
  "cluster_identifier_of conn_url =
     (case conn_url of
        JStr url \<Rightarrow>
          (case split_sep ''://'' 0 url of
             a # b # rest \<Rightarrow> (case split_char (CHR ''.'') b of x # xs \<Rightarrow> Inr x | [] \<Rightarrow> Inl IndexError)
           | _ \<Rightarrow> Inl IndexError)
      | _ \<Rightarrow> Inl AttributeError)"

definition get_glue_connection :: "env \<Rightarrow> json \<Rightarrow> json prog" where
  "get_glue_connection en connection_name =
     pbind (api en (Call ''sts'' ''get_caller_identity'' [])) (\<lambda>identity.
     pbind (lift (py_subscript identity ''Account'')) (\<lambda>account.
     pbind (api en (Call ''glue'' ''get_connection''
              [(''CatalogId'', account), (''Name'', connection_name)])) (\<lambda>resp.
     pbind (lift (check_response resp)) (\<lambda>_.
     pbind (lift (check_missing_field resp ''Connection'')) (\<lambda>_.
       lift (py_subscript resp ''Connection''))))))"

definition get_db_tags :: "env \<Rightarrow> json \<Rightarrow> json prog" where
  "get_db_tags en table_arn =
     pbind (api en (Call ''rds'' ''list_tags_for_resource'' [(''ResourceName'', table_arn)]))
       (\<lambda>resp.
     pbind (lift (check_response resp)) (\<lambda>_.
     pbind (lift (py_get resp ''TagList'')) (\<lambda>tags.
       if \<not> truthy tags then ok JNull else ok tags)))"

definition rds_tag_report_obj :: "env \<Rightarrow> json \<Rightarrow> unit prog" where
  "rds_tag_report_obj en obj =
     pbind (lift (ebind (py_subscript obj ''data_source_attrs'') (\<lambda>attrs.
                    py_subscript attrs ''connectionName''))) (\<lambda>jdbc_conn_name.
     pbind (get_glue_connection en jdbc_conn_name) (\<lambda>conn_obj.
     pbind (lift (check_missing_field conn_obj ''ConnectionProperties'')) (\<lambda>_.
     pbind (lift (ebind (py_subscript conn_obj ''ConnectionProperties'') (\<lambda>props.
                    check_missing_field props ''JDBC_CONNECTION_URL''))) (\<lambda>_.
     pbind (lift (ebind (py_subscript conn_obj ''ConnectionProperties'') (\<lambda>props.
                    py_subscript props ''JDBC_CONNECTION_URL''))) (\<lambda>conn_url.
     pbind (lift (cluster_identifier_of conn_url)) (\<lambda>cluster_identifier.
     pbind (api en (Call ''rds'' ''describe_db_clusters''
              [(''DBClusterIdentifier'', JStr cluster_identifier)])) (\<lambda>desc_db_resp.
     pbind (lift (check_response desc_db_resp)) (\<lambda>_.
     pbind (lift (ebind (py_subscript desc_db_resp ''DBClusters'') (\<lambda>clusters.
                  ebind (py_first clusters) (\<lambda>cluster.
                    py_subscript cluster ''DBClusterArn'')))) (\<lambda>db_cluster_arn.
     pbind (get_db_tags en db_cluster_arn) (\<lambda>db_cluster_tags.
       if \<not> truthy db_cluster_tags then ok ()
       else report_tags en ''tagCaptureTable'' obj db_cluster_tags))))))))))"

definition lambda_handler_rds_tag_report :: "env \<Rightarrow> json \<Rightarrow> unit prog" where
  "lambda_handler_rds_tag_report en event =
     pbind (scan_tag_report en ''rds'') (\<lambda>scanned.
       case scanned of
         None \<Rightarrow> ok ()
       | Some (tag_table_name, pythonic_results) \<Rightarrow>
           for_each (rds_tag_report_obj en) pythonic_results)"


section \<open>Notions used to state the properties\<close>

text \<open>A stage flag of the record stored under a key is set when it holds the boolean true.\<close>

definition flag_set :: "table \<Rightarrow> string \<Rightarrow> string \<Rightarrow> bool" where
  "flag_set tbl k flag =
     (case map_of tbl k of None \<Rightarrow> False | Some it \<Rightarrow> map_of it flag = Some (JBool True))"

text \<open>The key under which a scanned record is updated, when it has one.\<close>

definition record_id :: "json \<Rightarrow> string option" where
  "record_id obj =
     (case ebind (py_subscript obj ''id'') param_string of Inl e \<Rightarrow> None | Inr k \<Rightarrow> Some k)"

text \<open>A program keeps a relation between the state it starts in and the state it ends in.\<close>

definition keeps :: "(world \<Rightarrow> world \<Rightarrow> bool) \<Rightarrow> 'a prog \<Rightarrow> bool" where
  "keeps R m = (\<forall>w. R w (snd (m w)))"

text \<open>A relation fit for \<open>keeps\<close>: reflexive, transitive, blind to the trace and the counter.\<close>

definition frame_rel :: "(world \<Rightarrow> world \<Rightarrow> bool) \<Rightarrow> bool" where
  "frame_rel R =
     ((\<forall>w. R w w) \<and> (\<forall>a b c. R a b \<longrightarrow> R b c \<longrightarrow> R a c) \<and>
      (\<forall>w tr n. R w (w\<lparr>trace := tr, drawn := n\<rparr>)))"

definition same_tables :: "world \<Rightarrow> world \<Rightarrow> bool" where
  "same_tables w w' = (ddb w' = ddb w)"

definition same_table :: "string \<Rightarrow> world \<Rightarrow> world \<Rightarrow> bool" where
  "same_table t w w' = (ddb w' t = ddb w t)"

definition flag_kept :: "string \<Rightarrow> string \<Rightarrow> string \<Rightarrow> world \<Rightarrow> world \<Rightarrow> bool" where
  "flag_kept t k flag w w' = (flag_set (ddb w t) k flag \<longrightarrow> flag_set (ddb w' t) k flag)"

text \<open>
  The handlers that run against the tracker store, and a history of invocations, each with
  its own environment and event.
\<close>

datatype handler =
    Glue_tracking_initial
  | Rds_glue_tracking_initial
  | Catalog_creator_s3
  | S3_glue_job_creator
  | S3_tag_report
  | Rds_tag_report
  | Ddb_tag_report
  | S3_trigger
  | Dynamodb_trigger

fun invoke :: "handler \<Rightarrow> env \<Rightarrow> json \<Rightarrow> unit prog" where
  "invoke Glue_tracking_initial = lambda_handler_glue_tracking_initial"
| "invoke Rds_glue_tracking_initial = lambda_handler_rds_glue_tracking_initial"
| "invoke Catalog_creator_s3 = lambda_handler_catalog_creator_s3"
| "invoke S3_glue_job_creator = lambda_handler_s3_glue_job_creator"
| "invoke S3_tag_report = lambda_handler_s3_tag_report"
| "invoke Rds_tag_report = lambda_handler_rds_tag_report"
| "invoke Ddb_tag_report = lambda_handler_ddb_tag_report"
| "invoke S3_trigger = lambda_handler_s3_trigger"
| "invoke Dynamodb_trigger = lambda_handler_dynamodb_trigger"

fun run :: "(handler \<times> env \<times> json) list \<Rightarrow> world \<Rightarrow> world" where
  "run [] w = w"
| "run (i # rest) w = run rest (snd (invoke (fst i) (fst (snd i)) (snd (snd i)) w))"

text \<open>The table a report handler writes its rows to.\<close>

fun report_table :: "handler \<Rightarrow> env \<Rightarrow> string option" where
  "report_table S3_tag_report en = environ en ''TAG_REPORT_TABLE_NAME''"
| "report_table Rds_tag_report en = Some ''tagCaptureTable''"
| "report_table Ddb_tag_report en = Some ''tagCaptureTable''"
| "report_table h en = None"

fun writes_reports_elsewhere :: "string \<Rightarrow> (handler \<times> env \<times> json) list \<Rightarrow> bool" where
  "writes_reports_elsewhere t [] = True"
| "writes_reports_elsewhere t (i # rest) =
     (report_table (fst i) (fst (snd i)) \<noteq> Some t \<and> writes_reports_elsewhere t rest)"


section \<open>Concrete inputs\<close>

text \<open>A response as the services give it on success, and an environment with every setting.\<close>

definition ok_response :: json where
  "ok_response =
     JObj [(''ResponseMetadata'', JObj [(''HTTPStatusCode'', JNum 200)]),
           (''Account'', JStr ''111122223333'')]"

definition example_environ :: "(string \<times> string) list" where
  "example_environ =
     [(''GLUE_TRACKER_TABLE_NAME'', ''tracker''),
      (''DDB_TABLE_NAME'', ''tracker''),
      (''DDB_GLUE_TRACKER_TABLE_NAME'', ''tracker''),
      (''SQS_QUEUE_URL'', ''q-tracking''),
      (''GLUE_TRACKING_QUEUE_URL'', ''q-tracking''),
      (''GLUE_CUSTOM_ENTITY_QUEUE_URL'', ''q-custom''),
      (''CATALOG_DB_NAME'', ''catalog''),
      (''DATA_CATALOG_DB_NAME'', ''db''),
      (''GLUE_ROLE_ARN'', ''role''),
      (''PII_OUTPUT_TABLE_NAME'', ''pii''),
      (''GLUE_ASSETS_BUCKET'', ''assets''),
      (''GLUE_SCRIPT_BUCKET'', ''scripts''),
      (''TAG_REPORT_TABLE_NAME'', ''tags'')]"

text \<open>The message of a bucket \<open>b1\<close> and of a table \<open>t1\<close>, and their JSON texts.\<close>

definition s3_message :: json where
  "s3_message =
     JObj [(''data_source_type'', JStr ''s3''),
           (''data_source_attrs'', JObj [(''bucketName'', JStr ''b1'')])]"

definition s3_message_text :: string where
  "s3_message_text =
     ''{\"data_source_type\": \"s3\", \"data_source_attrs\": {\"bucketName\": \"b1\"}}''"

definition dynamodb_message :: json where
  "dynamodb_message =
     JObj [(''data_source_type'', JStr ''dynamodb''),
           (''data_source_attrs'',
            JObj [(''tableDescription'', JObj [(''tableName'', JStr ''t1'')])])]"

definition dynamodb_message_text :: string where
  "dynamodb_message_text =
     ''{\"data_source_type\": \"dynamodb\", \"data_source_attrs\": '' @
     ''{\"tableDescription\": {\"tableName\": \"t1\"}}}''"

definition example_env :: env where
  "example_env =
     \<lparr> environ = map_of example_environ,
       aws = (\<lambda>tr c. Inr ok_response),
       loads = (\<lambda>s. if s = s3_message_text then Some s3_message
                     else if s = dynamodb_message_text then Some dynamodb_message
                     else None),
       dumps = (\<lambda>j. if j = s3_message then s3_message_text
                     else if j = dynamodb_message then dynamodb_message_text
                     else []),
       uuid4 = (\<lambda>n. if n = 0 then ''u0'' else ''u1''),
       now = (\<lambda>n. ''2024-01-01 00:00:00''),
       render = (\<lambda>j. []) \<rparr>"

text \<open>Two bucket records, as inserted and after the catalog stage, and stores holding them.\<close>

definition bucket_record :: "string \<Rightarrow> string \<Rightarrow> item" where
  "bucket_record k b =
     [(''id'', JStr k),
      (''data_source_type'', JStr ''s3''),
      (''glue_job_created'', JBool False),
      (''data_catalog_entry'', JBool False),
      (''data_source_attrs'', JObj [(''bucketName'', JStr b), (''Host'', JStr ''s3.amazonaws.com'')])]"

definition catalogued_record :: "string \<Rightarrow> string \<Rightarrow> item" where
  "catalogued_record k b =
     [(''id'', JStr k),
      (''data_source_type'', JStr ''s3''),
      (''glue_job_created'', JBool False),
      (''data_catalog_entry'', JBool True),
      (''data_source_attrs'', JObj [(''bucketName'', JStr b), (''Host'', JStr ''s3.amazonaws.com'')]),
      (''data_catalog_table_name'', JStr (''db_'' @ b)),
      (''data_catalog_db_name'', JStr ''db'')]"

definition store_of :: "table \<Rightarrow> world" where
  "store_of tbl = \<lparr> ddb = (\<lambda>t. if t = ''tracker'' then tbl else []), trace = [], drawn = 0 \<rparr>"

definition discovered_world :: world where
  "discovered_world = store_of [(''r1'', bucket_record ''r1'' ''b1''), (''r2'', bucket_record ''r2'' ''b2'')]"

definition catalogued_world :: world where
  "catalogued_world =
     store_of [(''r1'', catalogued_record ''r1'' ''b1''), (''r2'', catalogued_record ''r2'' ''b2'')]"

text \<open>
  Events: the queue delivery of the bucket message and of the table message, the same bucket
  message as a direct test event, and a catalog-side \<open>CreateTable\<close> notification.
\<close>

definition queue_event :: "string \<Rightarrow> json" where
  "queue_event body =
     JObj [(''Records'', JArr [JObj [(''receiptHandle'', JStr ''rh1''),
                                     (''messageId'', JStr ''m1''),
                                     (''body'', JStr body)]])]"

definition direct_event :: json where
  "direct_event =
     JObj [(''test_event'', JStr ''true''),
           (''data_source_type'', JStr ''s3''),
           (''data_source_attrs'', JObj [(''bucketName'', JStr ''b1'')])]"

definition glue_create_table_event :: json where
  "glue_create_table_event =
     JObj [(''source'', JStr ''aws.glue''),
           (''detail'', JObj
              [(''eventName'', JStr ''CreateTable''),
               (''requestParameters'', JObj
                  [(''databaseName'', JStr ''catalog''),
                   (''tableInput'', JObj
                      [(''name'', JStr ''orders''),
                       (''parameters'', JObj [(''connectionName'', JStr ''conn1'')])])])])]"

text \<open>An environment in which every service call raises a throttling \<open>ClientError\<close>.\<close>

definition throttled_env :: env where
  "throttled_env = example_env\<lparr>aws := (\<lambda>tr c. Inl (ClientError ''ThrottlingException''))\<rparr>"

text \<open>A store that already holds a record under the identifier drawn first.\<close>

definition duplicate_world :: world where
  "duplicate_world = store_of [(''u0'', bucket_record ''u0'' ''b1'')]"

text \<open>The settings of the job-stage handler without \<open>GLUE_SCRIPT_BUCKET\<close>.\<close>

definition no_script_bucket_env :: env where
  "no_script_bucket_env =
     example_env\<lparr>environ := (map_of example_environ)(''GLUE_SCRIPT_BUCKET'' := None)\<rparr>"

text \<open>The script location a \<open>create_job\<close> call is given.\<close>

fun script_location :: "call \<Rightarrow> json option" where
  "script_location (Call service operation kwargs) =
     (if service = ''glue'' \<and> operation = ''create_job'' then
        (case map_of kwargs ''Command'' of
           Some (JObj command) \<Rightarrow> map_of command ''ScriptLocation''
         | _ \<Rightarrow> None)
      else None)"


text \<open>A call that sends a message to the queue with the given URL.\<close>

fun sent_to :: "string \<Rightarrow> call \<Rightarrow> bool" where
  "sent_to url (Call service operation kwargs) =
     (service = ''sqs'' \<and> operation = ''send_message'' \<and>
      map_of kwargs ''QueueUrl'' = Some (JStr url))"

text \<open>A tag set carries the opt-in tag \<open>gdpr-scan = true\<close>.\<close>

definition opted_in :: "json list \<Rightarrow> bool" where
  "opted_in tags = list_ex (\<lambda>tag. tag_is tag ''gdpr-scan'' ''true'' = Inr True) tags"

text \<open>
  The notification of a created bucket \<open>b1\<close>; an environment in which the bucket has no tag
  set, and one in which it has the given tags.
\<close>

definition s3_create_bucket_event :: json where
  "s3_create_bucket_event =
     JObj [(''source'', JStr ''aws.s3''),
           (''detail'', JObj
              [(''eventName'', JStr ''CreateBucket''),
               (''requestParameters'', JObj [(''bucketName'', JStr ''b1'')])])]"

definition untagged_env :: env where
  "untagged_env = example_env\<lparr>aws := (\<lambda>tr c. Inl (ClientError ''NoSuchTagSet''))\<rparr>"

definition tagged_env :: "(string \<times> string) list \<Rightarrow> env" where
  "tagged_env tags =
     example_env\<lparr>aws := (\<lambda>tr c. Inr (JObj
       [(''ResponseMetadata'', JObj [(''HTTPStatusCode'', JNum 200)]),
        (''TagSet'', JArr (map (\<lambda>kv. JObj [(''Key'', JStr (fst kv)), (''Value'', JStr (snd kv))])
                            tags))]))\<rparr>"

text \<open>
  Every record whose key is not in the list is as it was (the relation a loop over records
  with these keys keeps).
\<close>

definition others_kept :: "string \<Rightarrow> string list \<Rightarrow> world \<Rightarrow> world \<Rightarrow> bool" where
  "others_kept tn ks w w' = (\<forall>k. k \<notin> set ks \<longrightarrow> map_of (ddb w' tn) k = map_of (ddb w tn) k)"

text \<open>An environment in which one given call raises and every other call succeeds.\<close>

definition fails_on :: "call \<Rightarrow> env" where
  "fails_on c =
     example_env\<lparr>aws := (\<lambda>tr c'. if c' = c then Inl (ClientError ''AlreadyExistsException'')
                                 else Inr ok_response)\<rparr>"

definition create_table_call :: "string \<Rightarrow> call" where
  "create_table_call b =
     Call ''glue'' ''create_table''
       [(''CatalogId'', JStr ''111122223333''),
        (''DatabaseName'', JStr ''db''),
        (''TableInput'', JObj
           [(''Name'', JStr (''db_'' @ b)),
            (''StorageDescriptor'', JObj [(''Location'', JStr (''s3://'' @ b @ ''/''))])])]"

definition create_workflow_call :: "string \<Rightarrow> call" where
  "create_workflow_call b =
     Call ''glue'' ''create_workflow'' [(''Name'', JStr (''s3-wf-noregion-db_'' @ b))]"

text \<open>
  The \<open>update_item\<close> call each stage-advancement \<open>update_ddb\<close> issues for the record with
  the given key.
\<close>

definition update_call_catalog_creator_s3 :: "string \<Rightarrow> string \<Rightarrow> string \<Rightarrow> string \<Rightarrow> call" where
  "update_call_catalog_creator_s3 table_name k dc_table_name dc_db_name =
     Call ''dynamodb'' ''update_item''
       [(''TableName'', JStr table_name),
        (''Key'', JObj [(''id'', JObj [(''S'', JStr k)])]),
        (''UpdateExpression'',
           JStr (''SET #data_catalog_entry = :true, #data_catalog_table_name =:t, '' @
                 ''#data_catalog_db_name =:d'')),
        (''ExpressionAttributeNames'',
           JObj [(''#data_catalog_entry'', JStr ''data_catalog_entry''),
                 (''#data_catalog_table_name'', JStr ''data_catalog_table_name''),
                 (''#data_catalog_db_name'', JStr ''data_catalog_db_name'')]),
        (''ExpressionAttributeValues'',
           JObj [('':true'', JObj [(''BOOL'', JBool True)]),
                 ('':t'', JObj [(''S'', JStr dc_table_name)]),
                 ('':d'', JObj [(''S'', JStr dc_db_name)])])]"

definition update_call_s3_glue_job_creator :: "string \<Rightarrow> string \<Rightarrow> call" where
  "update_call_s3_glue_job_creator table_name k =
     Call ''dynamodb'' ''update_item''
       [(''TableName'', JStr table_name),
        (''Key'', JObj [(''id'', JObj [(''S'', JStr k)])]),
        (''UpdateExpression'', JStr ''SET #glue_job_created = :true''),
        (''ExpressionAttributeNames'', JObj [(''#glue_job_created'', JStr ''glue_job_created'')]),
        (''ExpressionAttributeValues'', JObj [('':true'', JObj [(''BOOL'', JBool True)])])]"

text \<open>
  An environment of a tagged bucket in which both queue settings of \<open>s3-trigger\<close> name one
  queue, and one of a tagged bucket in which sending the bucket's message to the given queue
  raises.
\<close>

definition same_queue_env :: "(string \<times> string) list \<Rightarrow> env" where
  "same_queue_env tags =
     (tagged_env tags)\<lparr>environ :=
        (map_of example_environ)(''GLUE_CUSTOM_ENTITY_QUEUE_URL'' \<mapsto> ''q-tracking'')\<rparr>"

definition failing_send_env :: "(string \<times> string) list \<Rightarrow> string \<Rightarrow> env" where
  "failing_send_env tags url =
     (tagged_env tags)\<lparr>aws := (\<lambda>tr c.
        if c = Call ''sqs'' ''send_message''
                 [(''QueueUrl'', JStr url), (''MessageBody'', JStr s3_message_text)]
        then Inl (ClientError ''ServiceUnavailable'')
        else aws (tagged_env tags) tr c)\<rparr>"

section \<open>Properties\<close>

subsection \<open>Sequencing\<close>

lemma pbind_lift_Inr [simp]: "pbind (lift (Inr v)) f = f v"
  by (rule ext) (simp add: pbind_def lift_def)

lemma pbind_lift_Inl [simp]: "pbind (lift (Inl e)) f w = (Inl e, w)"
  by (simp add: pbind_def lift_def)

lemma pbind_ok [simp]: "pbind (ok v) f = f v"
  by (rule ext) (simp add: pbind_def ok_def)

lemma pbind_raise [simp]: "pbind (raise e) f w = (Inl e, w)"
  by (simp add: pbind_def raise_def)

lemma ebind_Inr [simp]: "ebind (Inr v) f = f v"
  by (simp add: ebind_def)

lemma ebind_Inl [simp]: "ebind (Inl e) f = Inl e"
  by (simp add: ebind_def)

lemma pbind_result:
  "pbind m f w = (r, w') \<Longrightarrow>
     (\<exists>e. m w = (Inl e, w') \<and> r = Inl e) \<or> (\<exists>v w1. m w = (Inr v, w1) \<and> f v w1 = (r, w'))"
  by (auto simp: pbind_def split: prod.splits sum.splits)

subsection \<open>Relations kept by the building blocks\<close>

lemma frame_relD:
  assumes "frame_rel R"
  shows "R w w" and "R a b \<Longrightarrow> R b c \<Longrightarrow> R a c"
    and "R w (w\<lparr>trace := tr\<rparr>)" and "R w (w\<lparr>drawn := n\<rparr>)"
proof -
  from assms show "R w w" by (simp add: frame_rel_def)
  from assms show "R a b \<Longrightarrow> R b c \<Longrightarrow> R a c" unfolding frame_rel_def by blast
  from assms have "R w (w\<lparr>trace := tr, drawn := drawn w\<rparr>)" unfolding frame_rel_def by blast
  then show "R w (w\<lparr>trace := tr\<rparr>)" by simp
  from assms have "R w (w\<lparr>trace := trace w, drawn := n\<rparr>)" unfolding frame_rel_def by blast
  then show "R w (w\<lparr>drawn := n\<rparr>)" by simp
qed

lemma keeps_lift: "frame_rel R \<Longrightarrow> keeps R (lift r)"
  by (simp add: keeps_def lift_def frame_relD)

lemma keeps_ok: "frame_rel R \<Longrightarrow> keeps R (ok v)"
  by (simp add: keeps_def ok_def frame_relD)

lemma keeps_raise: "frame_rel R \<Longrightarrow> keeps R (raise e)"
  by (simp add: keeps_def raise_def frame_relD)

lemma keeps_api: "frame_rel R \<Longrightarrow> keeps R (api en c)"
  by (simp add: keeps_def api_def frame_relD)

lemma keeps_draw_uuid: "frame_rel R \<Longrightarrow> keeps R (draw_uuid en)"
  by (simp add: keeps_def draw_uuid_def frame_relD)

lemma keeps_require_env: "frame_rel R \<Longrightarrow> keeps R (require_env en name msg)"
  by (simp add: require_env_def keeps_raise keeps_ok split: option.split)

lemma keeps_pbind:
  assumes R: "frame_rel R" and m: "keeps R m" and f: "\<And>v. keeps R (f v)"
  shows "keeps R (pbind m f)"
  unfolding keeps_def
proof
  fix w
  show "R w (snd (pbind m f w))"
  proof (cases "m w")
    case (Pair r w1)
    with m have 1: "R w w1" unfolding keeps_def by (metis snd_conv)
    show ?thesis
    proof (cases r)
      case (Inl e)
      with Pair 1 show ?thesis by (simp add: pbind_def)
    next
      case (Inr v)
      from f have "R w1 (snd (f v w1))" unfolding keeps_def by blast
      with 1 R have "R w (snd (f v w1))" by (blast intro: frame_relD(2))
      with Pair Inr show ?thesis by (simp add: pbind_def)
    qed
  qed
qed

lemma keeps_for_each:
  assumes R: "frame_rel R" and body: "\<And>x. keeps R (body x)"
  shows "keeps R (for_each body xs)"
  unfolding keeps_def
proof
  fix w
  show "R w (snd (for_each body xs w))"
  proof (induction xs arbitrary: w)
    case Nil
    from R show ?case by (simp add: frame_relD)
  next
    case (Cons x xs)
    show ?case
    proof (cases "body x w")
      case (Pair r w1)
      with body have 1: "R w w1" unfolding keeps_def by (metis snd_conv)
      show ?thesis
      proof (cases r)
        case (Inl e)
        with Pair 1 show ?thesis by simp
      next
        case (Inr u)
        from Cons.IH have "R w1 (snd (for_each body xs w1))" .
        with 1 R have "R w (snd (for_each body xs w1))" by (blast intro: frame_relD(2))
        with Pair Inr show ?thesis by simp
      qed
    qed
  qed
qed

lemma keepsD: "keeps R m \<Longrightarrow> m w = (r, w') \<Longrightarrow> R w w'"
  unfolding keeps_def by (metis snd_conv)

lemma keeps_execute_statement: "frame_rel R \<Longrightarrow> keeps R (execute_statement en q t c)"
  by (simp add: keeps_def execute_statement_def Let_def frame_relD split: sum.split)

lemma keeps_fetch_ddb_results: "frame_rel R \<Longrightarrow> keeps R (fetch_ddb_results en q t c)"
  unfolding fetch_ddb_results_def
  by (intro keeps_pbind keeps_execute_statement keeps_lift keeps_ok)

lemma frame_rel_same_tables: "frame_rel same_tables"
  by (simp add: frame_rel_def same_tables_def)

lemma frame_rel_same_table: "frame_rel (same_table t)"
  by (simp add: frame_rel_def same_table_def)

lemma frame_rel_flag_kept: "frame_rel (flag_kept t k flag)"
  by (simp add: frame_rel_def flag_kept_def)

subsection \<open>The store operations\<close>

lemma map_of_assign3:
  "map_of (assign [(a, x), (b, y), (c, z)] it) = (map_of it)(a \<mapsto> x, b \<mapsto> y, c \<mapsto> z)"
  by (simp add: assign_def update_conv')

lemma map_of_assign1: "map_of (assign [(a, x)] it) = (map_of it)(a \<mapsto> x)"
  by (simp add: assign_def update_conv')

lemma put_item_failure_keeps_tables:
  "put_item en t it c w = (Inl e, w') \<Longrightarrow> ddb w' = ddb w"
  by (auto simp: put_item_def Let_def split: sum.splits option.splits json.splits if_splits)

lemma put_item_other_table:
  "t \<noteq> tn \<Longrightarrow> keeps (same_table t) (put_item en tn it c)"
  by (auto simp: keeps_def same_table_def put_item_def Let_def
           split: sum.splits option.splits json.splits)

lemma put_item_if_absent_flag_kept:
  "keeps (flag_kept t k flag) (put_item en tn it True)"
  by (auto simp: keeps_def flag_kept_def flag_set_def put_item_def Let_def update_conv'
           split: sum.splits option.splits json.splits)

lemma try_put_item_flag_kept: "keeps (flag_kept t k flag) (try_put_item en target)"
proof -
  have "flag_kept t k flag w (snd (try_put_item en target w))" for w
  proof (cases "put_item en (fst target) (snd target) True w")
    case (Pair r w1)
    with put_item_if_absent_flag_kept have "flag_kept t k flag w w1"
      by (blast dest: keepsD)
    with Pair show ?thesis
      by (simp add: try_put_item_def split: sum.split error.split)
  qed
  then show ?thesis by (simp add: keeps_def)
qed

lemma update_item_flag_kept:
  assumes "\<And>it. map_of it flag = Some (JBool True) \<Longrightarrow>
                 map_of (assign sets it) flag = Some (JBool True)"
  shows "keeps (flag_kept t k flag) (update_item en tn key kwargs sets)"
  using assms
  by (auto simp: keeps_def flag_kept_def flag_set_def update_item_def Let_def update_conv'
           split: sum.splits option.splits)

lemma update_ddb_catalog_flag_kept:
  "keeps (flag_kept t k flag) (update_ddb_catalog_creator_s3 en tn obj dct dcd)"
  (is "keeps ?R _") if "flag \<in> {''data_catalog_entry'', ''glue_job_created''}"
  unfolding update_ddb_catalog_creator_s3_def
proof (intro keeps_pbind keeps_lift frame_rel_flag_kept update_item_flag_kept)
  fix it assume "map_of it flag = Some (JBool True)"
  with that
  show "map_of (assign [(''data_catalog_entry'', JBool True),
           (''data_catalog_table_name'', JStr dct), (''data_catalog_db_name'', JStr dcd)] it) flag
        = Some (JBool True)"
    by (auto simp: map_of_assign3)
qed

lemma update_ddb_job_flag_kept:
  "keeps (flag_kept t k flag) (update_ddb_s3_glue_job_creator en tn obj)"
  unfolding update_ddb_s3_glue_job_creator_def
proof (intro keeps_pbind keeps_lift frame_rel_flag_kept update_item_flag_kept)
  fix it assume "map_of it flag = Some (JBool True)"
  then show "map_of (assign [(''glue_job_created'', JBool True)] it) flag = Some (JBool True)"
    by (auto simp: map_of_assign1)
qed

subsection \<open>Relations kept by the handlers\<close>

lemma keeps_if: "keeps R a \<Longrightarrow> keeps R b \<Longrightarrow> keeps R (if c then a else b)"
  by simp

lemma keeps_case_option:
  "keeps R a \<Longrightarrow> (\<And>y. keeps R (f y)) \<Longrightarrow> keeps R (case x of None \<Rightarrow> a | Some y \<Rightarrow> f y)"
  by (simp split: option.split)

lemma keeps_case_prod: "(\<And>a b. keeps R (f a b)) \<Longrightarrow> keeps R (case p of (a, b) \<Rightarrow> f a b)"
  by (simp split: prod.split)

lemma keeps_Let: "(\<And>x. keeps R (f x)) \<Longrightarrow> keeps R (Let v f)"
  by simp

lemma keeps_mono: "keeps R m \<Longrightarrow> (\<And>w w'. R w w' \<Longrightarrow> S w w') \<Longrightarrow> keeps S m"
  by (simp add: keeps_def)

lemmas keeps_intros =
  keeps_pbind keeps_lift keeps_ok keeps_raise keeps_api keeps_draw_uuid keeps_require_env
  keeps_for_each keeps_fetch_ddb_results keeps_if keeps_case_option keeps_case_prod keeps_Let

lemma keeps_delete_sqs_message: "frame_rel R \<Longrightarrow> keeps R (delete_sqs_message en ma)"
  unfolding delete_sqs_message_def by (intro keeps_intros)

lemma keeps_acknowledge_message: "frame_rel R \<Longrightarrow> keeps R (acknowledge_message en event)"
  unfolding acknowledge_message_def by (intro keeps_intros keeps_delete_sqs_message)

lemma keeps_python_obj_glue_tracking_initial:
  "frame_rel R \<Longrightarrow> keeps R (python_obj_glue_tracking_initial en event)"
  unfolding python_obj_glue_tracking_initial_def body_to_python_obj_def
  by (intro keeps_intros keeps_acknowledge_message)

lemma keeps_python_obj_rds_glue_tracking_initial:
  "frame_rel R \<Longrightarrow> keeps R (python_obj_rds_glue_tracking_initial en event)"
  unfolding python_obj_rds_glue_tracking_initial_def
  by (intro keeps_intros)

lemma keeps_send_message_to_sqs: "frame_rel R \<Longrightarrow> keeps R (send_message_to_sqs en url msg)"
  unfolding send_message_to_sqs_def by (intro keeps_intros)

lemma snd_get_bucket_tags:
  "snd (get_bucket_tags en b w) =
   w\<lparr>trace := trace w @ [Call ''s3'' ''get_bucket_tagging'' [(''Bucket'', b)]]\<rparr>"
proof (cases "aws en (trace w) (Call ''s3'' ''get_bucket_tagging'' [(''Bucket'', b)])")
  case (Inl e)
  then show ?thesis by (cases e) (simp_all add: get_bucket_tags_def api_def)
next
  case (Inr resp)
  then show ?thesis by (simp add: get_bucket_tags_def api_def)
qed

lemma keeps_get_bucket_tags: "frame_rel R \<Longrightarrow> keeps R (get_bucket_tags en b)"
  by (simp add: keeps_def snd_get_bucket_tags frame_relD)

lemma keeps_tag_loop: "frame_rel R \<Longrightarrow> keeps R (tag_loop en url msg tags flag)"
proof -
  assume R: "frame_rel R"
  have "R w (snd (tag_loop en url msg tags flag w))" for w
  proof (induction tags arbitrary: flag w)
    case Nil
    from R show ?case by (simp add: frame_relD)
  next
    case (Cons tag tags)
    from R have refl: "R w w" by (simp add: frame_relD)
    show ?case
    proof (cases "tag_is tag ''gdpr-scan'' ''true''")
      case Inl
      with refl show ?thesis by simp
    next
      case scan: (Inr s)
      show ?thesis
      proof (cases "tag_is tag ''glue-custom-entity'' ''true''")
        case Inl
        with scan refl show ?thesis by simp
      next
        case custom: (Inr c)
        show ?thesis
        proof (cases c)
          case False
          with scan custom Cons.IH show ?thesis by simp
        next
          case True
          show ?thesis
          proof (cases "send_message_to_sqs en url msg w")
            case (Pair r w1)
            with keeps_send_message_to_sqs [OF R] have 1: "R w w1" by (blast dest: keepsD)
            show ?thesis
            proof (cases r)
              case (Inl e)
              with scan custom True Pair 1 show ?thesis by simp
            next
              case (Inr u)
              from Cons.IH have "R w1 (snd (tag_loop en url msg tags (flag \<or> s) w1))" .
              with 1 R have "R w (snd (tag_loop en url msg tags (flag \<or> s) w1))"
                by (blast intro: frame_relD(2))
              with scan custom True Pair Inr show ?thesis by simp
            qed
          qed
        qed
      qed
    qed
  qed
  then show ?thesis by (simp add: keeps_def)
qed

lemma keeps_s3_trigger: "frame_rel R \<Longrightarrow> keeps R (lambda_handler_s3_trigger en event)"
  unfolding lambda_handler_s3_trigger_def bucket_tags_s3_trigger_def
  by (intro keeps_intros keeps_get_bucket_tags keeps_tag_loop keeps_send_message_to_sqs)

lemma keeps_dynamodb_trigger:
  "frame_rel R \<Longrightarrow> keeps R (lambda_handler_dynamodb_trigger en event)"
  unfolding lambda_handler_dynamodb_trigger_def
  by (intro keeps_intros keeps_send_message_to_sqs)

lemma keeps_scan_catalog_creator_s3: "frame_rel R \<Longrightarrow> keeps R (scan_catalog_creator_s3 en)"
  unfolding scan_catalog_creator_s3_def by (intro keeps_intros)

lemma keeps_scan_s3_glue_job_creator: "frame_rel R \<Longrightarrow> keeps R (scan_s3_glue_job_creator en)"
  unfolding scan_s3_glue_job_creator_def by (intro keeps_intros)

lemma keeps_scan_tag_report: "frame_rel R \<Longrightarrow> keeps R (scan_tag_report en st)"
  unfolding scan_tag_report_def by (intro keeps_intros)

lemma keeps_create_data_catalog_table:
  "frame_rel R \<Longrightarrow> keeps R (create_data_catalog_table en b d a t)"
  unfolding create_data_catalog_table_def by (intro keeps_intros)

lemma keeps_create_crawler: "frame_rel R \<Longrightarrow> keeps R (create_crawler en d t r)"
  unfolding create_crawler_def by (intro keeps_intros)

lemma keeps_create_glue_job:
  "frame_rel R \<Longrightarrow> keeps R (create_glue_job en a b c d e f g h i j k)"
  unfolding create_glue_job_def by (intro keeps_intros)

lemma catalog_s3_obj_flag_kept:
  "flag \<in> {''data_catalog_entry'', ''glue_job_created''} \<Longrightarrow>
   keeps (flag_kept t k flag) (catalog_s3_obj en tn role db acct obj)"
  unfolding catalog_s3_obj_def
  by (intro keeps_intros keeps_create_data_catalog_table keeps_create_crawler
        update_ddb_catalog_flag_kept frame_rel_flag_kept)

lemma job_s3_obj_flag_kept:
  "keeps (flag_kept t k flag) (job_s3_obj en tn out assets script role obj)"
  unfolding job_s3_obj_def
  by (intro keeps_intros keeps_create_glue_job update_ddb_job_flag_kept frame_rel_flag_kept)

lemma put_row_other_table:
  "t \<noteq> tn \<Longrightarrow>
   keeps (same_table t) (pbind (put_item en tn it False) (\<lambda>resp. lift (check_response resp)))"
  by (intro keeps_intros frame_rel_same_table put_item_other_table)

lemma report_tags_other_table:
  assumes "t \<noteq> tn"
  shows "keeps (same_table t) (report_tags en tn obj tags)"
  unfolding report_tags_def
proof (intro keeps_intros frame_rel_same_table)
  fix v va vb
  show "keeps (same_table t)
          (\<lambda>w. pbind (put_item en tn
                  (AList.update ''time_stamp'' (JStr (now en (length (trace w))))
                  (AList.update ''data_catalog_table_name'' v
                  (AList.update ''id'' (JStr vb) va))) False)
                (\<lambda>resp. lift (check_response resp)) w)"
    using put_row_other_table [OF assms] by (simp add: keeps_def)
qed

subsection \<open>Monotonic flags\<close>

lemma same_table_flag_kept: "same_table t w w' \<Longrightarrow> flag_kept t k flag w w'"
  by (simp add: same_table_def flag_kept_def)

lemma glue_tracking_initial_flag_kept:
  "keeps (flag_kept t k flag) (lambda_handler_glue_tracking_initial en event)"
  unfolding lambda_handler_glue_tracking_initial_def
  by (intro keeps_pbind keeps_python_obj_glue_tracking_initial try_put_item_flag_kept
        frame_rel_flag_kept)

lemma rds_glue_tracking_initial_flag_kept:
  "keeps (flag_kept t k flag) (lambda_handler_rds_glue_tracking_initial en event)"
  unfolding lambda_handler_rds_glue_tracking_initial_def
  by (intro keeps_intros keeps_python_obj_rds_glue_tracking_initial try_put_item_flag_kept
        frame_rel_flag_kept)

lemma catalog_creator_s3_flag_kept:
  "flag \<in> {''data_catalog_entry'', ''glue_job_created''} \<Longrightarrow>
   keeps (flag_kept t k flag) (lambda_handler_catalog_creator_s3 en event)"
  unfolding lambda_handler_catalog_creator_s3_def
  by (intro keeps_intros keeps_scan_catalog_creator_s3 catalog_s3_obj_flag_kept
        frame_rel_flag_kept)

lemma s3_glue_job_creator_flag_kept:
  "keeps (flag_kept t k flag) (lambda_handler_s3_glue_job_creator en event)"
  unfolding lambda_handler_s3_glue_job_creator_def
  by (intro keeps_intros keeps_scan_s3_glue_job_creator job_s3_obj_flag_kept
        frame_rel_flag_kept)

lemma s3_tag_report_same_table:
  assumes "environ en ''TAG_REPORT_TABLE_NAME'' \<noteq> Some t"
  shows "keeps (same_table t) (lambda_handler_s3_tag_report en event)"
proof -
  have scan: "scan_tag_report en ''s3'' w = (Inr (Some (tn, xs)), w1) \<Longrightarrow> tn \<noteq> t" for w tn xs w1
    using assms
    by (auto simp: scan_tag_report_def require_env_def raise_def ok_def
             dest!: pbind_result split: option.splits if_splits)
  have body: "tn \<noteq> t \<Longrightarrow> keeps (same_table t) (for_each (s3_tag_report_obj en tn) xs)" for tn xs
    unfolding s3_tag_report_obj_def
    by (intro keeps_intros keeps_get_bucket_tags report_tags_other_table frame_rel_same_table)
       simp
  have "same_table t w (snd (lambda_handler_s3_tag_report en event w))" for w
  proof (cases "scan_tag_report en ''s3'' w")
    case (Pair r w1)
    with keeps_scan_tag_report [OF frame_rel_same_table] have 1: "same_table t w w1"
      by (blast dest: keepsD)
    show ?thesis
    proof (cases r)
      case (Inl e)
      with Pair 1 show ?thesis by (simp add: lambda_handler_s3_tag_report_def pbind_def)
    next
      case (Inr scanned)
      show ?thesis
      proof (cases scanned)
        case None
        with Pair Inr 1 show ?thesis
          by (simp add: lambda_handler_s3_tag_report_def pbind_def ok_def)
      next
        case (Some p)
        obtain tn xs where p: "p = (tn, xs)" by (cases p)
        with Pair Inr Some scan have "tn \<noteq> t" by blast
        from body [OF this] have "same_table t w1 (snd (for_each (s3_tag_report_obj en tn) xs w1))"
          by (simp add: keeps_def)
        with 1 have "same_table t w (snd (for_each (s3_tag_report_obj en tn) xs w1))"
          by (simp add: same_table_def)
        with Pair Inr Some p show ?thesis
          by (simp add: lambda_handler_s3_tag_report_def pbind_def)
      qed
    qed
  qed
  then show ?thesis by (simp add: keeps_def)
qed

lemma keeps_get_table_tags: "frame_rel R \<Longrightarrow> keeps R (get_table_tags en arn)"
  unfolding get_table_tags_def by (intro keeps_intros)

lemma keeps_get_db_tags: "frame_rel R \<Longrightarrow> keeps R (get_db_tags en arn)"
  unfolding get_db_tags_def by (intro keeps_intros)

lemma keeps_get_glue_connection: "frame_rel R \<Longrightarrow> keeps R (get_glue_connection en n)"
  unfolding get_glue_connection_def by (intro keeps_intros)

lemma ddb_tag_report_same_table:
  "t \<noteq> ''tagCaptureTable'' \<Longrightarrow> keeps (same_table t) (lambda_handler_ddb_tag_report en event)"
  unfolding lambda_handler_ddb_tag_report_def ddb_tag_report_obj_def
  by (intro keeps_intros keeps_scan_tag_report keeps_get_table_tags report_tags_other_table
        frame_rel_same_table)

lemma rds_tag_report_same_table:
  "t \<noteq> ''tagCaptureTable'' \<Longrightarrow> keeps (same_table t) (lambda_handler_rds_tag_report en event)"
  unfolding lambda_handler_rds_tag_report_def rds_tag_report_obj_def
  by (intro keeps_intros keeps_scan_tag_report keeps_get_glue_connection keeps_get_db_tags
        report_tags_other_table frame_rel_same_table)

lemma invoke_flag_kept:
  assumes flag: "flag \<in> {''data_catalog_entry'', ''glue_job_created''}"
    and rep: "report_table h en \<noteq> Some t"
  shows "keeps (flag_kept t k flag) (invoke h en event)"
proof (cases h)
  case Glue_tracking_initial
  then show ?thesis by (simp add: glue_tracking_initial_flag_kept)
next
  case Rds_glue_tracking_initial
  then show ?thesis by (simp add: rds_glue_tracking_initial_flag_kept)
next
  case Catalog_creator_s3
  with flag show ?thesis by (simp only: invoke.simps catalog_creator_s3_flag_kept)
next
  case S3_glue_job_creator
  then show ?thesis by (simp add: s3_glue_job_creator_flag_kept)
next
  case S3_tag_report
  with rep have "keeps (same_table t) (invoke h en event)"
    by (simp add: s3_tag_report_same_table)
  then show ?thesis by (rule keeps_mono) (rule same_table_flag_kept)
next
  case Rds_tag_report
  with rep have "keeps (same_table t) (invoke h en event)"
    by (simp add: rds_tag_report_same_table)
  then show ?thesis by (rule keeps_mono) (rule same_table_flag_kept)
next
  case Ddb_tag_report
  with rep have "keeps (same_table t) (invoke h en event)"
    by (simp add: ddb_tag_report_same_table)
  then show ?thesis by (rule keeps_mono) (rule same_table_flag_kept)
next
  case S3_trigger
  then show ?thesis by (simp add: keeps_s3_trigger frame_rel_flag_kept)
next
  case Dynamodb_trigger
  then show ?thesis by (simp add: keeps_dynamodb_trigger frame_rel_flag_kept)
qed

text \<open>
  C3.  Over any history of invocations of the handlers, a stage flag
  (\<open>data_catalog_entry\<close> or \<open>glue_job_created\<close>) that is true on a record of a table is
  still true at the end, provided the report handlers of the history write their rows to
  another table; and each of the two \<open>update_ddb\<close> functions keeps such a flag true.
  Inserts add a record under a new key, the updates assign true, and the report handlers
  write to the report table only.
\<close>

theorem stage_flags_monotonic:
  "flag \<in> {''data_catalog_entry'', ''glue_job_created''} \<and> flag_set (ddb w t) k flag \<longrightarrow>
     (writes_reports_elsewhere t history \<longrightarrow> flag_set (ddb (run history w) t) k flag) \<and>
     flag_set (ddb (snd (update_ddb_catalog_creator_s3 en tn obj dct dcd w)) t) k flag \<and>
     flag_set (ddb (snd (update_ddb_s3_glue_job_creator en tn obj w)) t) k flag"
proof (intro impI conjI)
  assume a: "flag \<in> {''data_catalog_entry'', ''glue_job_created''} \<and> flag_set (ddb w t) k flag"
  then have flag: "flag \<in> {''data_catalog_entry'', ''glue_job_created''}" by simp
  from a update_ddb_catalog_flag_kept [OF flag, of t k en tn obj dct dcd]
  show "flag_set (ddb (snd (update_ddb_catalog_creator_s3 en tn obj dct dcd w)) t) k flag"
    by (simp add: keeps_def flag_kept_def)
  from a update_ddb_job_flag_kept [of t k flag en tn obj]
  show "flag_set (ddb (snd (update_ddb_s3_glue_job_creator en tn obj w)) t) k flag"
    by (simp add: keeps_def flag_kept_def)
  assume "writes_reports_elsewhere t history"
  with a show "flag_set (ddb (run history w) t) k flag"
  proof (induction history arbitrary: w)
    case Nil
    then show ?case by simp
  next
    case (Cons i history)
    from Cons.prems have rep: "report_table (fst i) (fst (snd i)) \<noteq> Some t" by simp
    from invoke_flag_kept [OF flag rep, of k "snd (snd i)"] Cons.prems(1)
    have "flag_set (ddb (snd (invoke (fst i) (fst (snd i)) (snd (snd i)) w)) t) k flag"
      by (simp add: keeps_def flag_kept_def)
    with Cons.IH [of "snd (invoke (fst i) (fst (snd i)) (snd (snd i)) w)"] Cons.prems flag
    show ?case by simp
  qed
qed

lemmas run_defs =
  pbind_def ebind_def lift_def ok_def raise_def api_def draw_uuid_def require_env_def
  check_missing_field_def validate_field_def check_response_def
  put_item_def put_item_call_def update_item_def execute_statement_def with_items_def assign_def
  fetch_ddb_results_def unmarshall_ddb_items_def
  get_sqs_message_attributes_def get_message_body_def json_loads_def delete_sqs_message_def
  acknowledge_message_def body_to_python_obj_def lower_char_def Let_def

lemmas example_defs =
  example_env_def example_environ_def ok_response_def throttled_env_def
  s3_message_def s3_message_text_def dynamodb_message_def dynamodb_message_text_def
  queue_event_def direct_event_def glue_create_table_event_def
  store_of_def duplicate_world_def discovered_world_def catalogued_world_def
  bucket_record_def catalogued_record_def

subsection \<open>Conditional insert\<close>

lemma try_put_item_on_failure:
  "put_item en (fst target) (snd target) True w1 = (Inl e, w2) \<Longrightarrow>
   try_put_item en target w1 =
     (if e = ClientError ''ConditionalCheckFailedException'' then (Inr (), w2)
      else (Inl (case e of ClientError c \<Rightarrow> PyException [] | _ \<Rightarrow> e), w2))"
  by (cases e) (simp_all add: try_put_item_def)

text \<open>
  C6.  In both inserting handlers, when the conditional \<open>put_item\<close> of the item the handler
  has built raises, the tables are left as they were; if the exception is the
  \<open>ClientError\<close> with code \<open>ConditionalCheckFailedException\<close> the handler returns
  normally, and with any other exception the handler ends with an exception.
\<close>

theorem conditional_insert_failures:
  "(python_obj_glue_tracking_initial en event w = (Inr target, w1) \<and>
    put_item en (fst target) (snd target) True w1 = (Inl e, w2) \<longrightarrow>
      ddb w2 = ddb w1 \<and>
      (e = ClientError ''ConditionalCheckFailedException'' \<longrightarrow>
         lambda_handler_glue_tracking_initial en event w = (Inr (), w2)) \<and>
      (e \<noteq> ClientError ''ConditionalCheckFailedException'' \<longrightarrow>
         (\<exists>e'. lambda_handler_glue_tracking_initial en event w = (Inl e', w2)))) \<and>
   (python_obj_rds_glue_tracking_initial en' event' w' = (Inr (Some target'), w1') \<and>
    put_item en' (fst target') (snd target') True w1' = (Inl e'', w2') \<longrightarrow>
      ddb w2' = ddb w1' \<and>
      (e'' = ClientError ''ConditionalCheckFailedException'' \<longrightarrow>
         lambda_handler_rds_glue_tracking_initial en' event' w' = (Inr (), w2')) \<and>
      (e'' \<noteq> ClientError ''ConditionalCheckFailedException'' \<longrightarrow>
         (\<exists>e'. lambda_handler_rds_glue_tracking_initial en' event' w' = (Inl e', w2'))))"
proof (intro conjI impI)
  assume h: "python_obj_glue_tracking_initial en event w = (Inr target, w1) \<and>
    put_item en (fst target) (snd target) True w1 = (Inl e, w2)"
  then show "ddb w2 = ddb w1" by (blast dest: put_item_failure_keeps_tables)
  from h have run: "lambda_handler_glue_tracking_initial en event w = try_put_item en target w1"
    by (simp add: lambda_handler_glue_tracking_initial_def pbind_def)
  { assume "e = ClientError ''ConditionalCheckFailedException''"
    with h run show "lambda_handler_glue_tracking_initial en event w = (Inr (), w2)"
      by (simp add: try_put_item_on_failure) }
  { assume "e \<noteq> ClientError ''ConditionalCheckFailedException''"
    with h run show "\<exists>e'. lambda_handler_glue_tracking_initial en event w = (Inl e', w2)"
      by (simp add: try_put_item_on_failure) }
next
  assume h: "python_obj_rds_glue_tracking_initial en' event' w' = (Inr (Some target'), w1') \<and>
    put_item en' (fst target') (snd target') True w1' = (Inl e'', w2')"
  then show "ddb w2' = ddb w1'" by (blast dest: put_item_failure_keeps_tables)
  from h have run:
    "lambda_handler_rds_glue_tracking_initial en' event' w' = try_put_item en' target' w1'"
    by (simp add: lambda_handler_rds_glue_tracking_initial_def pbind_def)
  { assume "e'' = ClientError ''ConditionalCheckFailedException''"
    with h run show "lambda_handler_rds_glue_tracking_initial en' event' w' = (Inr (), w2')"
      by (simp add: try_put_item_on_failure) }
  { assume "e'' \<noteq> ClientError ''ConditionalCheckFailedException''"
    with h run
    show "\<exists>e'. lambda_handler_rds_glue_tracking_initial en' event' w' = (Inl e', w2')"
      by (simp add: try_put_item_on_failure) }
qed

theorem conditional_insert_failures_witness:
  "fst (lambda_handler_glue_tracking_initial example_env (queue_event s3_message_text)
          duplicate_world) = Inr () \<and>
   ddb (snd (lambda_handler_glue_tracking_initial example_env (queue_event s3_message_text)
          duplicate_world)) ''tracker'' = [(''u0'', bucket_record ''u0'' ''b1'')] \<and>
   (\<exists>e'. fst (lambda_handler_rds_glue_tracking_initial throttled_env glue_create_table_event
          duplicate_world) = Inl e')"
proof -
  let ?w1 = "snd (python_obj_glue_tracking_initial example_env (queue_event s3_message_text)
                    duplicate_world)"
  let ?it = "[(''id'', JStr ''u0''), (''data_source_type'', JStr ''s3''),
              (''glue_job_created'', JBool False), (''data_catalog_entry'', JBool False),
              (''data_source_attrs'', JObj [(''bucketName'', JStr ''b1'')])]"
  let ?w2 = "snd (put_item example_env ''tracker'' ?it True ?w1)"
  have a: "python_obj_glue_tracking_initial example_env (queue_event s3_message_text)
             duplicate_world = (Inr (''tracker'', ?it), ?w1)"
    by (simp add: python_obj_glue_tracking_initial_def run_defs example_defs)
  have b: "put_item example_env (fst (''tracker'', ?it)) (snd (''tracker'', ?it)) True ?w1 =
             (Inl (ClientError ''ConditionalCheckFailedException''), ?w2)"
    by (simp add: python_obj_glue_tracking_initial_def run_defs example_defs)
  have d: "ddb ?w1 ''tracker'' = [(''u0'', bucket_record ''u0'' ''b1'')]"
    by (simp add: python_obj_glue_tracking_initial_def run_defs example_defs)
  let ?v1 = "snd (python_obj_rds_glue_tracking_initial throttled_env glue_create_table_event
                    duplicate_world)"
  let ?jt = "[(''id'', JStr ''u0''), (''data_source_type'', JStr ''rds''),
              (''data_catalog_table_name'', JStr ''orders''),
              (''data_catalog_db_name'', JStr ''catalog''),
              (''glue_job_created'', JBool False), (''data_catalog_entry'', JBool True),
              (''data_source_attrs'', JObj [(''connectionName'', JStr ''conn1'')])]"
  let ?v2 = "snd (put_item throttled_env ''tracker'' ?jt True ?v1)"
  have a': "python_obj_rds_glue_tracking_initial throttled_env glue_create_table_event
              duplicate_world = (Inr (Some (''tracker'', ?jt)), ?v1)"
    by (simp add: python_obj_rds_glue_tracking_initial_def
          extract_valid_event_rds_glue_tracking_initial_def run_defs example_defs)
  have b': "put_item throttled_env (fst (''tracker'', ?jt)) (snd (''tracker'', ?jt)) True ?v1 =
              (Inl (ClientError ''ThrottlingException''), ?v2)"
    by (simp add: run_defs example_defs)
  from conditional_insert_failures
    [of example_env "queue_event s3_message_text" duplicate_world "(''tracker'', ?it)" ?w1
        "ClientError ''ConditionalCheckFailedException''" ?w2
        throttled_env glue_create_table_event duplicate_world "(''tracker'', ?jt)" ?v1
        "ClientError ''ThrottlingException''" ?v2]
    a b a' b' d
  show ?thesis by auto
qed

theorem stage_flags_monotonic_witness:
  "flag_set (ddb (run [(S3_glue_job_creator, example_env, JObj []),
                       (S3_tag_report, example_env, JObj [])] catalogued_world) ''tracker'')
     ''r1'' ''data_catalog_entry'' \<and>
   flag_set (ddb (snd (update_ddb_catalog_creator_s3 example_env ''tracker''
                         (JObj (catalogued_record ''r1'' ''b1'')) ''db_b1'' ''db''
                         catalogued_world)) ''tracker'') ''r1'' ''data_catalog_entry'' \<and>
   flag_set (ddb (snd (update_ddb_s3_glue_job_creator example_env ''tracker''
                         (JObj (catalogued_record ''r1'' ''b1'')) catalogued_world)) ''tracker'')
     ''r1'' ''data_catalog_entry''"
proof -
  have h1: "''data_catalog_entry'' \<in> {''data_catalog_entry'', ''glue_job_created''}" by simp
  have h2: "flag_set (ddb catalogued_world ''tracker'') ''r1'' ''data_catalog_entry''"
    by (simp add: flag_set_def example_defs)
  have h3: "writes_reports_elsewhere ''tracker''
              [(S3_glue_job_creator, example_env, JObj []), (S3_tag_report, example_env, JObj [])]"
    by (simp add: example_defs)
  from stage_flags_monotonic
    [of "''data_catalog_entry''" catalogued_world "''tracker''" "''r1''"
        "[(S3_glue_job_creator, example_env, JObj []), (S3_tag_report, example_env, JObj [])]"
        example_env "''tracker''" "JObj (catalogued_record ''r1'' ''b1'')" "''db_b1''" "''db''"]
    h1 h2 h3
  show ?thesis by blast
qed

subsection \<open>What a stage update writes\<close>

lemma update_item_effect:
  assumes "update_item en tn k kwargs sets w = (r, w')"
    and "map_of (ddb w tn) k = Some it"
  shows "(\<forall>t. t \<noteq> tn \<longrightarrow> ddb w' t = ddb w t) \<and>
         (\<forall>k'. k' \<noteq> k \<longrightarrow> map_of (ddb w' tn) k' = map_of (ddb w tn) k') \<and>
         (case r of Inl e \<Rightarrow> map_of (ddb w' tn) k = Some it
                  | Inr resp \<Rightarrow> map_of (ddb w' tn) k = Some (assign sets it))"
  using assms
  by (auto simp: update_item_def Let_def update_conv' split: sum.splits)

lemma update_then_check:
  assumes "pbind (update_item en tn k kwargs sets) (\<lambda>resp. lift (check_response resp)) w = (r, w')"
  shows "\<exists>r0. update_item en tn k kwargs sets w = (r0, w') \<and> (r = Inr () \<longrightarrow> (\<exists>resp. r0 = Inr resp))"
  using assms
  by (auto simp: pbind_def lift_def split: prod.splits sum.splits)

lemma update_ddb_catalog_creator_s3_answer:
  assumes "py_subscript obj ''id'' = Inr (JStr k)"
    and "update_ddb_catalog_creator_s3 en tn obj dct dcd w = (r, w')"
  shows "(case aws en (trace w) (update_call_catalog_creator_s3 tn k dct dcd) of
            Inl e \<Rightarrow> r = Inl e \<and> ddb w' = ddb w
          | Inr resp \<Rightarrow> r = check_response resp \<and>
              ddb w' = (ddb w)(tn := AList.update k
                 (assign [(''data_catalog_entry'', JBool True),
                          (''data_catalog_table_name'', JStr dct),
                          (''data_catalog_db_name'', JStr dcd)]
                    (case map_of (ddb w tn) k of Some it \<Rightarrow> it | None \<Rightarrow> [(''id'', JStr k)]))
                 (ddb w tn)))"
  using assms
  by (auto simp: update_ddb_catalog_creator_s3_def update_call_catalog_creator_s3_def
        update_item_def pbind_def lift_def ebind_def Let_def
        split: sum.splits prod.splits)

lemma update_ddb_s3_glue_job_creator_answer:
  assumes "py_subscript obj ''id'' = Inr (JStr k)"
    and "update_ddb_s3_glue_job_creator en tn obj w = (r, w')"
  shows "(case aws en (trace w) (update_call_s3_glue_job_creator tn k) of
            Inl e \<Rightarrow> r = Inl e \<and> ddb w' = ddb w
          | Inr resp \<Rightarrow> r = check_response resp \<and>
              ddb w' = (ddb w)(tn := AList.update k
                 (assign [(''glue_job_created'', JBool True)]
                    (case map_of (ddb w tn) k of Some it \<Rightarrow> it | None \<Rightarrow> [(''id'', JStr k)]))
                 (ddb w tn)))"
  using assms
  by (auto simp: update_ddb_s3_glue_job_creator_def update_call_s3_glue_job_creator_def
        update_item_def pbind_def lift_def ebind_def Let_def
        split: sum.splits prod.splits)


lemma check_response_200:
  "check_response (JObj ((''ResponseMetadata'', JObj ((''HTTPStatusCode'', JNum 200) # md)) # rest))
     = Inr ()"
  by (simp add: check_response_def check_missing_field_def validate_field_def ebind_def)

text \<open>
  C8.  On a stored record, the catalog-stage \<open>update_ddb\<close> leaves every other table and
  every other record as it was and leaves every attribute of the record other than
  \<open>data_catalog_entry\<close>, \<open>data_catalog_table_name\<close> and \<open>data_catalog_db_name\<close>
  unchanged (so \<open>id\<close>, \<open>data_source_type\<close>, \<open>data_source_attrs\<close> and
  \<open>glue_job_created\<close> keep their values); the record is either untouched or has exactly
  these three attributes assigned, and it has them assigned when the function returns
  normally.  The function issues one \<open>update_item\<close> call: when the service raises, the
  function raises that error and the table is as it was; when the service answers, the three
  attributes are assigned and the function returns what the check of the response returns,
  which is a normal return for a response with HTTP status 200.  The job-stage
  \<open>update_ddb\<close> does the same with the single attribute \<open>glue_job_created\<close>.
\<close>

theorem stage_update_frame:
  "(update_ddb_catalog_creator_s3 en tn obj dct dcd w = (r, w') \<and>
    py_subscript obj ''id'' = Inr (JStr k) \<and> map_of (ddb w tn) k = Some it \<longrightarrow>
      (\<forall>t. t \<noteq> tn \<longrightarrow> ddb w' t = ddb w t) \<and>
      (\<forall>k'. k' \<noteq> k \<longrightarrow> map_of (ddb w' tn) k' = map_of (ddb w tn) k') \<and>
      (\<exists>it'. map_of (ddb w' tn) k = Some it' \<and>
         (map_of it' = map_of it \<or>
          map_of it' = (map_of it)(''data_catalog_entry'' \<mapsto> JBool True,
                                   ''data_catalog_table_name'' \<mapsto> JStr dct,
                                   ''data_catalog_db_name'' \<mapsto> JStr dcd)) \<and>
         (r = Inr () \<longrightarrow>
          map_of it' = (map_of it)(''data_catalog_entry'' \<mapsto> JBool True,
                                   ''data_catalog_table_name'' \<mapsto> JStr dct,
                                   ''data_catalog_db_name'' \<mapsto> JStr dcd)) \<and>
         (\<forall>a. a \<notin> {''data_catalog_entry'', ''data_catalog_table_name'',
                     ''data_catalog_db_name''} \<longrightarrow> map_of it' a = map_of it a)) \<and>
      (\<forall>e. aws en (trace w) (update_call_catalog_creator_s3 tn k dct dcd) = Inl e \<longrightarrow>
         r = Inl e \<and> ddb w' = ddb w) \<and>
      (\<forall>resp. aws en (trace w) (update_call_catalog_creator_s3 tn k dct dcd) = Inr resp \<longrightarrow>
         r = check_response resp \<and>
         (\<exists>it'. map_of (ddb w' tn) k = Some it' \<and>
            map_of it' = (map_of it)(''data_catalog_entry'' \<mapsto> JBool True,
                                     ''data_catalog_table_name'' \<mapsto> JStr dct,
                                     ''data_catalog_db_name'' \<mapsto> JStr dcd))) \<and>
      (\<forall>md rest. aws en (trace w) (update_call_catalog_creator_s3 tn k dct dcd) =
           Inr (JObj ((''ResponseMetadata'', JObj ((''HTTPStatusCode'', JNum 200) # md)) # rest))
         \<longrightarrow> r = Inr ())) \<and>
   (update_ddb_s3_glue_job_creator en2 tn2 obj2 w2 = (r2, w2') \<and>
    py_subscript obj2 ''id'' = Inr (JStr k2) \<and> map_of (ddb w2 tn2) k2 = Some it2 \<longrightarrow>
      (\<forall>t. t \<noteq> tn2 \<longrightarrow> ddb w2' t = ddb w2 t) \<and>
      (\<forall>k'. k' \<noteq> k2 \<longrightarrow> map_of (ddb w2' tn2) k' = map_of (ddb w2 tn2) k') \<and>
      (\<exists>it'. map_of (ddb w2' tn2) k2 = Some it' \<and>
         (map_of it' = map_of it2 \<or>
          map_of it' = (map_of it2)(''glue_job_created'' \<mapsto> JBool True)) \<and>
         (r2 = Inr () \<longrightarrow> map_of it' = (map_of it2)(''glue_job_created'' \<mapsto> JBool True)) \<and>
         (\<forall>a. a \<noteq> ''glue_job_created'' \<longrightarrow> map_of it' a = map_of it2 a)) \<and>
      (\<forall>e. aws en2 (trace w2) (update_call_s3_glue_job_creator tn2 k2) = Inl e \<longrightarrow>
         r2 = Inl e \<and> ddb w2' = ddb w2) \<and>
      (\<forall>resp. aws en2 (trace w2) (update_call_s3_glue_job_creator tn2 k2) = Inr resp \<longrightarrow>
         r2 = check_response resp \<and>
         (\<exists>it'. map_of (ddb w2' tn2) k2 = Some it' \<and>
            map_of it' = (map_of it2)(''glue_job_created'' \<mapsto> JBool True))) \<and>
      (\<forall>md rest. aws en2 (trace w2) (update_call_s3_glue_job_creator tn2 k2) =
           Inr (JObj ((''ResponseMetadata'', JObj ((''HTTPStatusCode'', JNum 200) # md)) # rest))
         \<longrightarrow> r2 = Inr ()))"
proof (intro conjI impI)
  let ?sets = "[(''data_catalog_entry'', JBool True), (''data_catalog_table_name'', JStr dct),
                (''data_catalog_db_name'', JStr dcd)]"
  let ?c = "update_call_catalog_creator_s3 tn k dct dcd"
  assume h: "update_ddb_catalog_creator_s3 en tn obj dct dcd w = (r, w') \<and>
    py_subscript obj ''id'' = Inr (JStr k) \<and> map_of (ddb w tn) k = Some it"
  then obtain kwargs r0 where u: "update_item en tn k kwargs ?sets w = (r0, w')"
    and ok: "r = Inr () \<longrightarrow> (\<exists>resp. r0 = Inr resp)"
    by (auto simp: update_ddb_catalog_creator_s3_def dest!: update_then_check)
  from h have it: "map_of (ddb w tn) k = Some it" by simp
  from h have ans: "(case aws en (trace w) ?c of
            Inl e \<Rightarrow> r = Inl e \<and> ddb w' = ddb w
          | Inr resp \<Rightarrow> r = check_response resp \<and>
              ddb w' = (ddb w)(tn := AList.update k (assign ?sets it) (ddb w tn)))"
    using update_ddb_catalog_creator_s3_answer [of obj k en tn dct dcd w r w'] it
    by (simp split: sum.splits)
  note eff = update_item_effect [OF u it]
  from eff show "\<forall>t. t \<noteq> tn \<longrightarrow> ddb w' t = ddb w t" by blast
  from eff show "\<forall>k'. k' \<noteq> k \<longrightarrow> map_of (ddb w' tn) k' = map_of (ddb w tn) k'" by blast
  show "\<exists>it'. map_of (ddb w' tn) k = Some it' \<and>
         (map_of it' = map_of it \<or>
          map_of it' = (map_of it)(''data_catalog_entry'' \<mapsto> JBool True,
                                   ''data_catalog_table_name'' \<mapsto> JStr dct,
                                   ''data_catalog_db_name'' \<mapsto> JStr dcd)) \<and>
         (r = Inr () \<longrightarrow>
          map_of it' = (map_of it)(''data_catalog_entry'' \<mapsto> JBool True,
                                   ''data_catalog_table_name'' \<mapsto> JStr dct,
                                   ''data_catalog_db_name'' \<mapsto> JStr dcd)) \<and>
         (\<forall>a. a \<notin> {''data_catalog_entry'', ''data_catalog_table_name'',
                     ''data_catalog_db_name''} \<longrightarrow> map_of it' a = map_of it a)"
  proof (cases r0)
    case (Inl e)
    with eff ok show ?thesis by auto
  next
    case (Inr resp)
    with eff have "map_of (ddb w' tn) k = Some (assign ?sets it)" by simp
    then show ?thesis by (auto simp: map_of_assign3)
  qed
  from ans show "\<forall>e. aws en (trace w) ?c = Inl e \<longrightarrow> r = Inl e \<and> ddb w' = ddb w"
    by (auto split: sum.splits)
  show "\<forall>resp. aws en (trace w) ?c = Inr resp \<longrightarrow>
         r = check_response resp \<and>
         (\<exists>it'. map_of (ddb w' tn) k = Some it' \<and>
            map_of it' = (map_of it)(''data_catalog_entry'' \<mapsto> JBool True,
                                     ''data_catalog_table_name'' \<mapsto> JStr dct,
                                     ''data_catalog_db_name'' \<mapsto> JStr dcd))"
  proof (intro allI impI)
    fix resp assume a: "aws en (trace w) ?c = Inr resp"
    with ans have r: "r = check_response resp"
      and d: "ddb w' = (ddb w)(tn := AList.update k (assign ?sets it) (ddb w tn))"
      by (simp_all split: sum.splits)
    from d have "map_of (ddb w' tn) k = Some (assign ?sets it)" by (simp add: update_conv')
    with r show "r = check_response resp \<and>
         (\<exists>it'. map_of (ddb w' tn) k = Some it' \<and>
            map_of it' = (map_of it)(''data_catalog_entry'' \<mapsto> JBool True,
                                     ''data_catalog_table_name'' \<mapsto> JStr dct,
                                     ''data_catalog_db_name'' \<mapsto> JStr dcd))"
      by (simp add: map_of_assign3)
  qed
  from ans show "\<forall>md rest. aws en (trace w) ?c =
           Inr (JObj ((''ResponseMetadata'', JObj ((''HTTPStatusCode'', JNum 200) # md)) # rest))
         \<longrightarrow> r = Inr ()"
    by (auto simp: check_response_200 split: sum.splits)
next
  let ?sets = "[(''glue_job_created'', JBool True)]"
  let ?c = "update_call_s3_glue_job_creator tn2 k2"
  assume h: "update_ddb_s3_glue_job_creator en2 tn2 obj2 w2 = (r2, w2') \<and>
    py_subscript obj2 ''id'' = Inr (JStr k2) \<and> map_of (ddb w2 tn2) k2 = Some it2"
  then obtain kwargs r0 where u: "update_item en2 tn2 k2 kwargs ?sets w2 = (r0, w2')"
    and ok: "r2 = Inr () \<longrightarrow> (\<exists>resp. r0 = Inr resp)"
    by (auto simp: update_ddb_s3_glue_job_creator_def dest!: update_then_check)
  from h have it: "map_of (ddb w2 tn2) k2 = Some it2" by simp
  from h have ans: "(case aws en2 (trace w2) ?c of
            Inl e \<Rightarrow> r2 = Inl e \<and> ddb w2' = ddb w2
          | Inr resp \<Rightarrow> r2 = check_response resp \<and>
              ddb w2' = (ddb w2)(tn2 := AList.update k2 (assign ?sets it2) (ddb w2 tn2)))"
    using update_ddb_s3_glue_job_creator_answer [of obj2 k2 en2 tn2 w2 r2 w2'] it
    by (simp split: sum.splits)
  note eff = update_item_effect [OF u it]
  from eff show "\<forall>t. t \<noteq> tn2 \<longrightarrow> ddb w2' t = ddb w2 t" by blast
  from eff show "\<forall>k'. k' \<noteq> k2 \<longrightarrow> map_of (ddb w2' tn2) k' = map_of (ddb w2 tn2) k'" by blast
  show "\<exists>it'. map_of (ddb w2' tn2) k2 = Some it' \<and>
         (map_of it' = map_of it2 \<or>
          map_of it' = (map_of it2)(''glue_job_created'' \<mapsto> JBool True)) \<and>
         (r2 = Inr () \<longrightarrow> map_of it' = (map_of it2)(''glue_job_created'' \<mapsto> JBool True)) \<and>
         (\<forall>a. a \<noteq> ''glue_job_created'' \<longrightarrow> map_of it' a = map_of it2 a)"
  proof (cases r0)
    case (Inl e)
    with eff ok show ?thesis by auto
  next
    case (Inr resp)
    with eff have "map_of (ddb w2' tn2) k2 = Some (assign ?sets it2)" by simp
    then show ?thesis by (auto simp: map_of_assign1)
  qed
  from ans show "\<forall>e. aws en2 (trace w2) ?c = Inl e \<longrightarrow> r2 = Inl e \<and> ddb w2' = ddb w2"
    by (auto split: sum.splits)
  show "\<forall>resp. aws en2 (trace w2) ?c = Inr resp \<longrightarrow>
         r2 = check_response resp \<and>
         (\<exists>it'. map_of (ddb w2' tn2) k2 = Some it' \<and>
            map_of it' = (map_of it2)(''glue_job_created'' \<mapsto> JBool True))"
  proof (intro allI impI)
    fix resp assume a: "aws en2 (trace w2) ?c = Inr resp"
    with ans have r: "r2 = check_response resp"
      and d: "ddb w2' = (ddb w2)(tn2 := AList.update k2 (assign ?sets it2) (ddb w2 tn2))"
      by (simp_all split: sum.splits)
    from d have "map_of (ddb w2' tn2) k2 = Some (assign ?sets it2)" by (simp add: update_conv')
    with r show "r2 = check_response resp \<and>
         (\<exists>it'. map_of (ddb w2' tn2) k2 = Some it' \<and>
            map_of it' = (map_of it2)(''glue_job_created'' \<mapsto> JBool True))"
      by (simp add: map_of_assign1)
  qed
  from ans show "\<forall>md rest. aws en2 (trace w2) ?c =
           Inr (JObj ((''ResponseMetadata'', JObj ((''HTTPStatusCode'', JNum 200) # md)) # rest))
         \<longrightarrow> r2 = Inr ()"
    by (auto simp: check_response_200 split: sum.splits)
qed


theorem stage_update_frame_witness:
  "fst (update_ddb_catalog_creator_s3 example_env ''tracker''
          (JObj (bucket_record ''r1'' ''b1'')) ''db_b1'' ''db'' discovered_world) = Inr () \<and>
   (\<exists>it'. map_of (ddb (snd (update_ddb_catalog_creator_s3 example_env ''tracker''
                              (JObj (bucket_record ''r1'' ''b1'')) ''db_b1'' ''db''
                              discovered_world)) ''tracker'') ''r1'' = Some it' \<and>
      map_of it' = (map_of (bucket_record ''r1'' ''b1''))
                     (''data_catalog_entry'' \<mapsto> JBool True,
                      ''data_catalog_table_name'' \<mapsto> JStr ''db_b1'',
                      ''data_catalog_db_name'' \<mapsto> JStr ''db'')) \<and>
   map_of (ddb (snd (update_ddb_catalog_creator_s3 example_env ''tracker''
                       (JObj (bucket_record ''r1'' ''b1'')) ''db_b1'' ''db'' discovered_world))
             ''tracker'') ''r2'' = Some (bucket_record ''r2'' ''b2'') \<and>
   fst (update_ddb_s3_glue_job_creator example_env ''tracker''
          (JObj (catalogued_record ''r1'' ''b1'')) catalogued_world) = Inr () \<and>
   (\<exists>it'. map_of (ddb (snd (update_ddb_s3_glue_job_creator example_env ''tracker''
                              (JObj (catalogued_record ''r1'' ''b1'')) catalogued_world))
                    ''tracker'') ''r1'' = Some it' \<and>
      map_of it' = (map_of (catalogued_record ''r1'' ''b1''))
                     (''glue_job_created'' \<mapsto> JBool True)) \<and>
   map_of (ddb (snd (update_ddb_s3_glue_job_creator example_env ''tracker''
                       (JObj (catalogued_record ''r1'' ''b1'')) catalogued_world))
             ''tracker'') ''r2'' = Some (catalogued_record ''r2'' ''b2'')"
proof -
  let ?u = "update_ddb_catalog_creator_s3 example_env ''tracker''
              (JObj (bucket_record ''r1'' ''b1'')) ''db_b1'' ''db'' discovered_world"
  let ?v = "update_ddb_s3_glue_job_creator example_env ''tracker''
              (JObj (catalogued_record ''r1'' ''b1'')) catalogued_world"
  let ?resp = "JObj ((''ResponseMetadata'', JObj ((''HTTPStatusCode'', JNum 200) # [])) #
                     [(''Account'', JStr ''111122223333'')])"
  have a1: "?u = (fst ?u, snd ?u)" by simp
  have a2: "py_subscript (JObj (bucket_record ''r1'' ''b1'')) ''id'' = Inr (JStr ''r1'')"
    by (simp add: example_defs)
  have a3: "map_of (ddb discovered_world ''tracker'') ''r1'' = Some (bucket_record ''r1'' ''b1'')"
    by (simp add: discovered_world_def store_of_def)
  have a4: "map_of (ddb discovered_world ''tracker'') ''r2'' = Some (bucket_record ''r2'' ''b2'')"
    by (simp add: discovered_world_def store_of_def)
  have a5: "aws example_env (trace discovered_world)
              (update_call_catalog_creator_s3 ''tracker'' ''r1'' ''db_b1'' ''db'') = Inr ?resp"
    by (simp add: example_env_def ok_response_def)
  have b1: "?v = (fst ?v, snd ?v)" by simp
  have b2: "py_subscript (JObj (catalogued_record ''r1'' ''b1'')) ''id'' = Inr (JStr ''r1'')"
    by (simp add: example_defs)
  have b3: "map_of (ddb catalogued_world ''tracker'') ''r1'' =
              Some (catalogued_record ''r1'' ''b1'')"
    by (simp add: catalogued_world_def store_of_def)
  have b4: "map_of (ddb catalogued_world ''tracker'') ''r2'' =
              Some (catalogued_record ''r2'' ''b2'')"
    by (simp add: catalogued_world_def store_of_def)
  have b5: "aws example_env (trace catalogued_world)
              (update_call_s3_glue_job_creator ''tracker'' ''r1'') = Inr ?resp"
    by (simp add: example_env_def ok_response_def)
  have ne: "''r2'' \<noteq> ''r1''" by simp
  note inst = stage_update_frame
    [of example_env "''tracker''" "JObj (bucket_record ''r1'' ''b1'')" "''db_b1''" "''db''"
        discovered_world "fst ?u" "snd ?u" "''r1''" "bucket_record ''r1'' ''b1''"
        example_env "''tracker''" "JObj (catalogued_record ''r1'' ''b1'')"
        catalogued_world "fst ?v" "snd ?v" "''r1''" "catalogued_record ''r1'' ''b1''"]
  have pa: "?u = (fst ?u, snd ?u) \<and>
            py_subscript (JObj (bucket_record ''r1'' ''b1'')) ''id'' = Inr (JStr ''r1'') \<and>
            map_of (ddb discovered_world ''tracker'') ''r1'' = Some (bucket_record ''r1'' ''b1'')"
    by (intro conjI) (rule a1 a2 a3)+
  have pb: "?v = (fst ?v, snd ?v) \<and>
            py_subscript (JObj (catalogued_record ''r1'' ''b1'')) ''id'' = Inr (JStr ''r1'') \<and>
            map_of (ddb catalogued_world ''tracker'') ''r1'' =
              Some (catalogued_record ''r1'' ''b1'')"
    by (intro conjI) (rule b1 b2 b3)+
  note A = inst [THEN conjunct1, THEN mp, OF pa]
  note B = inst [THEN conjunct2, THEN mp, OF pb]
  note A2 = A [THEN conjunct2, THEN conjunct1]
  note A5 = A [THEN conjunct2, THEN conjunct2, THEN conjunct2, THEN conjunct2, THEN conjunct1]
  note A6 = A [THEN conjunct2, THEN conjunct2, THEN conjunct2, THEN conjunct2, THEN conjunct2]
  note B2 = B [THEN conjunct2, THEN conjunct1]
  note B5 = B [THEN conjunct2, THEN conjunct2, THEN conjunct2, THEN conjunct2, THEN conjunct1]
  note B6 = B [THEN conjunct2, THEN conjunct2, THEN conjunct2, THEN conjunct2, THEN conjunct2]
  have u1: "fst ?u = Inr ()"
    by (rule A6 [THEN spec, THEN spec, THEN mp, OF a5])
  have u2: "\<exists>it'. map_of (ddb (snd ?u) ''tracker'') ''r1'' = Some it' \<and>
      map_of it' = (map_of (bucket_record ''r1'' ''b1''))
                     (''data_catalog_entry'' \<mapsto> JBool True,
                      ''data_catalog_table_name'' \<mapsto> JStr ''db_b1'',
                      ''data_catalog_db_name'' \<mapsto> JStr ''db'')"
    by (rule A5 [THEN spec, THEN mp, OF a5, THEN conjunct2])
  have "map_of (ddb (snd ?u) ''tracker'') ''r2'' = map_of (ddb discovered_world ''tracker'') ''r2''"
    by (rule A2 [THEN spec, THEN mp, OF ne])
  with a4 have u3: "map_of (ddb (snd ?u) ''tracker'') ''r2'' = Some (bucket_record ''r2'' ''b2'')"
    by (rule trans [rotated])
  have v1: "fst ?v = Inr ()"
    by (rule B6 [THEN spec, THEN spec, THEN mp, OF b5])
  have v2: "\<exists>it'. map_of (ddb (snd ?v) ''tracker'') ''r1'' = Some it' \<and>
      map_of it' = (map_of (catalogued_record ''r1'' ''b1''))
                     (''glue_job_created'' \<mapsto> JBool True)"
    by (rule B5 [THEN spec, THEN mp, OF b5, THEN conjunct2])
  have "map_of (ddb (snd ?v) ''tracker'') ''r2'' = map_of (ddb catalogued_world ''tracker'') ''r2''"
    by (rule B2 [THEN spec, THEN mp, OF ne])
  with b4 have v3: "map_of (ddb (snd ?v) ''tracker'') ''r2'' = Some (catalogued_record ''r2'' ''b2'')"
    by (rule trans [rotated])
  show ?thesis
    by (intro conjI) (rule u1 u2 u3 v1 v2 v3)+
qed

subsection \<open>What a scan returns\<close>

lemma py_get_with_items:
  "py_get (with_items resp its) ''Items'' = Inr v \<Longrightarrow> v = JArr (map JObj its)"
  by (cases resp) (simp_all add: with_items_def update_conv')

lemma fetch_ddb_results_items:
  assumes "fetch_ddb_results en q tn c w = (Inr resp, w1)"
  shows "resp = with_items resp (filter (holds c) (map snd (ddb w tn))) \<and> ddb w1 = ddb w \<and>
         drawn w1 = drawn w \<and>
         trace w1 = trace w @ [Call ''dynamodb'' ''execute_statement'' [(''Statement'', JStr q)]] \<and>
         (\<exists>resp0. resp = with_items resp0 (filter (holds c) (map snd (ddb w tn))))"
proof -
  from assms obtain resp0 where
    r0: "aws en (trace w) (Call ''dynamodb'' ''execute_statement'' [(''Statement'', JStr q)]) = Inr resp0"
    and resp: "resp = with_items resp0 (filter (holds c) (map snd (ddb w tn)))"
    and w1: "w1 = w\<lparr>trace := trace w @ [Call ''dynamodb'' ''execute_statement'' [(''Statement'', JStr q)]]\<rparr>"
    by (auto simp: fetch_ddb_results_def execute_statement_def Let_def pbind_def lift_def ok_def
             split: sum.splits prod.splits)
  have "with_items (with_items resp0 its) its = with_items resp0 its" for its
    by (cases resp0) (simp_all add: with_items_def)
  with resp w1 show ?thesis by auto
qed

lemma unmarshall_map_JObj: "unmarshall_ddb_items (JArr (map JObj its)) = Inr (map JObj its)"
  by (simp add: unmarshall_ddb_items_def list_all_iff)

lemma scan_s3_glue_job_creator_items:
  assumes "scan_s3_glue_job_creator en w = (Inr (Some (cfg, items)), w1)"
  shows "items = map JObj (filter (holds where_s3_glue_job_creator) (map snd (ddb w (fst cfg))))"
proof -
  from assms obtain tn resp wa v where
    f: "fetch_ddb_results en (DDB_PARTIQL_s3_glue_job_creator tn) tn where_s3_glue_job_creator w
          = (Inr resp, wa)"
    and v: "py_get resp ''Items'' = Inr v" and t: "truthy v"
    and u: "unmarshall_ddb_items v = Inr items" and tn: "fst cfg = tn"
    unfolding scan_s3_glue_job_creator_def
    by (auto simp: require_env_def raise_def ok_def lift_def Let_def
             dest!: pbind_result split: option.splits if_splits sum.splits)
  from fetch_ddb_results_items [OF f] v py_get_with_items
  have "v = JArr (map JObj (filter (holds where_s3_glue_job_creator) (map snd (ddb w tn))))"
    by metis
  with u tn show ?thesis by (simp add: unmarshall_map_JObj)
qed

text \<open>
  C4.  The WHERE clause of the job-stage scan holds of no item whose
  \<open>data_catalog_entry\<close> is anything but the boolean true; the records the job-stage handler
  loops over are items of the tracker table with \<open>data_catalog_entry\<close> true,
  \<open>glue_job_created\<close> false and type \<open>s3\<close>; and the handler gives each job it creates
  the catalog names of such a record, since the loop body is applied to these records only.
\<close>

theorem job_stage_scan_requires_catalog_entry:
  "(map_of it ''data_catalog_entry'' \<noteq> Some (JBool True) \<longrightarrow>
      \<not> holds where_s3_glue_job_creator it) \<and>
   (scan_s3_glue_job_creator en w = (Inr (Some (cfg, items)), w1) \<longrightarrow>
      (\<forall>obj \<in> set items. \<exists>k rec. (k, rec) \<in> set (ddb w (fst cfg)) \<and> obj = JObj rec \<and>
          map_of rec ''data_catalog_entry'' = Some (JBool True) \<and>
          map_of rec ''glue_job_created'' = Some (JBool False) \<and>
          map_of rec ''data_source_type'' = Some (JStr ''s3'')) \<and>
      lambda_handler_s3_glue_job_creator en event w =
        for_each (job_s3_obj en (fst cfg) (fst (snd cfg)) (fst (snd (snd cfg)))
                    (fst (snd (snd (snd cfg)))) (snd (snd (snd (snd cfg))))) items w1)"
proof (intro conjI impI)
  assume "map_of it ''data_catalog_entry'' \<noteq> Some (JBool True)"
  then show "\<not> holds where_s3_glue_job_creator it"
    by (simp add: where_s3_glue_job_creator_def)
next
  assume s: "scan_s3_glue_job_creator en w = (Inr (Some (cfg, items)), w1)"
  from scan_s3_glue_job_creator_items [OF s]
  show "\<forall>obj \<in> set items. \<exists>k rec. (k, rec) \<in> set (ddb w (fst cfg)) \<and> obj = JObj rec \<and>
          map_of rec ''data_catalog_entry'' = Some (JBool True) \<and>
          map_of rec ''glue_job_created'' = Some (JBool False) \<and>
          map_of rec ''data_source_type'' = Some (JStr ''s3'')"
    by (auto simp: where_s3_glue_job_creator_def)
  from s show "lambda_handler_s3_glue_job_creator en event w =
        for_each (job_s3_obj en (fst cfg) (fst (snd cfg)) (fst (snd (snd cfg)))
                    (fst (snd (snd (snd cfg)))) (snd (snd (snd (snd cfg))))) items w1"
    by (simp add: lambda_handler_s3_glue_job_creator_def pbind_def split: prod.splits)
qed

theorem job_stage_scan_requires_catalog_entry_witness:
  "\<not> holds where_s3_glue_job_creator (bucket_record ''r1'' ''b1'') \<and>
   lambda_handler_s3_glue_job_creator example_env (JObj []) catalogued_world =
     for_each (job_s3_obj example_env ''tracker'' ''pii'' ''assets'' (Some ''scripts'') ''role'')
       [JObj (catalogued_record ''r1'' ''b1''), JObj (catalogued_record ''r2'' ''b2'')]
       (snd (scan_s3_glue_job_creator example_env catalogued_world))"
proof -
  let ?cfg = "(''tracker'', ''pii'', ''assets'', Some ''scripts'', ''role'')"
  let ?items = "[JObj (catalogued_record ''r1'' ''b1''), JObj (catalogued_record ''r2'' ''b2'')]"
  have h1: "map_of (bucket_record ''r1'' ''b1'') ''data_catalog_entry'' \<noteq> Some (JBool True)"
    by (simp add: bucket_record_def)
  have h2: "scan_s3_glue_job_creator example_env catalogued_world =
              (Inr (Some (?cfg, ?items)), snd (scan_s3_glue_job_creator example_env catalogued_world))"
    by (simp add: scan_s3_glue_job_creator_def where_s3_glue_job_creator_def run_defs
          example_defs)
  from job_stage_scan_requires_catalog_entry
    [of "bucket_record ''r1'' ''b1''" example_env catalogued_world ?cfg ?items
        "snd (scan_s3_glue_job_creator example_env catalogued_world)" "JObj []"]
    h1 h2
  show ?thesis by simp
qed

subsection \<open>Configuration of the job stage\<close>

text \<open>
  C9.  With every setting present except \<open>GLUE_SCRIPT_BUCKET\<close> and two catalogued bucket
  records in the store, the job-stage handler returns normally: it creates both jobs with the
  script location \<open>s3://None/s3-source-script.py\<close> and marks both records.
\<close>

theorem missing_script_bucket_not_detected:
  "environ no_script_bucket_env ''GLUE_SCRIPT_BUCKET'' = None \<and>
   fst (lambda_handler_s3_glue_job_creator no_script_bucket_env (JObj []) catalogued_world)
     = Inr () \<and>
   List.map_filter script_location
     (trace (snd (lambda_handler_s3_glue_job_creator no_script_bucket_env (JObj [])
                    catalogued_world)))
     = [JStr ''s3://None/s3-source-script.py'', JStr ''s3://None/s3-source-script.py''] \<and>
   flag_set (ddb (snd (lambda_handler_s3_glue_job_creator no_script_bucket_env (JObj [])
                    catalogued_world)) ''tracker'') ''r1'' ''glue_job_created''"
proof -
  have "(\<lambda>p. (fst p, List.map_filter script_location (trace (snd p)),
              flag_set (ddb (snd p) ''tracker'') ''r1'' ''glue_job_created''))
          (lambda_handler_s3_glue_job_creator no_script_bucket_env (JObj []) catalogued_world)
        = (Inr (), [JStr ''s3://None/s3-source-script.py'',
                    JStr ''s3://None/s3-source-script.py''], True)"
    by code_simp
  moreover have "environ no_script_bucket_env ''GLUE_SCRIPT_BUCKET'' = None"
    by (simp add: no_script_bucket_env_def example_env_def)
  ultimately show ?thesis by simp
qed

subsection \<open>Acknowledgement before processing\<close>

lemma acknowledge_message_cases:
  "acknowledge_message en event w =
     (case get_sqs_message_attributes event of
        Inl e \<Rightarrow> (Inl e, w)
      | Inr None \<Rightarrow> (Inr (), w)
      | Inr (Some ma) \<Rightarrow> delete_sqs_message en ma w)"
  by (simp add: acknowledge_message_def ok_def split: sum.split option.split)

lemma delete_sqs_message_success:
  assumes "delete_sqs_message en ma w = (Inr (), w1)"
  shows "\<exists>url. environ en ''SQS_QUEUE_URL'' = Some url \<and> url \<noteq> [] \<and>
           w1 = w\<lparr>trace := trace w @ [Call ''sqs'' ''delete_message''
                     [(''QueueUrl'', JStr url), (''ReceiptHandle'', snd ma)]]\<rparr> \<and>
           (\<exists>resp md. aws en (trace w) (Call ''sqs'' ''delete_message''
                     [(''QueueUrl'', JStr url), (''ReceiptHandle'', snd ma)]) = Inr resp \<and>
                py_get resp ''ResponseMetadata'' = Inr md \<and>
                py_get md ''HTTPStatusCode'' = Inr (JNum 200))"
  using assms
  by (auto simp: delete_sqs_message_def require_env_def raise_def ok_def api_def lift_def
                 ebind_def
           dest!: pbind_result split: option.splits if_splits sum.splits)

text \<open>
  C10.  For an event from which \<open>_get_sqs_message_attributes\<close> extracts a message id and a
  receipt handle, both consumers (\<open>glue-tracking-initial\<close> and \<open>rds-glue-initial\<close>) start
  with the deletion: if it fails, the invocation ends with that failure in the state the
  deletion left, whatever the body is; if it succeeds, \<open>delete_message\<close> has been called
  with the receipt handle and answered with status 200, and reading the body, the insert and
  the provisioning all run in the state after the deletion, so that a body that cannot be
  read ends the invocation with the message already deleted.  For an event without
  \<open>Records\<close>, or one whose first record lacks one of the two attributes, no call is made
  before the body is read.
\<close>

theorem delete_before_processing:
  "(get_sqs_message_attributes event = Inr (Some ma) \<longrightarrow>
      (\<forall>e w1. delete_sqs_message en ma w = (Inl e, w1) \<longrightarrow>
         lambda_handler_glue_tracking_initial en event w = (Inl e, w1) \<and>
         lambda_handler_rds_glue_initial en provision event w = (Inl e, w1)) \<and>
      (\<forall>w1. delete_sqs_message en ma w = (Inr (), w1) \<longrightarrow>
         (\<exists>url. environ en ''SQS_QUEUE_URL'' = Some url \<and>
            w1 = w\<lparr>trace := trace w @ [Call ''sqs'' ''delete_message''
                      [(''QueueUrl'', JStr url), (''ReceiptHandle'', snd ma)]]\<rparr> \<and>
            (\<exists>resp md. aws en (trace w) (Call ''sqs'' ''delete_message''
                      [(''QueueUrl'', JStr url), (''ReceiptHandle'', snd ma)]) = Inr resp \<and>
                 py_get resp ''ResponseMetadata'' = Inr md \<and>
                 py_get md ''HTTPStatusCode'' = Inr (JNum 200))) \<and>
         lambda_handler_glue_tracking_initial en event w =
           pbind (body_to_python_obj en event) (try_put_item en) w1 \<and>
         lambda_handler_rds_glue_initial en provision event w =
           pbind (lift (get_message_body en event)) provision w1 \<and>
         (\<forall>e. get_message_body en event = Inl e \<longrightarrow>
            lambda_handler_glue_tracking_initial en event w = (Inl e, w1) \<and>
            lambda_handler_rds_glue_initial en provision event w = (Inl e, w1)))) \<and>
   (get_sqs_message_attributes event = Inr None \<longrightarrow>
      lambda_handler_glue_tracking_initial en event w =
        pbind (body_to_python_obj en event) (try_put_item en) w \<and>
      lambda_handler_rds_glue_initial en provision event w =
        pbind (lift (get_message_body en event)) provision w) \<and>
   (\<forall>e. get_sqs_message_attributes event = Inl e \<longrightarrow>
      lambda_handler_glue_tracking_initial en event w = (Inl e, w) \<and>
      lambda_handler_rds_glue_initial en provision event w = (Inl e, w))"
proof (intro conjI impI allI)
  fix e w1
  assume q: "get_sqs_message_attributes event = Inr (Some ma)"
    and d: "delete_sqs_message en ma w = (Inl e, w1)"
  then have a: "acknowledge_message en event w = (Inl e, w1)"
    by (simp add: acknowledge_message_cases)
  then show "lambda_handler_glue_tracking_initial en event w = (Inl e, w1)"
    by (simp add: lambda_handler_glue_tracking_initial_def python_obj_glue_tracking_initial_def
          pbind_def)
  from a show "lambda_handler_rds_glue_initial en provision event w = (Inl e, w1)"
    by (simp add: lambda_handler_rds_glue_initial_def pbind_def)
next
  fix w1
  assume q: "get_sqs_message_attributes event = Inr (Some ma)"
    and d: "delete_sqs_message en ma w = (Inr (), w1)"
  from delete_sqs_message_success [OF d]
  show "\<exists>url. environ en ''SQS_QUEUE_URL'' = Some url \<and>
            w1 = w\<lparr>trace := trace w @ [Call ''sqs'' ''delete_message''
                      [(''QueueUrl'', JStr url), (''ReceiptHandle'', snd ma)]]\<rparr> \<and>
            (\<exists>resp md. aws en (trace w) (Call ''sqs'' ''delete_message''
                      [(''QueueUrl'', JStr url), (''ReceiptHandle'', snd ma)]) = Inr resp \<and>
                 py_get resp ''ResponseMetadata'' = Inr md \<and>
                 py_get md ''HTTPStatusCode'' = Inr (JNum 200))"
    by blast
  from q d have a: "acknowledge_message en event w = (Inr (), w1)"
    by (simp add: acknowledge_message_cases)
  then show g: "lambda_handler_glue_tracking_initial en event w =
           pbind (body_to_python_obj en event) (try_put_item en) w1"
    by (simp add: lambda_handler_glue_tracking_initial_def python_obj_glue_tracking_initial_def
          pbind_def)
  from a show r: "lambda_handler_rds_glue_initial en provision event w =
           pbind (lift (get_message_body en event)) provision w1"
    by (simp add: lambda_handler_rds_glue_initial_def pbind_def)
  fix e
  assume b: "get_message_body en event = Inl e"
  with g show "lambda_handler_glue_tracking_initial en event w = (Inl e, w1)"
    by (simp add: body_to_python_obj_def pbind_def lift_def)
  from b r show "lambda_handler_rds_glue_initial en provision event w = (Inl e, w1)"
    by simp
next
  assume q: "get_sqs_message_attributes event = Inr None"
  then have a: "acknowledge_message en event w = (Inr (), w)"
    by (simp add: acknowledge_message_cases)
  then show "lambda_handler_glue_tracking_initial en event w =
        pbind (body_to_python_obj en event) (try_put_item en) w"
    by (simp add: lambda_handler_glue_tracking_initial_def python_obj_glue_tracking_initial_def
          pbind_def)
  from a show "lambda_handler_rds_glue_initial en provision event w =
        pbind (lift (get_message_body en event)) provision w"
    by (simp add: lambda_handler_rds_glue_initial_def pbind_def)
next
  fix e
  assume q: "get_sqs_message_attributes event = Inl e"
  then have a: "acknowledge_message en event w = (Inl e, w)"
    by (simp add: acknowledge_message_cases)
  then show "lambda_handler_glue_tracking_initial en event w = (Inl e, w)"
    by (simp add: lambda_handler_glue_tracking_initial_def python_obj_glue_tracking_initial_def
          pbind_def)
  from a show "lambda_handler_rds_glue_initial en provision event w = (Inl e, w)"
    by (simp add: lambda_handler_rds_glue_initial_def pbind_def)
qed

theorem delete_before_processing_witness:
  "lambda_handler_glue_tracking_initial example_env (queue_event ''not json'') (store_of []) =
     (Inl (MalformedEvent ''body is not valid JSON''),
      (store_of [])\<lparr>trace := [Call ''sqs'' ''delete_message''
                       [(''QueueUrl'', JStr ''q-tracking''), (''ReceiptHandle'', JStr ''rh1'')]]\<rparr>) \<and>
   lambda_handler_rds_glue_initial example_env (\<lambda>body. ok ()) direct_event (store_of []) =
     pbind (lift (get_message_body example_env direct_event)) (\<lambda>body. ok ()) (store_of [])"
proof -
  let ?ev = "queue_event ''not json''"
  let ?ma = "(JStr ''m1'', JStr ''rh1'')"
  let ?w1 = "(store_of [])\<lparr>trace := [Call ''sqs'' ''delete_message''
                       [(''QueueUrl'', JStr ''q-tracking''), (''ReceiptHandle'', JStr ''rh1'')]]\<rparr>"
  have q: "get_sqs_message_attributes ?ev = Inr (Some ?ma)"
    by (simp add: get_sqs_message_attributes_def queue_event_def)
  have d: "delete_sqs_message example_env ?ma (store_of []) = (Inr (), ?w1)"
    by (simp add: run_defs example_defs)
  have b: "get_message_body example_env ?ev = Inl (MalformedEvent ''body is not valid JSON'')"
    by (simp add: run_defs example_defs)
  have n: "get_sqs_message_attributes direct_event = Inr None"
    by (simp add: get_sqs_message_attributes_def direct_event_def)
  from delete_before_processing [of ?ev ?ma example_env "store_of []" "\<lambda>body. ok ()"] q d b
  have 1: "lambda_handler_glue_tracking_initial example_env ?ev (store_of []) =
             (Inl (MalformedEvent ''body is not valid JSON''), ?w1)"
    by blast
  from delete_before_processing [of direct_event ?ma example_env "store_of []" "\<lambda>body. ok ()"] n
  have 2: "lambda_handler_rds_glue_initial example_env (\<lambda>body. ok ()) direct_event (store_of []) =
             pbind (lift (get_message_body example_env direct_event)) (\<lambda>body. ok ()) (store_of [])"
    by blast
  from 1 2 show ?thesis by simp
qed

subsection \<open>What the inserting handlers build and store\<close>

lemma update_absent: "map_of al k = None \<Longrightarrow> AList.update k v al = al @ [(k, v)]"
  by (induction al) (auto split: if_splits)

lemma acknowledge_message_state:
  "acknowledge_message en event w = (r, w0) \<Longrightarrow> ddb w0 = ddb w \<and> drawn w0 = drawn w"
  by (auto simp: acknowledge_message_cases delete_sqs_message_def require_env_def raise_def
                 ok_def api_def lift_def pbind_def
           split: sum.splits option.splits if_splits prod.splits)

lemma body_to_python_obj_result:
  assumes "body_to_python_obj en event w = (Inr (tn, it), w1)"
  shows "environ en ''GLUE_TRACKER_TABLE_NAME'' = Some tn \<and> w1 = w\<lparr>drawn := Suc (drawn w)\<rparr> \<and>
         (\<exists>body t a. get_message_body en event = Inr body \<and>
            py_subscript body ''data_source_type'' = Inr t \<and>
            py_subscript body ''data_source_attrs'' = Inr a \<and>
            it = [(''id'', JStr (uuid4 en (drawn w))), (''data_source_type'', t),
                  (''glue_job_created'', JBool False), (''data_catalog_entry'', JBool False),
                  (''data_source_attrs'', a)])"
  using assms
  by (auto simp: body_to_python_obj_def require_env_def raise_def ok_def lift_def draw_uuid_def
                 ebind_def
           dest!: pbind_result split: option.splits if_splits sum.splits)

lemma body_to_python_obj_again:
  assumes "body_to_python_obj en event w = (Inr (tn, it), w1)"
  shows "body_to_python_obj en event v =
           (Inr (tn, (''id'', JStr (uuid4 en (drawn v))) # tl it), v\<lparr>drawn := Suc (drawn v)\<rparr>)"
proof -
  from body_to_python_obj_result [OF assms] obtain body t a where
    "environ en ''GLUE_TRACKER_TABLE_NAME'' = Some tn" "tn \<noteq> []"
    "get_message_body en event = Inr body"
    "py_subscript body ''data_source_type'' = Inr t"
    "py_subscript body ''data_source_attrs'' = Inr a"
    "tl it = [(''data_source_type'', t), (''glue_job_created'', JBool False),
              (''data_catalog_entry'', JBool False), (''data_source_attrs'', a)]"
    using assms
    by (auto simp: body_to_python_obj_def require_env_def raise_def lift_def
             dest!: pbind_result split: option.splits if_splits)
  then show ?thesis
    by (simp add: body_to_python_obj_def require_env_def ok_def draw_uuid_def pbind_def lift_def)
qed

lemma python_obj_rds_result:
  assumes "python_obj_rds_glue_tracking_initial en event w = (Inr (Some (tn, it)), w1)"
  shows "environ en ''DDB_TABLE_NAME'' = Some tn \<and> w1 = w\<lparr>drawn := Suc (drawn w)\<rparr> \<and>
         (\<exists>name db a.
            it = [(''id'', JStr (uuid4 en (drawn w))), (''data_source_type'', JStr ''rds''),
                  (''data_catalog_table_name'', name), (''data_catalog_db_name'', db),
                  (''glue_job_created'', JBool False), (''data_catalog_entry'', JBool True),
                  (''data_source_attrs'', a)])"
  using assms
  by (auto simp: python_obj_rds_glue_tracking_initial_def require_env_def raise_def ok_def
                 lift_def draw_uuid_def ebind_def
           dest!: pbind_result split: option.splits if_splits sum.splits)

lemma python_obj_rds_again:
  assumes "python_obj_rds_glue_tracking_initial en event w = (Inr (Some (tn, it)), w1)"
  shows "python_obj_rds_glue_tracking_initial en event v =
           (Inr (Some (tn, (''id'', JStr (uuid4 en (drawn v))) # tl it)),
            v\<lparr>drawn := Suc (drawn v)\<rparr>)"
proof -
  from assms obtain c ve db ti p a name where
    "environ en ''CATALOG_DB_NAME'' = Some c" "c \<noteq> []"
    "extract_valid_event_rds_glue_tracking_initial event = Inr ve"
    "check_missing_field ve ''databaseName'' = Inr ()"
    "py_subscript ve ''databaseName'' = Inr db" "JStr c = db"
    "environ en ''DDB_TABLE_NAME'' = Some tn" "tn \<noteq> []"
    "check_missing_field ve ''tableInput'' = Inr ()"
    "py_subscript ve ''tableInput'' = Inr ti"
    "py_get ti ''parameters'' = Inr p"
    "(if truthy p then py_subscript ti ''parameters'' else Inr (JObj [])) = Inr a"
    "py_subscript ti ''name'' = Inr name"
    "tl it = [(''data_source_type'', JStr ''rds''), (''data_catalog_table_name'', name),
              (''data_catalog_db_name'', db), (''glue_job_created'', JBool False),
              (''data_catalog_entry'', JBool True), (''data_source_attrs'', a)]"
    by (auto simp: python_obj_rds_glue_tracking_initial_def require_env_def raise_def ok_def
                   lift_def draw_uuid_def ebind_def
             dest!: pbind_result split: option.splits if_splits sum.splits)
  then show ?thesis
    by (simp add: python_obj_rds_glue_tracking_initial_def require_env_def ok_def draw_uuid_def
          pbind_def lift_def)
qed

lemma put_item_existing:
  assumes "map_of it ''id'' = Some (JStr k)" and "map_of (ddb w tn) k \<noteq> None"
  shows "put_item en tn it True w =
           (case aws en (trace w) (put_item_call tn it True) of
              Inl e \<Rightarrow> (Inl e, w\<lparr>trace := trace w @ [put_item_call tn it True]\<rparr>)
            | Inr resp \<Rightarrow> (Inl (ClientError ''ConditionalCheckFailedException''),
                          w\<lparr>trace := trace w @ [put_item_call tn it True]\<rparr>))"
  using assms by (auto simp: put_item_def Let_def split: sum.split)

lemma put_item_absent:
  assumes "map_of it ''id'' = Some (JStr k)" and "map_of (ddb w tn) k = None"
  shows "put_item en tn it True w =
           (case aws en (trace w) (put_item_call tn it True) of
              Inl e \<Rightarrow> (Inl e, w\<lparr>trace := trace w @ [put_item_call tn it True]\<rparr>)
            | Inr resp \<Rightarrow> (Inr resp,
                          w\<lparr>trace := trace w @ [put_item_call tn it True],
                            ddb := (ddb w)(tn := ddb w tn @ [(k, it)])\<rparr>))"
  using assms by (simp add: put_item_def Let_def update_absent split: sum.split)

lemma try_put_item_stored:
  assumes "map_of it ''id'' = Some (JStr k)" and "map_of (ddb w1 tn) k \<noteq> None"
  shows "ddb (snd (try_put_item en (tn, it) w1)) = ddb w1 \<and>
         (\<forall>resp. aws en (trace w1) (put_item_call tn it True) = Inr resp \<longrightarrow>
            fst (try_put_item en (tn, it) w1) = Inr ())"
proof (cases "aws en (trace w1) (put_item_call tn it True)")
  case (Inl e)
  with put_item_existing [OF assms, of en] show ?thesis
    by (cases e) (simp_all add: try_put_item_def)
next
  case (Inr resp)
  with put_item_existing [OF assms, of en] show ?thesis
    by (simp add: try_put_item_def)
qed

lemma try_put_item_fresh:
  assumes run: "try_put_item en (tn, it) w1 = (Inr (), w2)"
    and id: "map_of it ''id'' = Some (JStr k)" and absent: "map_of (ddb w1 tn) k = None"
    and honest: "\<forall>tr c. aws en tr c \<noteq> Inl (ClientError ''ConditionalCheckFailedException'')"
  shows "ddb w2 tn = ddb w1 tn @ [(k, it)] \<and> drawn w2 = drawn w1"
proof (cases "aws en (trace w1) (put_item_call tn it True)")
  case (Inl e)
  from honest Inl have "e \<noteq> ClientError ''ConditionalCheckFailedException''" by metis
  with Inl put_item_absent [OF id absent, of en] run show ?thesis
    by (cases e) (simp_all add: try_put_item_def)
next
  case (Inr resp)
  with put_item_absent [OF id absent, of en] run show ?thesis
    by (auto simp: try_put_item_def)
qed

lemma two_inserts:
  assumes first: "try_put_item en (tn, (''id'', JStr k1) # rest) wb = (Inr (), w')"
    and wb: "ddb wb = ddb w"
    and second: "try_put_item en (tn, (''id'', JStr k2) # rest) wc = (Inr (), w'')"
    and wc: "ddb wc = ddb w'"
    and ne: "k1 \<noteq> k2"
    and a1: "map_of (ddb w tn) k1 = None" and a2: "map_of (ddb w tn) k2 = None"
    and honest: "\<forall>tr c. aws en tr c \<noteq> Inl (ClientError ''ConditionalCheckFailedException'')"
  shows "ddb w'' tn =
           ddb w tn @ [(k1, (''id'', JStr k1) # rest), (k2, (''id'', JStr k2) # rest)]"
proof -
  from try_put_item_fresh [OF first _ _ honest, of k1] wb a1
  have 1: "ddb w' tn = ddb w tn @ [(k1, (''id'', JStr k1) # rest)]" by simp
  with a2 ne wc have "map_of (ddb wc tn) k2 = None" by (simp add: map_add_def)
  from try_put_item_fresh [OF second _ this honest] wc 1
  show ?thesis by simp
qed

text \<open>
  C1, as the code has it.  Each delivery draws a new identifier.  When the identifier drawn is
  already stored in the tracker table, the insert leaves every table as it was and, if the
  service answers the call, the handler returns normally.  When the same event is delivered
  twice, both invocations return normally, the two identifiers drawn differ and neither is
  stored beforehand (and the service does not itself report a failed condition), the tracker
  table ends with two more records, equal in every attribute but \<open>id\<close>.  This holds of
  \<open>glue-tracking-initial\<close> and of \<open>rds-glue-tracking-initial\<close>.
\<close>

theorem insert_keyed_by_fresh_id:
  "(python_obj_glue_tracking_initial en event w = (Inr (tn, it), w1) \<and>
    map_of (ddb w tn) (uuid4 en (drawn w)) \<noteq> None \<longrightarrow>
      ddb (snd (lambda_handler_glue_tracking_initial en event w)) = ddb w \<and>
      (\<forall>resp. aws en (trace w1) (put_item_call tn it True) = Inr resp \<longrightarrow>
         fst (lambda_handler_glue_tracking_initial en event w) = Inr ())) \<and>
   (lambda_handler_glue_tracking_initial en event w = (Inr (), w') \<and>
    lambda_handler_glue_tracking_initial en event w' = (Inr (), w'') \<and>
    environ en ''GLUE_TRACKER_TABLE_NAME'' = Some tn \<and>
    uuid4 en (drawn w) \<noteq> uuid4 en (Suc (drawn w)) \<and>
    map_of (ddb w tn) (uuid4 en (drawn w)) = None \<and>
    map_of (ddb w tn) (uuid4 en (Suc (drawn w))) = None \<and>
    (\<forall>tr c. aws en tr c \<noteq> Inl (ClientError ''ConditionalCheckFailedException'')) \<longrightarrow>
      (\<exists>rest. ddb w'' tn =
         ddb w tn @ [(uuid4 en (drawn w), (''id'', JStr (uuid4 en (drawn w))) # rest),
                     (uuid4 en (Suc (drawn w)),
                      (''id'', JStr (uuid4 en (Suc (drawn w)))) # rest)])) \<and>
   (python_obj_rds_glue_tracking_initial en2 event2 v = (Inr (Some (tn2, it2)), v1) \<and>
    map_of (ddb v tn2) (uuid4 en2 (drawn v)) \<noteq> None \<longrightarrow>
      ddb (snd (lambda_handler_rds_glue_tracking_initial en2 event2 v)) = ddb v \<and>
      (\<forall>resp. aws en2 (trace v1) (put_item_call tn2 it2 True) = Inr resp \<longrightarrow>
         fst (lambda_handler_rds_glue_tracking_initial en2 event2 v) = Inr ())) \<and>
   (python_obj_rds_glue_tracking_initial en2 event2 v = (Inr (Some (tn2, it2)), v1) \<and>
    lambda_handler_rds_glue_tracking_initial en2 event2 v = (Inr (), v') \<and>
    lambda_handler_rds_glue_tracking_initial en2 event2 v' = (Inr (), v'') \<and>
    uuid4 en2 (drawn v) \<noteq> uuid4 en2 (Suc (drawn v)) \<and>
    map_of (ddb v tn2) (uuid4 en2 (drawn v)) = None \<and>
    map_of (ddb v tn2) (uuid4 en2 (Suc (drawn v))) = None \<and>
    (\<forall>tr c. aws en2 tr c \<noteq> Inl (ClientError ''ConditionalCheckFailedException'')) \<longrightarrow>
      (\<exists>rest. ddb v'' tn2 =
         ddb v tn2 @ [(uuid4 en2 (drawn v), (''id'', JStr (uuid4 en2 (drawn v))) # rest),
                      (uuid4 en2 (Suc (drawn v)),
                       (''id'', JStr (uuid4 en2 (Suc (drawn v)))) # rest)]))"
proof (intro conjI impI)
  assume h: "python_obj_glue_tracking_initial en event w = (Inr (tn, it), w1) \<and>
    map_of (ddb w tn) (uuid4 en (drawn w)) \<noteq> None"
  then obtain wa where ack: "acknowledge_message en event w = (Inr (), wa)"
    and body: "body_to_python_obj en event wa = (Inr (tn, it), w1)"
    by (auto simp: python_obj_glue_tracking_initial_def dest!: pbind_result)
  from acknowledge_message_state [OF ack] body_to_python_obj_result [OF body]
  have st: "ddb w1 = ddb w" and id: "map_of it ''id'' = Some (JStr (uuid4 en (drawn w)))"
    by auto
  from h st have stored: "map_of (ddb w1 tn) (uuid4 en (drawn w)) \<noteq> None" by simp
  from h have run: "lambda_handler_glue_tracking_initial en event w = try_put_item en (tn, it) w1"
    by (simp add: lambda_handler_glue_tracking_initial_def pbind_def)
  from try_put_item_stored [OF id stored, of en] run st
  have both: "ddb (snd (lambda_handler_glue_tracking_initial en event w)) = ddb w \<and>
      (\<forall>resp. aws en (trace w1) (put_item_call tn it True) = Inr resp \<longrightarrow>
         fst (lambda_handler_glue_tracking_initial en event w) = Inr ())"
    by simp
  from both show "ddb (snd (lambda_handler_glue_tracking_initial en event w)) = ddb w" by simp
  from both show "\<forall>resp. aws en (trace w1) (put_item_call tn it True) = Inr resp \<longrightarrow>
         fst (lambda_handler_glue_tracking_initial en event w) = Inr ()" by simp
next
  assume h: "lambda_handler_glue_tracking_initial en event w = (Inr (), w') \<and>
    lambda_handler_glue_tracking_initial en event w' = (Inr (), w'') \<and>
    environ en ''GLUE_TRACKER_TABLE_NAME'' = Some tn \<and>
    uuid4 en (drawn w) \<noteq> uuid4 en (Suc (drawn w)) \<and>
    map_of (ddb w tn) (uuid4 en (drawn w)) = None \<and>
    map_of (ddb w tn) (uuid4 en (Suc (drawn w))) = None \<and>
    (\<forall>tr c. aws en tr c \<noteq> Inl (ClientError ''ConditionalCheckFailedException''))"
  then obtain wa t1 wb where ack: "acknowledge_message en event w = (Inr (), wa)"
    and body: "body_to_python_obj en event wa = (Inr t1, wb)"
    and put: "try_put_item en t1 wb = (Inr (), w')"
    by (auto simp: lambda_handler_glue_tracking_initial_def python_obj_glue_tracking_initial_def
             dest!: pbind_result)
  obtain tn1 it1 where t1: "t1 = (tn1, it1)" by (cases t1)
  from body_to_python_obj_result [OF body [unfolded t1]] h acknowledge_message_state [OF ack]
  have tn1: "tn1 = tn" and wb: "ddb wb = ddb w" "drawn wb = Suc (drawn w)"
    and it1: "it1 = (''id'', JStr (uuid4 en (drawn w))) # tl it1"
    by auto
  from try_put_item_fresh [of en tn it1 wb w' "uuid4 en (drawn w)"] put t1 tn1 it1 wb h
  have dw': "drawn w' = Suc (drawn w)" by (metis map_of_Cons_code(2) fst_conv snd_conv)
  from h obtain wa2 t2 wc where ack2: "acknowledge_message en event w' = (Inr (), wa2)"
    and body2: "body_to_python_obj en event wa2 = (Inr t2, wc)"
    and put2: "try_put_item en t2 wc = (Inr (), w'')"
    by (auto simp: lambda_handler_glue_tracking_initial_def python_obj_glue_tracking_initial_def
             dest!: pbind_result)
  from acknowledge_message_state [OF ack2] dw'
  have wa2: "ddb wa2 = ddb w'" "drawn wa2 = Suc (drawn w)" by simp_all
  from body_to_python_obj_again [OF body [unfolded t1], of wa2] body2 wa2 tn1
  have t2: "t2 = (tn, (''id'', JStr (uuid4 en (Suc (drawn w)))) # tl it1)"
    and wc: "ddb wc = ddb w'"
    by simp_all
  from put t1 tn1 it1
  have p1: "try_put_item en (tn, (''id'', JStr (uuid4 en (drawn w))) # tl it1) wb = (Inr (), w')"
    by simp
  from put2 t2
  have p2: "try_put_item en (tn, (''id'', JStr (uuid4 en (Suc (drawn w)))) # tl it1) wc
              = (Inr (), w'')"
    by simp
  from h have ne: "uuid4 en (drawn w) \<noteq> uuid4 en (Suc (drawn w))"
    and a1: "map_of (ddb w tn) (uuid4 en (drawn w)) = None"
    and a2: "map_of (ddb w tn) (uuid4 en (Suc (drawn w))) = None"
    and honest: "\<forall>tr c. aws en tr c \<noteq> Inl (ClientError ''ConditionalCheckFailedException'')"
    by simp_all
  from two_inserts [OF p1 wb(1) p2 wc ne a1 a2 honest]
  show "\<exists>rest. ddb w'' tn =
         ddb w tn @ [(uuid4 en (drawn w), (''id'', JStr (uuid4 en (drawn w))) # rest),
                     (uuid4 en (Suc (drawn w)),
                      (''id'', JStr (uuid4 en (Suc (drawn w)))) # rest)]"
    by blast
next
  assume h: "python_obj_rds_glue_tracking_initial en2 event2 v = (Inr (Some (tn2, it2)), v1) \<and>
    map_of (ddb v tn2) (uuid4 en2 (drawn v)) \<noteq> None"
  from python_obj_rds_result [of en2 event2 v tn2 it2 v1] h
  have st: "ddb v1 = ddb v" and id: "map_of it2 ''id'' = Some (JStr (uuid4 en2 (drawn v)))"
    by auto
  from h st have stored: "map_of (ddb v1 tn2) (uuid4 en2 (drawn v)) \<noteq> None" by simp
  from h have run:
    "lambda_handler_rds_glue_tracking_initial en2 event2 v = try_put_item en2 (tn2, it2) v1"
    by (simp add: lambda_handler_rds_glue_tracking_initial_def pbind_def)
  from try_put_item_stored [OF id stored, of en2] run st
  have both: "ddb (snd (lambda_handler_rds_glue_tracking_initial en2 event2 v)) = ddb v \<and>
      (\<forall>resp. aws en2 (trace v1) (put_item_call tn2 it2 True) = Inr resp \<longrightarrow>
         fst (lambda_handler_rds_glue_tracking_initial en2 event2 v) = Inr ())"
    by simp
  from both show "ddb (snd (lambda_handler_rds_glue_tracking_initial en2 event2 v)) = ddb v"
    by simp
  from both show "\<forall>resp. aws en2 (trace v1) (put_item_call tn2 it2 True) = Inr resp \<longrightarrow>
         fst (lambda_handler_rds_glue_tracking_initial en2 event2 v) = Inr ()" by simp
next
  assume h: "python_obj_rds_glue_tracking_initial en2 event2 v = (Inr (Some (tn2, it2)), v1) \<and>
    lambda_handler_rds_glue_tracking_initial en2 event2 v = (Inr (), v') \<and>
    lambda_handler_rds_glue_tracking_initial en2 event2 v' = (Inr (), v'') \<and>
    uuid4 en2 (drawn v) \<noteq> uuid4 en2 (Suc (drawn v)) \<and>
    map_of (ddb v tn2) (uuid4 en2 (drawn v)) = None \<and>
    map_of (ddb v tn2) (uuid4 en2 (Suc (drawn v))) = None \<and>
    (\<forall>tr c. aws en2 tr c \<noteq> Inl (ClientError ''ConditionalCheckFailedException''))"
  then have obj: "python_obj_rds_glue_tracking_initial en2 event2 v = (Inr (Some (tn2, it2)), v1)"
    by simp
  from python_obj_rds_result [OF obj]
  have v1: "ddb v1 = ddb v" "drawn v1 = Suc (drawn v)"
    and it2: "it2 = (''id'', JStr (uuid4 en2 (drawn v))) # tl it2"
    by auto
  from h obj have put: "try_put_item en2 (tn2, it2) v1 = (Inr (), v')"
    by (simp add: lambda_handler_rds_glue_tracking_initial_def pbind_def)
  from try_put_item_fresh [of en2 tn2 it2 v1 v' "uuid4 en2 (drawn v)"] put it2 v1 h
  have dv': "drawn v' = Suc (drawn v)" by (metis map_of_Cons_code(2))
  let ?it3 = "(''id'', JStr (uuid4 en2 (Suc (drawn v)))) # tl it2"
  from python_obj_rds_again [OF obj, of v'] dv'
  have obj2: "python_obj_rds_glue_tracking_initial en2 event2 v' =
                (Inr (Some (tn2, ?it3)), v'\<lparr>drawn := Suc (Suc (drawn v))\<rparr>)"
    by simp
  with h have put2: "try_put_item en2 (tn2, ?it3) (v'\<lparr>drawn := Suc (Suc (drawn v))\<rparr>) = (Inr (), v'')"
    by (simp add: lambda_handler_rds_glue_tracking_initial_def pbind_def)
  from put it2
  have p1: "try_put_item en2 (tn2, (''id'', JStr (uuid4 en2 (drawn v))) # tl it2) v1 = (Inr (), v')"
    by simp
  have vc: "ddb (v'\<lparr>drawn := Suc (Suc (drawn v))\<rparr>) = ddb v'" by simp
  from h have ne: "uuid4 en2 (drawn v) \<noteq> uuid4 en2 (Suc (drawn v))"
    and a1: "map_of (ddb v tn2) (uuid4 en2 (drawn v)) = None"
    and a2: "map_of (ddb v tn2) (uuid4 en2 (Suc (drawn v))) = None"
    and honest: "\<forall>tr c. aws en2 tr c \<noteq> Inl (ClientError ''ConditionalCheckFailedException'')"
    by simp_all
  from two_inserts [OF p1 v1(1) put2 vc ne a1 a2 honest]
  show "\<exists>rest. ddb v'' tn2 =
         ddb v tn2 @ [(uuid4 en2 (drawn v), (''id'', JStr (uuid4 en2 (drawn v))) # rest),
                      (uuid4 en2 (Suc (drawn v)),
                       (''id'', JStr (uuid4 en2 (Suc (drawn v)))) # rest)]"
    by blast
qed

lemmas insert_defs =
  lambda_handler_glue_tracking_initial_def python_obj_glue_tracking_initial_def
  lambda_handler_rds_glue_tracking_initial_def python_obj_rds_glue_tracking_initial_def
  extract_valid_event_rds_glue_tracking_initial_def try_put_item_def

text \<open>
  C1 fails as stated: the bucket message delivered twice from the queue to
  \<open>glue-tracking-initial\<close>, starting from an empty tracker table, leaves two records.
\<close>

theorem redelivery_inserts_twice:
  "ddb (run [(Glue_tracking_initial, example_env, queue_event s3_message_text),
             (Glue_tracking_initial, example_env, queue_event s3_message_text)] (store_of []))
     ''tracker'' =
   [(''u0'', [(''id'', JStr ''u0''), (''data_source_type'', JStr ''s3''),
              (''glue_job_created'', JBool False), (''data_catalog_entry'', JBool False),
              (''data_source_attrs'', JObj [(''bucketName'', JStr ''b1'')])]),
    (''u1'', [(''id'', JStr ''u1''), (''data_source_type'', JStr ''s3''),
              (''glue_job_created'', JBool False), (''data_catalog_entry'', JBool False),
              (''data_source_attrs'', JObj [(''bucketName'', JStr ''b1'')])])]"
  by (simp add: insert_defs run_defs example_defs)

theorem insert_keyed_by_fresh_id_witness:
  "ddb (snd (lambda_handler_glue_tracking_initial example_env (queue_event s3_message_text)
               duplicate_world)) = ddb duplicate_world \<and>
   (\<exists>rest. ddb (snd (lambda_handler_glue_tracking_initial example_env direct_event
                       (snd (lambda_handler_glue_tracking_initial example_env direct_event
                               (store_of []))))) ''tracker'' =
      [(''u0'', (''id'', JStr ''u0'') # rest), (''u1'', (''id'', JStr ''u1'') # rest)]) \<and>
   ddb (snd (lambda_handler_rds_glue_tracking_initial example_env glue_create_table_event
               duplicate_world)) = ddb duplicate_world \<and>
   (\<exists>rest. ddb (snd (lambda_handler_rds_glue_tracking_initial example_env
                       glue_create_table_event
                       (snd (lambda_handler_rds_glue_tracking_initial example_env
                               glue_create_table_event (store_of []))))) ''tracker'' =
      [(''u0'', (''id'', JStr ''u0'') # rest), (''u1'', (''id'', JStr ''u1'') # rest)])"
proof -
  let ?q = "queue_event s3_message_text"
  let ?g = "glue_create_table_event"
  let ?it = "[(''id'', JStr ''u0''), (''data_source_type'', JStr ''s3''),
              (''glue_job_created'', JBool False), (''data_catalog_entry'', JBool False),
              (''data_source_attrs'', JObj [(''bucketName'', JStr ''b1'')])]"
  let ?jt = "[(''id'', JStr ''u0''), (''data_source_type'', JStr ''rds''),
              (''data_catalog_table_name'', JStr ''orders''),
              (''data_catalog_db_name'', JStr ''catalog''),
              (''glue_job_created'', JBool False), (''data_catalog_entry'', JBool True),
              (''data_source_attrs'', JObj [(''connectionName'', JStr ''conn1'')])]"
  let ?w1 = "snd (python_obj_glue_tracking_initial example_env ?q duplicate_world)"
  let ?v1 = "snd (python_obj_rds_glue_tracking_initial example_env ?g duplicate_world)"
  let ?x1 = "snd (python_obj_rds_glue_tracking_initial example_env ?g (store_of []))"
  let ?w' = "snd (lambda_handler_glue_tracking_initial example_env direct_event (store_of []))"
  let ?w'' = "snd (lambda_handler_glue_tracking_initial example_env direct_event ?w')"
  let ?v' = "snd (lambda_handler_rds_glue_tracking_initial example_env ?g (store_of []))"
  let ?v'' = "snd (lambda_handler_rds_glue_tracking_initial example_env ?g ?v')"
  have u: "uuid4 example_env 0 = ''u0''" "uuid4 example_env (Suc 0) = ''u1''"
    "drawn duplicate_world = 0" "drawn (store_of []) = 0"
    "ddb (store_of []) ''tracker'' = []"
    "environ example_env ''GLUE_TRACKER_TABLE_NAME'' = Some ''tracker''"
    by (simp_all add: example_defs)
  have honest:
    "\<forall>tr c. aws example_env tr c \<noteq> Inl (ClientError ''ConditionalCheckFailedException'')"
    by (simp add: example_env_def)
  have a1: "python_obj_glue_tracking_initial example_env ?q duplicate_world =
              (Inr (''tracker'', ?it), ?w1)"
    by (simp add: insert_defs run_defs example_defs)
  have a2: "map_of (ddb duplicate_world ''tracker'') ''u0'' \<noteq> None"
    by (simp add: example_defs)
  have b1: "lambda_handler_glue_tracking_initial example_env direct_event (store_of []) =
              (Inr (), ?w')"
    by (simp add: insert_defs run_defs example_defs)
  have b2: "lambda_handler_glue_tracking_initial example_env direct_event ?w' = (Inr (), ?w'')"
    by (simp add: insert_defs run_defs example_defs)
  have c1: "python_obj_rds_glue_tracking_initial example_env ?g duplicate_world =
              (Inr (Some (''tracker'', ?jt)), ?v1)"
    by (simp add: insert_defs run_defs example_defs)
  have d0: "python_obj_rds_glue_tracking_initial example_env ?g (store_of []) =
              (Inr (Some (''tracker'', ?jt)), ?x1)"
    by (simp add: insert_defs run_defs example_defs)
  have d1: "lambda_handler_rds_glue_tracking_initial example_env ?g (store_of []) =
              (Inr (), ?v')"
    by (simp add: insert_defs run_defs example_defs)
  have d2: "lambda_handler_rds_glue_tracking_initial example_env ?g ?v' = (Inr (), ?v'')"
    by (simp add: insert_defs run_defs example_defs)
  note inst = insert_keyed_by_fresh_id
    [of example_env _ _ "''tracker''" _ _ _ _ example_env ?g _ "''tracker''" ?jt]
  from inst [of ?q duplicate_world ?it ?w1 _ _ duplicate_world ?v1] a1 a2 c1 u
  have 1: "ddb (snd (lambda_handler_glue_tracking_initial example_env ?q duplicate_world)) =
             ddb duplicate_world"
    and 3: "ddb (snd (lambda_handler_rds_glue_tracking_initial example_env ?g duplicate_world)) =
             ddb duplicate_world"
    by simp_all
  from inst [of direct_event "store_of []" _ _ ?w' ?w'' "store_of []" ?x1 ?v' ?v'']
    b1 b2 d0 d1 d2 u honest
  have 2: "\<exists>rest. ddb ?w'' ''tracker'' =
             [(''u0'', (''id'', JStr ''u0'') # rest), (''u1'', (''id'', JStr ''u1'') # rest)]"
    and 4: "\<exists>rest. ddb ?v'' ''tracker'' =
             [(''u0'', (''id'', JStr ''u0'') # rest), (''u1'', (''id'', JStr ''u1'') # rest)]"
    by simp_all
  from 1 2 3 4 show ?thesis by simp
qed

subsection \<open>Flags at insert\<close>




subsection \<open>The opt-in filter of \<open>s3-trigger\<close>\<close>

lemma send_message_to_sqs_trace:
  "send_message_to_sqs en url msg w = (r, w') \<Longrightarrow>
     trace w' = trace w @ [Call ''sqs'' ''send_message''
                             [(''QueueUrl'', JStr url), (''MessageBody'', JStr (dumps en msg))]]"
  by (auto simp: send_message_to_sqs_def api_def lift_def pbind_def split: sum.splits)

lemma tag_loop_sends:
  assumes "glue_queue_url \<noteq> custom"
  shows "tag_loop en custom msg tags flag w = (r, w') \<Longrightarrow>
           filter (sent_to glue_queue_url) (trace w') = filter (sent_to glue_queue_url) (trace w)"
proof (induction tags arbitrary: flag w)
  case Nil
  then show ?case by simp
next
  case (Cons tag tags)
  show ?case
  proof (cases "tag_is tag ''gdpr-scan'' ''true''")
    case Inl
    with Cons.prems show ?thesis by simp
  next
    case scan: (Inr s)
    show ?thesis
    proof (cases "tag_is tag ''glue-custom-entity'' ''true''")
      case Inl
      with scan Cons.prems show ?thesis by simp
    next
      case custom: (Inr c)
      show ?thesis
      proof (cases c)
        case False
        with scan custom Cons.prems Cons.IH show ?thesis by simp
      next
        case True
        show ?thesis
        proof (cases "send_message_to_sqs en custom msg w")
          case (Pair r1 w1)
          from send_message_to_sqs_trace [OF Pair] assms
          have 1: "filter (sent_to glue_queue_url) (trace w1) =
                     filter (sent_to glue_queue_url) (trace w)"
            by simp
          show ?thesis
          proof (cases r1)
            case (Inl e)
            with scan custom True Pair Cons.prems 1 show ?thesis by simp
          next
            case (Inr u)
            with scan custom True Pair Cons.prems
            have "tag_loop en custom msg tags (flag \<or> s) w1 = (r, w')" by simp
            from Cons.IH [OF this] 1 show ?thesis by simp
          qed
        qed
      qed
    qed
  qed
qed

lemma tag_loop_flag:
  "tag_loop en custom msg tags flag w = (Inr f, w') \<Longrightarrow> f = (flag \<or> opted_in tags)"
proof (induction tags arbitrary: flag w)
  case Nil
  then show ?case by (simp add: opted_in_def)
next
  case (Cons tag tags)
  show ?case
  proof (cases "tag_is tag ''gdpr-scan'' ''true''")
    case Inl
    with Cons.prems show ?thesis by simp
  next
    case scan: (Inr s)
    show ?thesis
    proof (cases "tag_is tag ''glue-custom-entity'' ''true''")
      case Inl
      with scan Cons.prems show ?thesis by simp
    next
      case custom: (Inr c)
      show ?thesis
      proof (cases c)
        case False
        with scan custom Cons.prems have "tag_loop en custom msg tags (flag \<or> s) w = (Inr f, w')"
          by simp
        from Cons.IH [OF this] scan show ?thesis by (auto simp: opted_in_def)
      next
        case True
        show ?thesis
        proof (cases "send_message_to_sqs en custom msg w")
          case (Pair r1 w1)
          show ?thesis
          proof (cases r1)
            case (Inl e)
            with scan custom True Pair Cons.prems show ?thesis by simp
          next
            case (Inr u)
            with scan custom True Pair Cons.prems
            have "tag_loop en custom msg tags (flag \<or> s) w1 = (Inr f, w')" by simp
            from Cons.IH [OF this] scan show ?thesis by (auto simp: opted_in_def)
          qed
        qed
      qed
    qed
  qed
qed

lemma bucket_tags_s3_trigger_result:
  assumes "bucket_tags_s3_trigger en event w = (r, w1)"
  shows "filter (sent_to url) (trace w1) = filter (sent_to url) (trace w) \<and>
         (\<forall>gq cq ve bt. r = Inr (Some (gq, cq, ve, bt)) \<longrightarrow>
            environ en ''GLUE_TRACKING_QUEUE_URL'' = Some gq \<and>
            environ en ''GLUE_CUSTOM_ENTITY_QUEUE_URL'' = Some cq \<and>
            extract_valid_event_s3_trigger event = Inr ve \<and> truthy bt)"
proof -
  have tags: "get_bucket_tags en b v = (r', v') \<Longrightarrow>
          filter (sent_to url) (trace v') = filter (sent_to url) (trace v)" for b v r' v'
    using snd_get_bucket_tags [of en b v] by auto
  from assms show ?thesis
    by (auto simp: bucket_tags_s3_trigger_def require_env_def raise_def ok_def lift_def
             dest!: pbind_result tags split: option.splits if_splits sum.splits)
qed

text \<open>
  C7.  A notification whose bucket has no tags (no tag set, or an empty one) makes
  \<open>s3-trigger\<close> return normally without sending a message to any queue.  When the bucket
  has tags and the two queue URLs differ: the handler never changes a table; if no tag is
  \<open>gdpr-scan = true\<close>, no message is sent to the tracking queue, and the handler returns
  normally unless the loop over the tags itself raises (a tag without key, or a failed send to
  the custom-entity queue); if such a tag is present, then either the loop over the tags
  raises, the handler ends with that exception and no message is sent to the tracking queue,
  or the loop ends and exactly one send, of the \<open>s3\<close> message of the bucket, is made to the
  tracking queue, its outcome being the outcome of the handler; in particular a normal return
  has sent exactly one message to the tracking queue.
\<close>

theorem opt_in_filter:
  "(bucket_tags_s3_trigger en event w = (Inr None, w1) \<longrightarrow>
      lambda_handler_s3_trigger en event w = (Inr (), w1) \<and> ddb w1 = ddb w \<and>
      filter (sent_to url) (trace w1) = filter (sent_to url) (trace w)) \<and>
   (bucket_tags_s3_trigger en event w = (Inr (Some (gq, cq, ve, bt)), w1) \<and>
    py_iter bt = Inr tags \<and> gq \<noteq> cq \<and> lambda_handler_s3_trigger en event w = (r, w') \<longrightarrow>
      environ en ''GLUE_TRACKING_QUEUE_URL'' = Some gq \<and> ddb w' = ddb w \<and>
      (\<not> opted_in tags \<longrightarrow>
         filter (sent_to gq) (trace w') = filter (sent_to gq) (trace w) \<and>
         (r = Inr () \<or>
          (\<exists>e. r = Inl e \<and>
             tag_loop en cq (message_dict_s3_trigger ve) tags False w1 = (Inl e, w')))) \<and>
      (opted_in tags \<and> r = Inr () \<longrightarrow>
         filter (sent_to gq) (trace w') =
           filter (sent_to gq) (trace w) @
             [Call ''sqs'' ''send_message''
                [(''QueueUrl'', JStr gq),
                 (''MessageBody'', JStr (dumps en (message_dict_s3_trigger ve)))]]) \<and>
      (opted_in tags \<longrightarrow>
         (\<exists>e. r = Inl e \<and>
            tag_loop en cq (message_dict_s3_trigger ve) tags False w1 = (Inl e, w') \<and>
            filter (sent_to gq) (trace w') = filter (sent_to gq) (trace w)) \<or>
         (\<exists>w2. tag_loop en cq (message_dict_s3_trigger ve) tags False w1 = (Inr True, w2) \<and>
            send_message_to_sqs en gq (message_dict_s3_trigger ve) w2 = (r, w') \<and>
            filter (sent_to gq) (trace w') =
              filter (sent_to gq) (trace w) @
                [Call ''sqs'' ''send_message''
                   [(''QueueUrl'', JStr gq),
                    (''MessageBody'', JStr (dumps en (message_dict_s3_trigger ve)))]])))"
proof (intro conjI impI)
  assume h: "bucket_tags_s3_trigger en event w = (Inr None, w1)"
  then show "lambda_handler_s3_trigger en event w = (Inr (), w1)"
    by (simp add: lambda_handler_s3_trigger_def pbind_def ok_def)
  with keeps_s3_trigger [OF frame_rel_same_tables, of en event] show "ddb w1 = ddb w"
    by (auto simp: same_tables_def dest: keepsD)
  from bucket_tags_s3_trigger_result [OF h]
  show "filter (sent_to url) (trace w1) = filter (sent_to url) (trace w)" by simp
next
  let ?msg = "message_dict_s3_trigger ve"
  let ?call = "Call ''sqs'' ''send_message''
                [(''QueueUrl'', JStr gq), (''MessageBody'', JStr (dumps en ?msg))]"
  assume h: "bucket_tags_s3_trigger en event w = (Inr (Some (gq, cq, ve, bt)), w1) \<and>
    py_iter bt = Inr tags \<and> gq \<noteq> cq \<and> lambda_handler_s3_trigger en event w = (r, w')"
  then have pre: "bucket_tags_s3_trigger en event w = (Inr (Some (gq, cq, ve, bt)), w1)"
    and ne: "gq \<noteq> cq" and run: "lambda_handler_s3_trigger en event w = (r, w')"
    by simp_all
  from bucket_tags_s3_trigger_result [OF pre, of gq]
  have t1: "filter (sent_to gq) (trace w1) = filter (sent_to gq) (trace w)"
    and gq: "environ en ''GLUE_TRACKING_QUEUE_URL'' = Some gq"
    by simp_all
  from gq show "environ en ''GLUE_TRACKING_QUEUE_URL'' = Some gq" .
  from run keeps_s3_trigger [OF frame_rel_same_tables, of en event] show "ddb w' = ddb w"
    by (auto simp: same_tables_def dest: keepsD)
  obtain rl w2 where loop: "tag_loop en cq ?msg tags False w1 = (rl, w2)"
    by (cases "tag_loop en cq ?msg tags False w1")
  from tag_loop_sends [OF ne loop] t1
  have t2: "filter (sent_to gq) (trace w2) = filter (sent_to gq) (trace w)" by simp
  from h have iter: "py_iter bt = Inr tags" by simp
  have "lambda_handler_s3_trigger en event w =
          pbind (tag_loop en cq ?msg tags False)
            (\<lambda>f. if \<not> f then ok () else send_message_to_sqs en gq ?msg) w1"
    by (simp add: lambda_handler_s3_trigger_def pbind_def [of "bucket_tags_s3_trigger en event"]
          pre iter)
  with run loop have unfolded:
    "(r, w') = (case rl of Inl e \<Rightarrow> (Inl e, w2)
                | Inr f \<Rightarrow> if \<not> f then (Inr (), w2) else send_message_to_sqs en gq ?msg w2)"
    by (cases rl) (auto simp: pbind_def ok_def)
  { assume no: "\<not> opted_in tags"
    have "filter (sent_to gq) (trace w') = filter (sent_to gq) (trace w) \<and>
         (r = Inr () \<or> (\<exists>e. r = Inl e \<and> tag_loop en cq ?msg tags False w1 = (Inl e, w')))"
    proof (cases rl)
      case (Inl e)
      with unfolded loop t2 show ?thesis by simp
    next
      case (Inr f)
      with tag_loop_flag [of en cq ?msg tags False w1 f w2] loop no have "\<not> f" by simp
      with Inr unfolded t2 show ?thesis by simp
    qed
    then show "filter (sent_to gq) (trace w') = filter (sent_to gq) (trace w)"
      and "r = Inr () \<or> (\<exists>e. r = Inl e \<and> tag_loop en cq ?msg tags False w1 = (Inl e, w'))"
      by simp_all }
  { assume yes: "opted_in tags \<and> r = Inr ()"
    show "filter (sent_to gq) (trace w') = filter (sent_to gq) (trace w) @ [?call]"
    proof (cases rl)
      case (Inl e)
      with unfolded yes show ?thesis by simp
    next
      case (Inr f)
      with tag_loop_flag [of en cq ?msg tags False w1 f w2] loop yes have f by simp
      with Inr unfolded have "send_message_to_sqs en gq ?msg w2 = (r, w')" by simp
      from send_message_to_sqs_trace [OF this] t2 show ?thesis by simp
    qed }
  { assume yes: "opted_in tags"
    show "(\<exists>e. r = Inl e \<and> tag_loop en cq ?msg tags False w1 = (Inl e, w') \<and>
            filter (sent_to gq) (trace w') = filter (sent_to gq) (trace w)) \<or>
          (\<exists>w2. tag_loop en cq ?msg tags False w1 = (Inr True, w2) \<and>
            send_message_to_sqs en gq ?msg w2 = (r, w') \<and>
            filter (sent_to gq) (trace w') = filter (sent_to gq) (trace w) @ [?call])"
    proof (cases rl)
      case (Inl e)
      with unfolded loop t2 show ?thesis by simp
    next
      case (Inr f)
      with tag_loop_flag [of en cq ?msg tags False w1 f w2] loop yes have f: f by simp
      with Inr unfolded have s: "send_message_to_sqs en gq ?msg w2 = (r, w')" by simp
      from send_message_to_sqs_trace [OF s] t2
      have "filter (sent_to gq) (trace w') = filter (sent_to gq) (trace w) @ [?call]" by simp
      with s loop Inr f show ?thesis by auto
    qed }
qed

lemmas s3_trigger_defs =
  lambda_handler_s3_trigger_def bucket_tags_s3_trigger_def extract_valid_event_s3_trigger_def
  get_bucket_tags_def send_message_to_sqs_def message_dict_s3_trigger_def tag_is_def
  s3_create_bucket_event_def untagged_env_def tagged_env_def opted_in_def

text \<open>
  C7 fails as stated.  When both queue settings name one queue, a bucket tagged only
  \<open>glue-custom-entity = true\<close>, which lacks the opt-in tag, has its message sent to the
  tracking queue and the handler returns normally.  And a bucket that carries the opt-in tag
  and the tag \<open>glue-custom-entity = true\<close> gets no message on the tracking queue when the
  send to the custom-entity queue raises: the handler ends with that exception.
\<close>

theorem shared_queue_receives_unopted_bucket:
  "\<not> opted_in [JObj [(''Key'', JStr ''glue-custom-entity''), (''Value'', JStr ''true'')]] \<and>
   environ (same_queue_env [(''glue-custom-entity'', ''true'')]) ''GLUE_TRACKING_QUEUE_URL'' =
     Some ''q-tracking'' \<and>
   fst (lambda_handler_s3_trigger (same_queue_env [(''glue-custom-entity'', ''true'')])
          s3_create_bucket_event (store_of [])) = Inr () \<and>
   trace (snd (lambda_handler_s3_trigger (same_queue_env [(''glue-custom-entity'', ''true'')])
                 s3_create_bucket_event (store_of []))) =
     [Call ''s3'' ''get_bucket_tagging'' [(''Bucket'', JStr ''b1'')],
      Call ''sqs'' ''send_message''
        [(''QueueUrl'', JStr ''q-tracking''), (''MessageBody'', JStr s3_message_text)]] \<and>
   filter (sent_to ''q-tracking'')
     (trace (snd (lambda_handler_s3_trigger (same_queue_env [(''glue-custom-entity'', ''true'')])
                    s3_create_bucket_event (store_of [])))) =
     [Call ''sqs'' ''send_message''
        [(''QueueUrl'', JStr ''q-tracking''), (''MessageBody'', JStr s3_message_text)]] \<and>
   opted_in [JObj [(''Key'', JStr ''gdpr-scan''), (''Value'', JStr ''true'')],
             JObj [(''Key'', JStr ''glue-custom-entity''), (''Value'', JStr ''true'')]] \<and>
   fst (lambda_handler_s3_trigger
          (failing_send_env [(''gdpr-scan'', ''true''), (''glue-custom-entity'', ''true'')]
             ''q-custom'')
          s3_create_bucket_event (store_of [])) = Inl (ClientError ''ServiceUnavailable'') \<and>
   trace (snd (lambda_handler_s3_trigger
                 (failing_send_env [(''gdpr-scan'', ''true''), (''glue-custom-entity'', ''true'')]
                    ''q-custom'')
                 s3_create_bucket_event (store_of []))) =
     [Call ''s3'' ''get_bucket_tagging'' [(''Bucket'', JStr ''b1'')],
      Call ''sqs'' ''send_message''
        [(''QueueUrl'', JStr ''q-custom''), (''MessageBody'', JStr s3_message_text)]] \<and>
   filter (sent_to ''q-tracking'')
     (trace (snd (lambda_handler_s3_trigger
                    (failing_send_env [(''gdpr-scan'', ''true''), (''glue-custom-entity'', ''true'')]
                       ''q-custom'')
                    s3_create_bucket_event (store_of [])))) = []"
  by (simp add: s3_trigger_defs same_queue_env_def failing_send_env_def run_defs example_defs)

theorem opt_in_filter_witness:
  "fst (lambda_handler_s3_trigger untagged_env s3_create_bucket_event (store_of [])) = Inr () \<and>
   filter (sent_to ''q-tracking'')
     (trace (snd (lambda_handler_s3_trigger untagged_env s3_create_bucket_event (store_of []))))
     = [] \<and>
   filter (sent_to ''q-tracking'')
     (trace (snd (lambda_handler_s3_trigger (tagged_env [(''owner'', ''me'')])
                    s3_create_bucket_event (store_of [])))) = [] \<and>
   filter (sent_to ''q-tracking'')
     (trace (snd (lambda_handler_s3_trigger (tagged_env [(''gdpr-scan'', ''true'')])
                    s3_create_bucket_event (store_of [])))) =
     [Call ''sqs'' ''send_message''
        [(''QueueUrl'', JStr ''q-tracking''), (''MessageBody'', JStr s3_message_text)]]"
proof -
  let ?ev = s3_create_bucket_event
  let ?w = "store_of []"
  let ?ve = "JObj [(''bucketName'', JStr ''b1'')]"
  let ?e1 = "tagged_env [(''owner'', ''me'')]"
  let ?e2 = "tagged_env [(''gdpr-scan'', ''true'')]"
  let ?t1 = "[JObj [(''Key'', JStr ''owner''), (''Value'', JStr ''me'')]]"
  let ?t2 = "[JObj [(''Key'', JStr ''gdpr-scan''), (''Value'', JStr ''true'')]]"
  have tr: "trace ?w = []" by (simp add: store_of_def)
  have pa: "py_iter (JArr ?t1) = Inr ?t1" "py_iter (JArr ?t2) = Inr ?t2" by simp_all
  have a: "bucket_tags_s3_trigger untagged_env ?ev ?w =
             (Inr None, snd (bucket_tags_s3_trigger untagged_env ?ev ?w))"
    by (simp add: s3_trigger_defs run_defs example_defs)
  have b: "bucket_tags_s3_trigger ?e1 ?ev ?w =
             (Inr (Some (''q-tracking'', ''q-custom'', ?ve, JArr ?t1)),
              snd (bucket_tags_s3_trigger ?e1 ?ev ?w))"
    by (simp add: s3_trigger_defs run_defs example_defs)
  have c: "bucket_tags_s3_trigger ?e2 ?ev ?w =
             (Inr (Some (''q-tracking'', ''q-custom'', ?ve, JArr ?t2)),
              snd (bucket_tags_s3_trigger ?e2 ?ev ?w))"
    by (simp add: s3_trigger_defs run_defs example_defs)
  have no: "\<not> opted_in ?t1" by (simp add: opted_in_def tag_is_def)
  have yes: "opted_in ?t2" by (simp add: opted_in_def tag_is_def)
  have ne: "''q-tracking'' \<noteq> ''q-custom''" by simp
  have r2: "fst (lambda_handler_s3_trigger ?e2 ?ev ?w) = Inr ()"
    by (simp add: s3_trigger_defs run_defs example_defs)
  from r2 have r2': "lambda_handler_s3_trigger ?e2 ?ev ?w =
                      (Inr (), snd (lambda_handler_s3_trigger ?e2 ?ev ?w))"
    by (metis prod.collapse)
  have d: "dumps ?e2 (message_dict_s3_trigger ?ve) = s3_message_text"
    by (simp add: s3_trigger_defs example_defs)
  from opt_in_filter [of untagged_env ?ev ?w "snd (bucket_tags_s3_trigger untagged_env ?ev ?w)"
                         "''q-tracking''"] a tr
  have 1: "fst (lambda_handler_s3_trigger untagged_env ?ev ?w) = Inr ()"
    and 2: "filter (sent_to ''q-tracking'')
              (trace (snd (lambda_handler_s3_trigger untagged_env ?ev ?w))) = []"
    by simp_all
  from opt_in_filter [of ?e1 ?ev ?w "snd (bucket_tags_s3_trigger ?e1 ?ev ?w)" _ "''q-tracking''" "''q-custom''" ?ve "JArr ?t1" ?t1
                         "fst (lambda_handler_s3_trigger ?e1 ?ev ?w)"
                         "snd (lambda_handler_s3_trigger ?e1 ?ev ?w)"] b no ne tr pa
  have 3: "filter (sent_to ''q-tracking'')
              (trace (snd (lambda_handler_s3_trigger ?e1 ?ev ?w))) = []"
    by simp
  from opt_in_filter [of ?e2 ?ev ?w "snd (bucket_tags_s3_trigger ?e2 ?ev ?w)" _ "''q-tracking''" "''q-custom''" ?ve "JArr ?t2" ?t2
                         "Inr ()"
                         "snd (lambda_handler_s3_trigger ?e2 ?ev ?w)"] c yes ne tr r2' d pa
  have 4: "filter (sent_to ''q-tracking'')
              (trace (snd (lambda_handler_s3_trigger ?e2 ?ev ?w))) =
           [Call ''sqs'' ''send_message''
              [(''QueueUrl'', JStr ''q-tracking''), (''MessageBody'', JStr s3_message_text)]]"
    by simp
  from 1 2 3 4 show ?thesis by simp
qed

subsection \<open>A failing record in a stage-advancement loop\<close>

lemma for_each_append:
  "for_each body (xs @ ys) w =
     (case for_each body xs w of (Inl e, w') \<Rightarrow> (Inl e, w') | (Inr u, w') \<Rightarrow> for_each body ys w')"
  by (induction xs arbitrary: w) (auto split: prod.splits sum.splits)

lemma keeps_for_each_mem:
  assumes R: "frame_rel R" and body: "\<And>x. x \<in> set xs \<Longrightarrow> keeps R (body x)"
  shows "keeps R (for_each body xs)"
proof -
  have "R w (snd (for_each body xs w))" for w
    using body
  proof (induction xs arbitrary: w)
    case Nil
    from R show ?case by (simp add: frame_relD)
  next
    case (Cons x xs)
    show ?case
    proof (cases "body x w")
      case (Pair r w1)
      from Cons.prems [of x] Pair have 1: "R w w1" by (auto dest: keepsD)
      show ?thesis
      proof (cases r)
        case (Inl e)
        with Pair 1 show ?thesis by simp
      next
        case (Inr u)
        from Cons.IH Cons.prems have "R w1 (snd (for_each body xs w1))" by simp
        with 1 R have "R w (snd (for_each body xs w1))" by (blast intro: frame_relD(2))
        with Pair Inr show ?thesis by simp
      qed
    qed
  qed
  then show ?thesis by (simp add: keeps_def)
qed

lemma frame_rel_others_kept: "frame_rel (others_kept tn ks)"
  by (simp add: frame_rel_def others_kept_def)

lemma update_item_others_kept:
  "k \<in> set ks \<Longrightarrow> keeps (others_kept t ks) (update_item en tn k kwargs sets)"
  by (auto simp: keeps_def others_kept_def update_item_def Let_def update_conv'
           split: sum.splits)

lemma record_id_cases:
  "(\<exists>e. ebind (py_subscript obj ''id'') param_string = Inl e \<and> record_id obj = None) \<or>
   (\<exists>k. ebind (py_subscript obj ''id'') param_string = Inr k \<and> record_id obj = Some k)"
  by (cases "ebind (py_subscript obj ''id'') param_string") (simp_all add: record_id_def)

lemma update_ddb_catalog_others_kept:
  assumes "\<And>k. record_id obj = Some k \<Longrightarrow> k \<in> set ks"
  shows "keeps (others_kept t ks) (update_ddb_catalog_creator_s3 en tn obj dct dcd)"
  using record_id_cases [of obj]
proof (elim disjE exE conjE)
  fix e assume "ebind (py_subscript obj ''id'') param_string = Inl e"
  then show ?thesis
    by (simp add: update_ddb_catalog_creator_s3_def keeps_def others_kept_def)
next
  fix k assume k: "ebind (py_subscript obj ''id'') param_string = Inr k"
    and "record_id obj = Some k"
  with assms have "k \<in> set ks" by simp
  with k show ?thesis
    unfolding update_ddb_catalog_creator_s3_def
    by (simp del: ebind_Inr ebind_Inl)
       (intro keeps_pbind keeps_lift frame_rel_others_kept update_item_others_kept)
qed

lemma update_ddb_job_others_kept:
  assumes "\<And>k. record_id obj = Some k \<Longrightarrow> k \<in> set ks"
  shows "keeps (others_kept t ks) (update_ddb_s3_glue_job_creator en tn obj)"
  using record_id_cases [of obj]
proof (elim disjE exE conjE)
  fix e assume "ebind (py_subscript obj ''id'') param_string = Inl e"
  then show ?thesis
    by (simp add: update_ddb_s3_glue_job_creator_def keeps_def others_kept_def)
next
  fix k assume k: "ebind (py_subscript obj ''id'') param_string = Inr k"
    and "record_id obj = Some k"
  with assms have "k \<in> set ks" by simp
  with k show ?thesis
    unfolding update_ddb_s3_glue_job_creator_def
    by (simp del: ebind_Inr ebind_Inl)
       (intro keeps_pbind keeps_lift frame_rel_others_kept update_item_others_kept)
qed

lemma catalog_s3_obj_others_kept:
  assumes "\<And>k. record_id obj = Some k \<Longrightarrow> k \<in> set ks"
  shows "keeps (others_kept t ks) (catalog_s3_obj en tn role db acct obj)"
  unfolding catalog_s3_obj_def
  by (intro keeps_intros keeps_create_data_catalog_table keeps_create_crawler
        update_ddb_catalog_others_kept frame_rel_others_kept assms)

lemma job_s3_obj_others_kept:
  assumes "\<And>k. record_id obj = Some k \<Longrightarrow> k \<in> set ks"
  shows "keeps (others_kept t ks) (job_s3_obj en tn out assets script role obj)"
  unfolding job_s3_obj_def
  by (intro keeps_intros keeps_create_glue_job update_ddb_job_others_kept
        frame_rel_others_kept assms)

lemma update_item_sets_flag:
  assumes "update_item en tn k kwargs sets w = (Inr resp, w')"
    and "\<And>it. map_of (assign sets it) flag = Some (JBool True)"
  shows "flag_set (ddb w' tn) k flag"
  using assms
  by (auto simp: update_item_def Let_def update_conv' flag_set_def split: sum.splits)

lemma update_ddb_catalog_success:
  assumes "update_ddb_catalog_creator_s3 en tn obj dct dcd w = (Inr (), w')"
  shows "\<exists>k. record_id obj = Some k \<and> flag_set (ddb w' tn) k ''data_catalog_entry''"
proof -
  from assms obtain k kwargs resp where
    k: "ebind (py_subscript obj ''id'') param_string = Inr k"
    and u: "update_item en tn k kwargs
              [(''data_catalog_entry'', JBool True), (''data_catalog_table_name'', JStr dct),
               (''data_catalog_db_name'', JStr dcd)] w = (Inr resp, w')"
    by (auto simp: update_ddb_catalog_creator_s3_def lift_def
             dest!: pbind_result split: sum.splits)
  from k have "record_id obj = Some k" by (simp add: record_id_def)
  moreover from update_item_sets_flag [OF u, of "''data_catalog_entry''"]
  have "flag_set (ddb w' tn) k ''data_catalog_entry''" by (simp add: map_of_assign3)
  ultimately show ?thesis by blast
qed

lemma update_ddb_job_success:
  assumes "update_ddb_s3_glue_job_creator en tn obj w = (Inr (), w')"
  shows "\<exists>k. record_id obj = Some k \<and> flag_set (ddb w' tn) k ''glue_job_created''"
proof -
  from assms obtain k kwargs resp where
    k: "ebind (py_subscript obj ''id'') param_string = Inr k"
    and u: "update_item en tn k kwargs [(''glue_job_created'', JBool True)] w = (Inr resp, w')"
    by (auto simp: update_ddb_s3_glue_job_creator_def lift_def
             dest!: pbind_result split: sum.splits)
  from k have "record_id obj = Some k" by (simp add: record_id_def)
  moreover from update_item_sets_flag [OF u, of "''glue_job_created''"]
  have "flag_set (ddb w' tn) k ''glue_job_created''" by (simp add: map_of_assign1)
  ultimately show ?thesis by blast
qed

lemma catalog_s3_obj_success:
  assumes "catalog_s3_obj en tn role db acct obj w = (Inr (), w')"
  shows "\<exists>k. record_id obj = Some k \<and> flag_set (ddb w' tn) k ''data_catalog_entry''"
proof -
  from assms obtain dct v where
    "update_ddb_catalog_creator_s3 en tn obj dct db v = (Inr (), w')"
    by (auto simp: catalog_s3_obj_def Let_def dest!: pbind_result)
  then show ?thesis by (rule update_ddb_catalog_success)
qed

lemma job_s3_obj_success:
  assumes "job_s3_obj en tn out assets script role obj w = (Inr (), w')"
  shows "\<exists>k. record_id obj = Some k \<and> flag_set (ddb w' tn) k ''glue_job_created''"
proof -
  from assms obtain v where "update_ddb_s3_glue_job_creator en tn obj v = (Inr (), w')"
    by (auto simp: job_s3_obj_def Let_def dest!: pbind_result)
  then show ?thesis by (rule update_ddb_job_success)
qed

lemma for_each_sets_flags:
  assumes success: "\<And>x w w'. body x w = (Inr (), w') \<Longrightarrow>
                      \<exists>k. record_id x = Some k \<and> flag_set (ddb w' tn) k flag"
    and kept: "\<And>x k. keeps (flag_kept tn k flag) (body x)"
  shows "for_each body xs w = (Inr (), w') \<Longrightarrow>
           \<forall>p \<in> set xs. \<exists>k. record_id p = Some k \<and> flag_set (ddb w' tn) k flag"
proof (induction xs arbitrary: w)
  case Nil
  then show ?case by simp
next
  case (Cons x xs)
  from Cons.prems obtain wa where x: "body x w = (Inr (), wa)"
    and rest: "for_each body xs wa = (Inr (), w')"
    by (auto split: prod.splits sum.splits)
  from success [OF x] obtain k where k: "record_id x = Some k" "flag_set (ddb wa tn) k flag"
    by blast
  from keeps_for_each [where R = "flag_kept tn k flag" and body = body and xs = xs,
         OF frame_rel_flag_kept kept] rest k(2)
  have "flag_set (ddb w' tn) k flag" by (auto simp: flag_kept_def dest: keepsD)
  with k(1) Cons.IH [OF rest] show ?case by auto
qed

lemma record_ids_mem: "x \<in> set xs \<Longrightarrow> record_id x = Some k \<Longrightarrow> k \<in> set (List.map_filter record_id xs)"
  by (auto simp: List.map_filter_def intro!: image_eqI [where x = x])

text \<open>
  C2, as the code has it.  The loop over the scanned records has no handler of its own for
  exceptions.  When the body raises on a record \<open>x\<close> after the records \<open>pre\<close> before it
  went through, the invocation ends with that exception: every record of \<open>pre\<close> has its
  stage flag set, and every record stored under a key other than those of \<open>pre\<close> and \<open>x\<close>,
  among them the records \<open>post\<close> that follow \<open>x\<close> in the scan, is as it was before the
  invocation.  This holds of \<open>catalog-creator-s3\<close> and of \<open>s3-glue-job-creator\<close>.
\<close>

theorem failure_ends_the_batch:
  "(scan_catalog_creator_s3 en w = (Inr (Some ((tn, role, db, acct), pre @ x # post)), w1) \<and>
    for_each (catalog_s3_obj en tn role db acct) pre w1 = (Inr (), w2) \<and>
    catalog_s3_obj en tn role db acct x w2 = (Inl e, w3) \<longrightarrow>
      lambda_handler_catalog_creator_s3 en event w = (Inl e, w3) \<and>
      (\<forall>k. k \<notin> set (List.map_filter record_id (pre @ [x])) \<longrightarrow>
           map_of (ddb w3 tn) k = map_of (ddb w tn) k) \<and>
      (\<forall>p \<in> set pre. \<exists>k. record_id p = Some k \<and>
           flag_set (ddb w3 tn) k ''data_catalog_entry'')) \<and>
   (scan_s3_glue_job_creator en' v =
      (Inr (Some ((tn', out, assets, script, role'), pre' @ x' # post')), v1) \<and>
    for_each (job_s3_obj en' tn' out assets script role') pre' v1 = (Inr (), v2) \<and>
    job_s3_obj en' tn' out assets script role' x' v2 = (Inl e', v3) \<longrightarrow>
      lambda_handler_s3_glue_job_creator en' event' v = (Inl e', v3) \<and>
      (\<forall>k. k \<notin> set (List.map_filter record_id (pre' @ [x'])) \<longrightarrow>
           map_of (ddb v3 tn') k = map_of (ddb v tn') k) \<and>
      (\<forall>p \<in> set pre'. \<exists>k. record_id p = Some k \<and>
           flag_set (ddb v3 tn') k ''glue_job_created''))"
proof (intro conjI impI)
  let ?body = "catalog_s3_obj en tn role db acct"
  let ?ks = "List.map_filter record_id (pre @ [x])"
  assume h: "scan_catalog_creator_s3 en w =
      (Inr (Some ((tn, role, db, acct), pre @ x # post)), w1) \<and>
    for_each ?body pre w1 = (Inr (), w2) \<and> ?body x w2 = (Inl e, w3)"
  then have scan: "scan_catalog_creator_s3 en w =
      (Inr (Some ((tn, role, db, acct), pre @ x # post)), w1)"
    and loop: "for_each ?body pre w1 = (Inr (), w2)" and fail: "?body x w2 = (Inl e, w3)"
    by simp_all
  from loop fail have "for_each ?body (pre @ x # post) w1 = (Inl e, w3)"
    by (simp add: for_each_append)
  with scan show "lambda_handler_catalog_creator_s3 en event w = (Inl e, w3)"
    by (simp add: lambda_handler_catalog_creator_s3_def pbind_def)
  have mem: "p \<in> set (pre @ [x]) \<Longrightarrow> keeps (others_kept tn ?ks) (?body p)" for p
    by (rule catalog_s3_obj_others_kept) (rule record_ids_mem)
  from keeps_scan_catalog_creator_s3 [OF frame_rel_others_kept] scan
  have 1: "others_kept tn ?ks w w1" by (blast dest: keepsD)
  from keeps_for_each_mem [where R = "others_kept tn ?ks" and xs = pre and body = ?body,
         OF frame_rel_others_kept] mem loop
  have 2: "others_kept tn ?ks w1 w2" by (auto dest: keepsD)
  from mem [of x] fail have 3: "others_kept tn ?ks w2 w3" by (auto dest: keepsD)
  from 1 2 3
  show "\<forall>k. k \<notin> set ?ks \<longrightarrow> map_of (ddb w3 tn) k = map_of (ddb w tn) k"
    by (simp add: others_kept_def)
  have flag: "''data_catalog_entry'' \<in> {''data_catalog_entry'', ''glue_job_created''}" by simp
  from for_each_sets_flags [where body = ?body and tn = tn and flag = "''data_catalog_entry''",
         OF _ _ loop]
    catalog_s3_obj_success catalog_s3_obj_flag_kept [OF flag]
  have set2: "\<forall>p \<in> set pre. \<exists>k. record_id p = Some k \<and>
                flag_set (ddb w2 tn) k ''data_catalog_entry''"
    by blast
  have "flag_kept tn k ''data_catalog_entry'' w2 w3" for k
    by (rule keepsD [OF catalog_s3_obj_flag_kept [OF flag] fail])
  then have "flag_set (ddb w2 tn) k ''data_catalog_entry'' \<Longrightarrow>
        flag_set (ddb w3 tn) k ''data_catalog_entry''" for k
    by (simp add: flag_kept_def)
  with set2
  show "\<forall>p \<in> set pre. \<exists>k. record_id p = Some k \<and>
          flag_set (ddb w3 tn) k ''data_catalog_entry''"
    by blast
next
  let ?body = "job_s3_obj en' tn' out assets script role'"
  let ?ks = "List.map_filter record_id (pre' @ [x'])"
  assume h: "scan_s3_glue_job_creator en' v =
      (Inr (Some ((tn', out, assets, script, role'), pre' @ x' # post')), v1) \<and>
    for_each ?body pre' v1 = (Inr (), v2) \<and> ?body x' v2 = (Inl e', v3)"
  then have scan: "scan_s3_glue_job_creator en' v =
      (Inr (Some ((tn', out, assets, script, role'), pre' @ x' # post')), v1)"
    and loop: "for_each ?body pre' v1 = (Inr (), v2)" and fail: "?body x' v2 = (Inl e', v3)"
    by simp_all
  from loop fail have "for_each ?body (pre' @ x' # post') v1 = (Inl e', v3)"
    by (simp add: for_each_append)
  with scan show "lambda_handler_s3_glue_job_creator en' event' v = (Inl e', v3)"
    by (simp add: lambda_handler_s3_glue_job_creator_def pbind_def)
  have mem: "p \<in> set (pre' @ [x']) \<Longrightarrow> keeps (others_kept tn' ?ks) (?body p)" for p
    by (rule job_s3_obj_others_kept) (rule record_ids_mem)
  from keeps_scan_s3_glue_job_creator [OF frame_rel_others_kept] scan
  have 1: "others_kept tn' ?ks v v1" by (blast dest: keepsD)
  from keeps_for_each_mem [where R = "others_kept tn' ?ks" and xs = pre' and body = ?body,
         OF frame_rel_others_kept] mem loop
  have 2: "others_kept tn' ?ks v1 v2" by (auto dest: keepsD)
  from mem [of x'] fail have 3: "others_kept tn' ?ks v2 v3" by (auto dest: keepsD)
  from 1 2 3
  show "\<forall>k. k \<notin> set ?ks \<longrightarrow> map_of (ddb v3 tn') k = map_of (ddb v tn') k"
    by (simp add: others_kept_def)
  from for_each_sets_flags [where body = ?body and tn = tn' and flag = "''glue_job_created''",
         OF _ _ loop]
    job_s3_obj_success job_s3_obj_flag_kept
  have set2: "\<forall>p \<in> set pre'. \<exists>k. record_id p = Some k \<and>
                flag_set (ddb v2 tn') k ''glue_job_created''"
    by blast
  have "flag_kept tn' k ''glue_job_created'' v2 v3" for k
    by (rule keepsD [OF job_s3_obj_flag_kept fail])
  then have "flag_set (ddb v2 tn') k ''glue_job_created'' \<Longrightarrow>
        flag_set (ddb v3 tn') k ''glue_job_created''" for k
    by (simp add: flag_kept_def)
  with set2
  show "\<forall>p \<in> set pre'. \<exists>k. record_id p = Some k \<and>
          flag_set (ddb v3 tn') k ''glue_job_created''"
    by blast
qed

lemmas stage_defs =
  lambda_handler_catalog_creator_s3_def scan_catalog_creator_s3_def catalog_s3_obj_def
  create_data_catalog_table_def create_crawler_def update_ddb_catalog_creator_s3_def
  where_catalog_creator_s3_def DDB_PARTIQL_catalog_creator_s3_def
  lambda_handler_s3_glue_job_creator_def scan_s3_glue_job_creator_def job_s3_obj_def
  create_glue_job_def update_ddb_s3_glue_job_creator_def region_of_def
  where_s3_glue_job_creator_def DDB_PARTIQL_s3_glue_job_creator_def
  py_str_def fmt_opt_def GLUE_SCRIPT_FILE_NAME_def GLUE_DEFAULT_ARGS_def
  fails_on_def create_table_call_def create_workflow_call_def flag_set_def record_id_def

text \<open>
  C2 fails as stated: with two bucket records scanned and \<open>create_table\<close> raising for the
  first, the catalog-stage handler ends with the exception and the second record is left as
  it was.
\<close>

theorem later_records_left_unprocessed:
  "fst (lambda_handler_catalog_creator_s3 (fails_on (create_table_call ''b1'')) (JObj [])
          discovered_world) = Inl (ClientError ''AlreadyExistsException'') \<and>
   map_of (ddb (snd (lambda_handler_catalog_creator_s3 (fails_on (create_table_call ''b1''))
                       (JObj []) discovered_world)) ''tracker'') ''r2'' =
     Some (bucket_record ''r2'' ''b2'')"
proof -
  have "(\<lambda>p. (fst p, map_of (ddb (snd p) ''tracker'') ''r2''))
          (lambda_handler_catalog_creator_s3 (fails_on (create_table_call ''b1'')) (JObj [])
             discovered_world) =
        (Inl (ClientError ''AlreadyExistsException''), Some (bucket_record ''r2'' ''b2''))"
    by (simp add: stage_defs run_defs example_defs)
  then show ?thesis by simp
qed

theorem failure_ends_the_batch_witness:
  "fst (lambda_handler_catalog_creator_s3 (fails_on (create_table_call ''b2'')) (JObj [])
          discovered_world) = Inl (ClientError ''AlreadyExistsException'') \<and>
   flag_set (ddb (snd (lambda_handler_catalog_creator_s3 (fails_on (create_table_call ''b2''))
                         (JObj []) discovered_world)) ''tracker'') ''r1''
     ''data_catalog_entry'' \<and>
   fst (lambda_handler_s3_glue_job_creator (fails_on (create_workflow_call ''b1'')) (JObj [])
          catalogued_world) = Inl (ClientError ''AlreadyExistsException'') \<and>
   map_of (ddb (snd (lambda_handler_s3_glue_job_creator
                       (fails_on (create_workflow_call ''b1'')) (JObj []) catalogued_world))
             ''tracker'') ''r2'' = Some (catalogued_record ''r2'' ''b2'')"
proof -
  let ?en = "fails_on (create_table_call ''b2'')"
  let ?r1 = "JObj (bucket_record ''r1'' ''b1'')"
  let ?r2 = "JObj (bucket_record ''r2'' ''b2'')"
  let ?acct = "JStr ''111122223333''"
  let ?body = "catalog_s3_obj ?en ''tracker'' ''role'' ''db'' ?acct"
  let ?w1 = "snd (scan_catalog_creator_s3 ?en discovered_world)"
  let ?w2 = "snd (for_each ?body [?r1] ?w1)"
  let ?w3 = "snd (?body ?r2 ?w2)"
  let ?e = "ClientError ''AlreadyExistsException''"
  have s: "scan_catalog_creator_s3 ?en discovered_world =
             (Inr (Some ((''tracker'', ''role'', ''db'', ?acct), [?r1] @ ?r2 # [])), ?w1)"
    by (simp add: stage_defs run_defs example_defs)
  have l: "for_each ?body [?r1] ?w1 = (Inr (), ?w2)"
    by (simp add: stage_defs run_defs example_defs)
  have f: "?body ?r2 ?w2 = (Inl ?e, ?w3)"
    by (simp add: stage_defs run_defs example_defs)
  have id1: "record_id ?r1 = Some ''r1''"
    by (simp add: record_id_def bucket_record_def)
  let ?en' = "fails_on (create_workflow_call ''b1'')"
  let ?c1 = "JObj (catalogued_record ''r1'' ''b1'')"
  let ?c2 = "JObj (catalogued_record ''r2'' ''b2'')"
  let ?job = "job_s3_obj ?en' ''tracker'' ''pii'' ''assets'' (Some ''scripts'') ''role''"
  let ?v1 = "snd (scan_s3_glue_job_creator ?en' catalogued_world)"
  let ?v3 = "snd (?job ?c1 ?v1)"
  have s': "scan_s3_glue_job_creator ?en' catalogued_world =
             (Inr (Some ((''tracker'', ''pii'', ''assets'', Some ''scripts'', ''role''),
                         [] @ ?c1 # [?c2])), ?v1)"
    by (simp add: stage_defs run_defs example_defs)
  have l': "for_each ?job [] ?v1 = (Inr (), ?v1)"
    by simp
  have f': "?job ?c1 ?v1 = (Inl ?e, ?v3)"
    by (simp add: stage_defs run_defs example_defs)
  have un: "''r2'' \<notin> set (List.map_filter record_id ([] @ [?c1]))"
    by (simp add: List.map_filter_def record_id_def catalogued_record_def)
  have st: "map_of (ddb catalogued_world ''tracker'') ''r2'' = Some (catalogued_record ''r2'' ''b2'')"
    by (simp add: catalogued_world_def store_of_def)
  note inst = failure_ends_the_batch
    [where en = ?en and w = discovered_world and tn = "''tracker''" and role = "''role''"
       and db = "''db''" and acct = ?acct and pre = "[?r1]" and x = ?r2 and post = "[]"
       and ?w1.0 = ?w1 and ?w2.0 = ?w2 and e = ?e and ?w3.0 = ?w3 and event = "JObj []"
       and en' = ?en' and v = catalogued_world and tn' = "''tracker''" and out = "''pii''"
       and assets = "''assets''" and script = "Some ''scripts''" and role' = "''role''"
       and pre' = "[]" and x' = ?c1 and post' = "[?c2]" and ?v1.0 = ?v1 and ?v2.0 = ?v1
       and e' = ?e and ?v3.0 = ?v3 and event' = "JObj []"]
  from inst s l f have
    1: "lambda_handler_catalog_creator_s3 ?en (JObj []) discovered_world = (Inl ?e, ?w3)"
    and 2: "\<exists>k. record_id ?r1 = Some k \<and> flag_set (ddb ?w3 ''tracker'') k ''data_catalog_entry''"
    by simp_all
  from inst s' l' f' have
    3: "lambda_handler_s3_glue_job_creator ?en' (JObj []) catalogued_world = (Inl ?e, ?v3)"
    and 4: "\<forall>k. k \<notin> set (List.map_filter record_id ([] @ [?c1])) \<longrightarrow>
              map_of (ddb ?v3 ''tracker'') k = map_of (ddb catalogued_world ''tracker'') k"
    by simp_all
  from 4 un st have 5: "map_of (ddb ?v3 ''tracker'') ''r2'' = Some (catalogued_record ''r2'' ''b2'')"
    by metis
  from 1 2 3 5 id1 show ?thesis by simp
qed

end
